theory Spec2Isabelle
  imports Main "HOL-Library.AList" "HOL-Library.Sublist"
begin

section \<open>Python values\<close>

text \<open>
  The request body, the circuit description, the credential bundles and the runner results are
  JSON-shaped Python objects. A float is carried by its \<^verbatim>\<open>repr\<close> text: no arithmetic on
  request floats happens in the modelled code, they are only passed on or printed. A complex
  number, which only a state vector holds, is carried by its \<^verbatim>\<open>repr\<close> text too. A dictionary
  is an association list in insertion order, read with \<^const>\<open>map_of\<close> and written with
  \<^const>\<open>AList.update\<close> (an existing key keeps its place, a new key goes to the end).
\<close>

datatype pyval =
    VNone
  | VBool bool
  | VInt int
  | VFloat string
  | VComplex string
  | VStr string
  | VList "pyval list"
  | VDict "(string \<times> pyval) list"

type_synonym pydict = "(string \<times> pyval) list"

text \<open>
  Exceptions, by class. \<open>SdkError\<close> stands for any exception class of a provider library
  that the code does not name in an \<^verbatim>\<open>except\<close> clause. The message of an
  exception raised by the interpreter itself (a \<^verbatim>\<open>TypeError\<close> on a bad subscript, say)
  is given in the wording of CPython 3.11.
\<close>

datatype py_exc =
    ValueError string
  | KeyError pyval
  | IndexError string
  | TypeError string
  | AttributeError string
  | RuntimeError string
  | ImportError string
  | IBMProviderError string
  | IBMRuntimeError string
  | SdkError string

fun is_ValueError :: "py_exc \<Rightarrow> bool" where
  "is_ValueError (ValueError m) = True"
| "is_ValueError e = False"

fun is_ImportError :: "py_exc \<Rightarrow> bool" where
  "is_ImportError (ImportError m) = True"
| "is_ImportError e = False"

definition ebind :: "'e + 'a \<Rightarrow> ('a \<Rightarrow> 'e + 'b) \<Rightarrow> 'e + 'b" where
  "ebind r f = (case r of Inl e \<Rightarrow> Inl e | Inr v \<Rightarrow> f v)"

subsection \<open>Strings\<close>

text \<open>
  A string is the list of its characters, and the texts of the program are ASCII:
  \<^verbatim>\<open>lower()\<close> maps the letters A to Z, and the length and the elements of a string are
  those of the list. On text outside ASCII Python's \<^verbatim>\<open>lower()\<close> and \<^verbatim>\<open>len\<close> differ from
  these.
\<close>

definition lower_char :: "char \<Rightarrow> char" where
  "lower_char c =
     (case map_of (zip ''ABCDEFGHIJKLMNOPQRSTUVWXYZ'' ''abcdefghijklmnopqrstuvwxyz'') c of
        None \<Rightarrow> c | Some l \<Rightarrow> l)"

definition str_lower :: "string \<Rightarrow> string" where
  "str_lower s = map lower_char s"

text \<open>\<^verbatim>\<open>sub in s\<close> on strings.\<close>

fun contains :: "string \<Rightarrow> string \<Rightarrow> bool" where
  "contains sub [] = (sub = [])"
| "contains sub (c # cs) = (prefix sub (c # cs) \<or> contains sub cs)"

fun dec_nat :: "nat \<Rightarrow> string" where
  "dec_nat n =
     (if n < 10 then [''0123456789'' ! n]
      else dec_nat (n div 10) @ [''0123456789'' ! (n mod 10)])"

definition dec_int :: "int \<Rightarrow> string" where
  "dec_int i = (if i < 0 then CHR ''-'' # dec_nat (nat (- i)) else dec_nat (nat i))"

definition hex2 :: "nat \<Rightarrow> string" where
  "hex2 n = [''0123456789abcdef'' ! (n div 16), ''0123456789abcdef'' ! (n mod 16)]"

text \<open>
  \<^verbatim>\<open>repr\<close> of a string: double quotes when the text has a single quote and no double
  quote, single quotes otherwise; the quote and the backslash are escaped, and so are control
  characters. Bytes from 128 on belong to printable characters and stay.
\<close>

definition repr_char :: "char \<Rightarrow> char \<Rightarrow> string" where
  "repr_char q c =
     (if c = q \<or> c = CHR 0x5C then [CHR 0x5C, c]
      else if c = CHR 0x09 then [CHR 0x5C, CHR ''t'']
      else if c = CHR 0x0A then [CHR 0x5C, CHR ''n'']
      else if c = CHR 0x0D then [CHR 0x5C, CHR ''r'']
      else if (of_char c :: nat) < 32 \<or> (of_char c :: nat) = 127
        then [CHR 0x5C, CHR ''x''] @ hex2 (of_char c)
      else [c])"

definition repr_str :: "string \<Rightarrow> string" where
  "repr_str s =
     (let q = (if CHR 0x27 \<in> set s \<and> CHR 0x22 \<notin> set s then CHR 0x22 else CHR 0x27)
      in q # concat (map (repr_char q) s) @ [q])"

fun join :: "string \<Rightarrow> string list \<Rightarrow> string" where
  "join sep [] = []"
| "join sep [x] = x"
| "join sep (x # y # ys) = x @ sep @ join sep (y # ys)"

primrec py_repr :: "pyval \<Rightarrow> string" where
  "py_repr VNone = ''None''"
| "py_repr (VBool b) = (if b then ''True'' else ''False'')"
| "py_repr (VInt i) = dec_int i"
| "py_repr (VFloat s) = s"
| "py_repr (VComplex s) = s"
| "py_repr (VStr s) = repr_str s"
| "py_repr (VList xs) = ''['' @ join '', '' (map py_repr xs) @ '']''"
| "py_repr (VDict kvs) =
     ''{'' @ join '', '' (map (\<lambda>kv. repr_str (fst kv) @ '': '' @ snd kv)
                              (map (map_prod id py_repr) kvs)) @ ''}''"

text \<open>\<^verbatim>\<open>str(v)\<close>, also what an f-string puts in place of \<^verbatim>\<open>{v}\<close>.\<close>

definition py_str :: "pyval \<Rightarrow> string" where
  "py_str v = (case v of VStr s \<Rightarrow> s | _ \<Rightarrow> py_repr v)"

text \<open>\<^verbatim>\<open>str(e)\<close> of an exception: a \<^verbatim>\<open>KeyError\<close> prints the \<^verbatim>\<open>repr\<close> of its key.\<close>

fun exc_str :: "py_exc \<Rightarrow> string" where
  "exc_str (KeyError k) = py_repr k"
| "exc_str (ValueError m) = m"
| "exc_str (IndexError m) = m"
| "exc_str (TypeError m) = m"
| "exc_str (AttributeError m) = m"
| "exc_str (RuntimeError m) = m"
| "exc_str (ImportError m) = m"
| "exc_str (IBMProviderError m) = m"
| "exc_str (IBMRuntimeError m) = m"
| "exc_str (SdkError m) = m"

subsection \<open>Operations of the interpreter\<close>

fun type_name :: "pyval \<Rightarrow> string" where
  "type_name VNone = ''NoneType''"
| "type_name (VBool b) = ''bool''"
| "type_name (VInt i) = ''int''"
| "type_name (VFloat s) = ''float''"
| "type_name (VComplex s) = ''complex''"
| "type_name (VStr s) = ''str''"
| "type_name (VList xs) = ''list''"
| "type_name (VDict kvs) = ''dict''"

definition quoted :: "string \<Rightarrow> string" where
  "quoted s = [CHR 0x27] @ s @ [CHR 0x27]"

definition no_attribute :: "pyval \<Rightarrow> string \<Rightarrow> string" where
  "no_attribute v a = quoted (type_name v) @ '' object has no attribute '' @ quoted a"

text \<open>Truth value of an object in a condition.\<close>

fun py_truthy :: "pyval \<Rightarrow> bool" where
  "py_truthy VNone = False"
| "py_truthy (VBool b) = b"
| "py_truthy (VInt i) = (i \<noteq> 0)"
| "py_truthy (VFloat s) = (s \<noteq> ''0.0'' \<and> s \<noteq> ''-0.0'')"
| "py_truthy (VComplex s) = (s \<notin> set [''0j'', ''-0j'', ''(-0+0j)'', ''(-0-0j)''])"
| "py_truthy (VStr s) = (s \<noteq> [])"
| "py_truthy (VList xs) = (xs \<noteq> [])"
| "py_truthy (VDict kvs) = (kvs \<noteq> [])"

text \<open>\<^verbatim>\<open>isinstance(v, int)\<close>: \<^verbatim>\<open>bool\<close> is a subclass of \<^verbatim>\<open>int\<close>.\<close>

fun is_int :: "pyval \<Rightarrow> bool" where
  "is_int (VInt i) = True"
| "is_int (VBool b) = True"
| "is_int v = False"

fun is_list :: "pyval \<Rightarrow> bool" where
  "is_list (VList xs) = True"
| "is_list v = False"

text \<open>\<^verbatim>\<open>d[k]\<close> for a string key \<open>k\<close>.\<close>

fun py_getitem :: "pyval \<Rightarrow> string \<Rightarrow> py_exc + pyval" where
  "py_getitem (VDict kvs) k = (case map_of kvs k of Some v \<Rightarrow> Inr v | None \<Rightarrow> Inl (KeyError (VStr k)))"
| "py_getitem (VStr s) k = Inl (TypeError (''string indices must be integers, not '' @ quoted ''str''))"
| "py_getitem (VList xs) k = Inl (TypeError ''list indices must be integers or slices, not str'')"
| "py_getitem v k = Inl (TypeError (quoted (type_name v) @ '' object is not subscriptable''))"

text \<open>\<^verbatim>\<open>d.get(k, default)\<close>; only a dictionary has the method.\<close>

fun py_get :: "pyval \<Rightarrow> string \<Rightarrow> pyval \<Rightarrow> py_exc + pyval" where
  "py_get (VDict kvs) k d = Inr (case map_of kvs k of Some v \<Rightarrow> v | None \<Rightarrow> d)"
| "py_get v k d = Inl (AttributeError (no_attribute v ''get''))"

text \<open>\<^verbatim>\<open>s.lower()\<close>; only a string has the method.\<close>

fun py_lower :: "pyval \<Rightarrow> py_exc + string" where
  "py_lower (VStr s) = Inr (str_lower s)"
| "py_lower v = Inl (AttributeError (no_attribute v ''lower''))"

text \<open>\<^verbatim>\<open>len(v)\<close>.\<close>

fun py_len :: "pyval \<Rightarrow> py_exc + nat" where
  "py_len (VList xs) = Inr (length xs)"
| "py_len (VDict kvs) = Inr (length kvs)"
| "py_len (VStr s) = Inr (length s)"
| "py_len v = Inl (TypeError (''object of type '' @ quoted (type_name v) @ '' has no len()''))"

text \<open>The elements a \<^verbatim>\<open>for\<close> loop or a comprehension draws from an object.\<close>

fun py_iter :: "pyval \<Rightarrow> py_exc + pyval list" where
  "py_iter (VList xs) = Inr xs"
| "py_iter (VDict kvs) = Inr (map (\<lambda>kv. VStr (fst kv)) kvs)"
| "py_iter (VStr s) = Inr (map (\<lambda>c. VStr [c]) s)"
| "py_iter v = Inl (TypeError (quoted (type_name v) @ '' object is not iterable''))"

text \<open>
  \<^verbatim>\<open>xs[i]\<close> on a list: an index from \<open>-len\<close> up to \<open>len - 1\<close> is accepted, a negative one
  counting from the end; anything else in the integers raises \<^verbatim>\<open>IndexError\<close>, with
  another message when the index does not fit a machine word of 64 bits, and an index that is
  no integer raises \<^verbatim>\<open>TypeError\<close>.
\<close>

definition list_index_int :: "'a list \<Rightarrow> int \<Rightarrow> py_exc + 'a" where
  "list_index_int xs i =
     (if 0 \<le> i \<and> i < int (length xs) then Inr (xs ! nat i)
      else if i < 0 \<and> - int (length xs) \<le> i then Inr (xs ! nat (int (length xs) + i))
      else if i < - (2 ^ 63) \<or> 2 ^ 63 \<le> i then
        Inl (IndexError (''cannot fit '' @ quoted ''int'' @ '' into an index-sized integer''))
      else Inl (IndexError ''list index out of range''))"

fun list_index :: "'a list \<Rightarrow> pyval \<Rightarrow> py_exc + 'a" where
  "list_index xs (VInt i) = list_index_int xs i"
| "list_index xs (VBool b) = list_index_int xs (if b then 1 else 0)"
| "list_index xs v =
     Inl (TypeError (''list indices must be integers or slices, not '' @ type_name v))"


section \<open>The provider libraries\<close>

text \<open>
  Qiskit, Cirq, Braket, PennyLane and the remote services are outside the repository. A call
  into them is recorded as the method name and its arguments; what they answer is a parameter
  \<open>w\<close> of the model, so every theorem below holds whatever the libraries do:
  \<^item> \<open>raises\<close>: whether a circuit-construction call raises, given the calls made on the
    circuit so far;
  \<^item> \<open>connect\<close>: whether opening a device, a service or a backend raises;
  \<^item> \<open>run_counts\<close>: running a circuit for sampled outcomes and reading the counts, a
    dictionary unless some step raises;
  \<^item> \<open>run_state\<close>: running a circuit for its state vector and calling \<^verbatim>\<open>tolist()\<close> on
    it, which gives a list of complex numbers, each given here by its \<^verbatim>\<open>repr\<close>;
  \<^item> \<open>probabilities_of\<close>: the comprehension
    \<^verbatim>\<open>{format(i, f'0{circuit_data["qubits"]}b'): abs(amp)**2 for i, amp in enumerate(statevector)}\<close>
    over the circuit description and the state vector (floating-point arithmetic and
    format-specification parsing of the interpreter), a dictionary unless it raises; its first
    argument tells the spelling \<^verbatim>\<open>format\<close> from the spelling \<^verbatim>\<open>bin(i)[2:].zfill\<close>;
  \<^item> \<open>getenv\<close>: the process environment, a string or \<^verbatim>\<open>None\<close>.
\<close>

datatype sdk_call = Call string "pyval list"

record sdk =
  raises :: "sdk_call list \<Rightarrow> sdk_call \<Rightarrow> py_exc option"
  connect :: "sdk_call \<Rightarrow> py_exc option"
  run_counts :: "sdk_call \<Rightarrow> sdk_call list \<Rightarrow> pyval \<Rightarrow> py_exc + pydict"
  run_state :: "sdk_call \<Rightarrow> sdk_call list \<Rightarrow> py_exc + string list"
  probabilities_of :: "string \<Rightarrow> pyval \<Rightarrow> string list \<Rightarrow> py_exc + pydict"
  getenv :: "string \<Rightarrow> pyval"

text \<open>The list of complex numbers that \<^verbatim>\<open>tolist()\<close> makes of a state vector.\<close>

definition amplitudes :: "string list \<Rightarrow> pyval" where
  "amplitudes statevector = VList (map VComplex statevector)"

text \<open>A native circuit is the sequence of calls made on it.\<close>

type_synonym native_circuit = "sdk_call list"

definition sdk_do :: "sdk \<Rightarrow> native_circuit \<Rightarrow> sdk_call \<Rightarrow> py_exc + native_circuit" where
  "sdk_do w circuit c = (case raises w circuit c of Some e \<Rightarrow> Inl e | None \<Rightarrow> Inr (circuit @ [c]))"

definition sdk_connect :: "sdk \<Rightarrow> sdk_call \<Rightarrow> py_exc + unit" where
  "sdk_connect w c = (case connect w c of Some e \<Rightarrow> Inl e | None \<Rightarrow> Inr ())"

text \<open>A \<^verbatim>\<open>for\<close> loop over a list: the body runs on each element in order, from the
  state the previous round left, and the first exception ends the loop.\<close>

fun for_each :: "('s \<Rightarrow> pyval \<Rightarrow> py_exc + 's) \<Rightarrow> 's \<Rightarrow> pyval list \<Rightarrow> py_exc + 's" where
  "for_each body s [] = Inr s"
| "for_each body s (g # gs) = ebind (body s g) (\<lambda>s'. for_each body s' gs)"

text \<open>\<^verbatim>\<open>range(n)\<close> as a list, as \<^verbatim>\<open>cirq.LineQubit.range\<close> uses it.\<close>

fun py_range :: "pyval \<Rightarrow> py_exc + nat list" where
  "py_range (VInt n) = Inr [0..<nat n]"
| "py_range (VBool b) = Inr [0..<(if b then 1 else 0)]"
| "py_range v =
     Inl (TypeError (quoted (type_name v) @ '' object cannot be interpreted as an integer''))"

text \<open>\<^verbatim>\<open>controls and len(controls) == 2\<close>.\<close>

definition two_controls :: "pyval \<Rightarrow> py_exc + bool" where
  "two_controls controls =
     (if py_truthy controls then ebind (py_len controls) (\<lambda>n. Inr (n = 2)) else Inr False)"

text \<open>\<^verbatim>\<open>controls[i]\<close> for a constant \<open>i\<close>, reached only after the length test.\<close>

fun py_index :: "pyval \<Rightarrow> int \<Rightarrow> py_exc + pyval" where
  "py_index (VList xs) i = list_index_int xs i"
| "py_index (VStr s) i = ebind (list_index_int s i) (\<lambda>c. Inr (VStr [c]))"
| "py_index (VDict kvs) i = Inl (KeyError (VInt i))"
| "py_index v i = Inl (TypeError (quoted (type_name v) @ '' object is not subscriptable''))"

text \<open>
  \<^verbatim>\<open>any(g["gate"].lower() == "measure" for g in gates)\<close>: stops at the first measurement,
  raises at a gate without a usable kind before that.
\<close>

fun any_measure :: "pyval list \<Rightarrow> py_exc + bool" where
  "any_measure [] = Inr False"
| "any_measure (g # gs) =
     ebind (py_getitem g ''gate'') (\<lambda>k. ebind (py_lower k) (\<lambda>gate_type.
       if gate_type = ''measure'' then Inr True else any_measure gs))"

section \<open>Translation of the gate list, one function per adapter\<close>

subsection \<open>\<^verbatim>\<open>cirq_backend._build_cirq_circuit\<close>\<close>

text \<open>A \<^verbatim>\<open>LineQubit\<close> is its index; \<open>qubits\<close> is the list \<^verbatim>\<open>LineQubit.range\<close> built.\<close>

definition line_qubit :: "nat \<Rightarrow> pyval" where
  "line_qubit i = VInt (int i)"

definition cirq_gate :: "sdk \<Rightarrow> nat list \<Rightarrow> native_circuit \<Rightarrow> pyval \<Rightarrow> py_exc + native_circuit" where
  "cirq_gate w qubits circuit gate_info =
     ebind (py_getitem gate_info ''gate'') (\<lambda>k. ebind (py_lower k) (\<lambda>gate_type.
     ebind (py_getitem gate_info ''target'') (\<lambda>t. ebind (list_index qubits t) (\<lambda>target.
       if gate_type = ''h'' then sdk_do w circuit (Call ''cirq.H'' [line_qubit target])
       else if gate_type = ''x'' then sdk_do w circuit (Call ''cirq.X'' [line_qubit target])
       else if gate_type = ''y'' then sdk_do w circuit (Call ''cirq.Y'' [line_qubit target])
       else if gate_type = ''z'' then sdk_do w circuit (Call ''cirq.Z'' [line_qubit target])
       else if gate_type = ''s'' then sdk_do w circuit (Call ''cirq.S'' [line_qubit target])
       else if gate_type = ''sdg'' then sdk_do w circuit (Call ''cirq.S**-1'' [line_qubit target])
       else if gate_type = ''t'' then sdk_do w circuit (Call ''cirq.T'' [line_qubit target])
       else if gate_type = ''tdg'' then sdk_do w circuit (Call ''cirq.T**-1'' [line_qubit target])
       else if gate_type = ''rx'' then
         ebind (py_getitem gate_info ''params'') (\<lambda>params. ebind (py_getitem params ''theta'')
           (\<lambda>theta. sdk_do w circuit (Call ''cirq.rx'' [theta, line_qubit target])))
       else if gate_type = ''ry'' then
         ebind (py_getitem gate_info ''params'') (\<lambda>params. ebind (py_getitem params ''theta'')
           (\<lambda>theta. sdk_do w circuit (Call ''cirq.ry'' [theta, line_qubit target])))
       else if gate_type = ''rz'' then
         ebind (py_getitem gate_info ''params'') (\<lambda>params. ebind (py_getitem params ''theta'')
           (\<lambda>theta. sdk_do w circuit (Call ''cirq.rz'' [theta, line_qubit target])))
       else if gate_type = ''cx'' then
         ebind (py_getitem gate_info ''control'') (\<lambda>c. ebind (list_index qubits c)
           (\<lambda>control. sdk_do w circuit (Call ''cirq.CNOT'' [line_qubit control, line_qubit target])))
       else if gate_type = ''ccx'' then
         ebind (py_getitem gate_info ''controls'') (\<lambda>cs. ebind (py_iter cs) (\<lambda>cs'.
         ebind (for_each (\<lambda>acc c. ebind (list_index qubits c) (\<lambda>q. Inr (acc @ [q]))) [] cs')
           (\<lambda>controls.
              if length controls = 2
              then sdk_do w circuit (Call ''cirq.CCNOT'' [line_qubit (controls ! 0), line_qubit (controls ! 1), line_qubit target])
              else Inl (ValueError (''CCX gate requires exactly 2 control qubits, got ''
                                     @ dec_nat (length controls))))))
       else if gate_type = ''swap'' then
         ebind (py_getitem gate_info ''target'') (\<lambda>t1. ebind (list_index qubits t1) (\<lambda>q1.
         ebind (py_getitem gate_info ''control'') (\<lambda>t2. ebind (list_index qubits t2) (\<lambda>q2.
           sdk_do w circuit (Call ''cirq.SWAP'' [line_qubit q1, line_qubit q2])))))
       else if gate_type = ''measure'' then
         sdk_do w circuit (Call ''cirq.measure'' [line_qubit target, VStr (''q'' @ py_str t)])
       else Inl (ValueError (''Unsupported gate type for Cirq: '' @ gate_type))))))"

definition build_cirq_circuit :: "sdk \<Rightarrow> pyval \<Rightarrow> py_exc + native_circuit" where
  "build_cirq_circuit w circuit_data =
     ebind (py_getitem circuit_data ''qubits'') (\<lambda>num_qubits.
     ebind (py_range num_qubits) (\<lambda>qubits.
     ebind (py_getitem circuit_data ''gates'') (\<lambda>gs. ebind (py_iter gs) (\<lambda>gates.
       for_each (cirq_gate w qubits) [] gates))))"


subsection \<open>\<^verbatim>\<open>aer_backend._build_qiskit_circuit_aer\<close>\<close>

text \<open>
  The loop state is the circuit and the flag \<open>has_explicit_measurements\<close>. The last branch
  prints a warning and goes on to the next gate; the printed line is not modelled.
\<close>

definition emit :: "sdk \<Rightarrow> native_circuit \<times> bool \<Rightarrow> sdk_call \<Rightarrow> py_exc + native_circuit \<times> bool" where
  "emit w s c = ebind (sdk_do w (fst s) c) (\<lambda>circuit. Inr (circuit, snd s))"

definition aer_gate :: "sdk \<Rightarrow> native_circuit \<times> bool \<Rightarrow> pyval \<Rightarrow> py_exc + native_circuit \<times> bool" where
  "aer_gate w s gate_info =
     ebind (py_getitem gate_info ''gate'') (\<lambda>k. ebind (py_lower k) (\<lambda>gate_type.
     ebind (py_get gate_info ''target'' VNone) (\<lambda>target.
     ebind (py_get gate_info ''control'' VNone) (\<lambda>control.
     ebind (py_get gate_info ''params'' (VDict [])) (\<lambda>params.
       if target \<noteq> VNone \<and> \<not> is_int target then
         Inl (ValueError (''Invalid target for '' @ gate_type @ '' gate: '' @ py_str target
                          @ ''. Must be an integer.''))
       else if control \<noteq> VNone \<and> \<not> is_int control then
         Inl (ValueError (''Invalid control for '' @ gate_type @ '' gate: '' @ py_str control
                          @ ''. Must be an integer.''))
       else if gate_type = ''h'' then emit w s (Call ''h'' [target])
       else if gate_type = ''x'' then emit w s (Call ''x'' [target])
       else if gate_type = ''y'' then emit w s (Call ''y'' [target])
       else if gate_type = ''z'' then emit w s (Call ''z'' [target])
       else if gate_type = ''s'' then emit w s (Call ''s'' [target])
       else if gate_type = ''sdg'' then emit w s (Call ''sdg'' [target])
       else if gate_type = ''t'' then emit w s (Call ''t'' [target])
       else if gate_type = ''tdg'' then emit w s (Call ''tdg'' [target])
       else if gate_type = ''rx'' then
         ebind (py_get params ''theta'' (VInt 0)) (\<lambda>theta. emit w s (Call ''rx'' [theta, target]))
       else if gate_type = ''ry'' then
         ebind (py_get params ''theta'' (VInt 0)) (\<lambda>theta. emit w s (Call ''ry'' [theta, target]))
       else if gate_type = ''rz'' then
         ebind (py_get params ''theta'' (VInt 0)) (\<lambda>theta. emit w s (Call ''rz'' [theta, target]))
       else if gate_type = ''p'' then
         ebind (py_get params ''theta'' (VInt 0)) (\<lambda>theta. emit w s (Call ''p'' [theta, target]))
       else if gate_type = ''u'' then
         ebind (py_get params ''theta'' (VInt 0)) (\<lambda>theta.
         ebind (py_get params ''phi'' (VInt 0)) (\<lambda>phi.
         ebind (py_get params ''lambda'' (VInt 0)) (\<lambda>lam.
           emit w s (Call ''u'' [theta, phi, lam, target]))))
       else if gate_type = ''cx'' then emit w s (Call ''cx'' [control, target])
       else if gate_type = ''cy'' then emit w s (Call ''cy'' [control, target])
       else if gate_type = ''cz'' then emit w s (Call ''cz'' [control, target])
       else if gate_type = ''swap'' then emit w s (Call ''swap'' [control, target])
       else if gate_type = ''crx'' then
         ebind (py_get params ''theta'' (VInt 0)) (\<lambda>theta.
           emit w s (Call ''crx'' [theta, control, target]))
       else if gate_type = ''cry'' then
         ebind (py_get params ''theta'' (VInt 0)) (\<lambda>theta.
           emit w s (Call ''cry'' [theta, control, target]))
       else if gate_type = ''crz'' then
         ebind (py_get params ''theta'' (VInt 0)) (\<lambda>theta.
           emit w s (Call ''crz'' [theta, control, target]))
       else if gate_type = ''cu'' then
         ebind (py_get params ''theta'' (VInt 0)) (\<lambda>theta.
         ebind (py_get params ''phi'' (VInt 0)) (\<lambda>phi.
         ebind (py_get params ''lambda'' (VInt 0)) (\<lambda>lam.
         ebind (py_get params ''gamma'' (VInt 0)) (\<lambda>gamma.
           emit w s (Call ''cu'' [theta, phi, lam, gamma, control, target])))))
       else if gate_type = ''ccx'' then
         ebind (py_get gate_info ''control1'' VNone) (\<lambda>control1.
         ebind (py_get gate_info ''control2'' VNone) (\<lambda>control2.
           if control1 = VNone \<or> control2 = VNone then
             Inl (ValueError (''Both control1 and control2 must be specified for '' @ gate_type
                              @ '' gate.''))
           else emit w s (Call ''ccx'' [control1, control2, target])))
       else if gate_type = ''measure'' then
         ebind (py_get gate_info ''classical_bit'' target) (\<lambda>cb.
           let classical_bit = (if cb = VNone then target else cb) in
           ebind (sdk_do w (fst s) (Call ''measure'' [target, classical_bit]))
             (\<lambda>circuit. Inr (circuit, True)))
       else Inr s)))))"

definition build_qiskit_circuit_aer :: "sdk \<Rightarrow> pyval \<Rightarrow> py_exc + native_circuit \<times> bool" where
  "build_qiskit_circuit_aer w circuit_data =
     ebind (py_getitem circuit_data ''qubits'') (\<lambda>num_qubits.
     ebind (sdk_do w [] (Call ''QuantumCircuit'' [num_qubits, num_qubits])) (\<lambda>circuit.
     ebind (py_getitem circuit_data ''gates'') (\<lambda>gs. ebind (py_iter gs) (\<lambda>gates.
       for_each (aer_gate w) (circuit, False) gates))))"

subsection \<open>The gate loop inside \<^verbatim>\<open>ibm_backend.run_ibm\<close>\<close>

text \<open>
  A measurement first adds a classical register when the circuit has fewer classical bits than
  qubits, a test on the library's object: the call \<open>add_register\<close> stands for the two lines.
  The last branch prints a warning and goes on.
\<close>

definition ibm_gate :: "sdk \<Rightarrow> native_circuit \<Rightarrow> pyval \<Rightarrow> py_exc + native_circuit" where
  "ibm_gate w circuit gate_info =
     ebind (py_getitem gate_info ''gate'') (\<lambda>k. ebind (py_lower k) (\<lambda>gate_type.
     ebind (py_get gate_info ''target'' VNone) (\<lambda>target.
     ebind (py_get gate_info ''control'' VNone) (\<lambda>control.
     ebind (py_get gate_info ''controls'' VNone) (\<lambda>controls.
     ebind (py_get gate_info ''params'' (VDict [])) (\<lambda>params.
       if gate_type = ''h'' then sdk_do w circuit (Call ''h'' [target])
       else if gate_type = ''x'' then sdk_do w circuit (Call ''x'' [target])
       else if gate_type = ''y'' then sdk_do w circuit (Call ''y'' [target])
       else if gate_type = ''z'' then sdk_do w circuit (Call ''z'' [target])
       else if gate_type = ''s'' then sdk_do w circuit (Call ''s'' [target])
       else if gate_type = ''sdg'' then sdk_do w circuit (Call ''sdg'' [target])
       else if gate_type = ''t'' then sdk_do w circuit (Call ''t'' [target])
       else if gate_type = ''tdg'' then sdk_do w circuit (Call ''tdg'' [target])
       else if gate_type = ''rx'' then
         ebind (py_get params ''theta'' (VInt 0)) (\<lambda>theta. sdk_do w circuit (Call ''rx'' [theta, target]))
       else if gate_type = ''ry'' then
         ebind (py_get params ''theta'' (VInt 0)) (\<lambda>theta. sdk_do w circuit (Call ''ry'' [theta, target]))
       else if gate_type = ''rz'' then
         ebind (py_get params ''theta'' (VInt 0)) (\<lambda>theta. sdk_do w circuit (Call ''rz'' [theta, target]))
       else if gate_type = ''cx'' then sdk_do w circuit (Call ''cx'' [control, target])
       else if gate_type = ''ccx'' then
         ebind (two_controls controls) (\<lambda>ok.
           if ok then
             ebind (py_index controls 0) (\<lambda>c0. ebind (py_index controls 1) (\<lambda>c1.
               sdk_do w circuit (Call ''ccx'' [c0, c1, target])))
           else Inl (ValueError ''CCX gate requires exactly 2 control qubits.''))
       else if gate_type = ''swap'' then sdk_do w circuit (Call ''swap'' [target, control])
       else if gate_type = ''measure'' then
         ebind (sdk_do w circuit (Call ''add_register'' []))
           (\<lambda>circuit'. sdk_do w circuit' (Call ''measure'' [target, target]))
       else Inr circuit))))))"

subsection \<open>\<^verbatim>\<open>ionq_backend._build_braket_circuit\<close> and
  \<^verbatim>\<open>rigetti_backend._build_braket_circuit_rigetti\<close>\<close>

text \<open>The two functions differ in the provider named by the last message only.\<close>

definition braket_gate :: "string \<Rightarrow> sdk \<Rightarrow> native_circuit \<Rightarrow> pyval \<Rightarrow> py_exc + native_circuit" where
  "braket_gate provider_label w circuit gate_info =
     ebind (py_getitem gate_info ''gate'') (\<lambda>k. ebind (py_lower k) (\<lambda>gate_type.
     ebind (py_getitem gate_info ''target'') (\<lambda>target.
     ebind (py_get gate_info ''control'' VNone) (\<lambda>control.
     ebind (py_get gate_info ''controls'' VNone) (\<lambda>controls.
     ebind (py_get gate_info ''params'' (VDict [])) (\<lambda>params.
       if gate_type = ''h'' then sdk_do w circuit (Call ''h'' [target])
       else if gate_type = ''x'' then sdk_do w circuit (Call ''x'' [target])
       else if gate_type = ''y'' then sdk_do w circuit (Call ''y'' [target])
       else if gate_type = ''z'' then sdk_do w circuit (Call ''z'' [target])
       else if gate_type = ''s'' then sdk_do w circuit (Call ''s'' [target])
       else if gate_type = ''sdg'' then sdk_do w circuit (Call ''sdg'' [target])
       else if gate_type = ''t'' then sdk_do w circuit (Call ''t'' [target])
       else if gate_type = ''tdg'' then sdk_do w circuit (Call ''tdg'' [target])
       else if gate_type = ''rx'' then
         ebind (py_get params ''theta'' (VInt 0)) (\<lambda>theta. sdk_do w circuit (Call ''rx'' [target, theta]))
       else if gate_type = ''ry'' then
         ebind (py_get params ''theta'' (VInt 0)) (\<lambda>theta. sdk_do w circuit (Call ''ry'' [target, theta]))
       else if gate_type = ''rz'' then
         ebind (py_get params ''theta'' (VInt 0)) (\<lambda>theta. sdk_do w circuit (Call ''rz'' [target, theta]))
       else if gate_type = ''cx'' then sdk_do w circuit (Call ''cnot'' [control, target])
       else if gate_type = ''ccx'' then
         ebind (two_controls controls) (\<lambda>ok.
           if ok then
             ebind (py_index controls 0) (\<lambda>c0. ebind (py_index controls 1) (\<lambda>c1.
               sdk_do w circuit (Call ''ccnot'' [c0, c1, target])))
           else Inl (ValueError ''CCX gate requires exactly 2 control qubits.''))
       else if gate_type = ''swap'' then sdk_do w circuit (Call ''swap'' [target, control])
       else if gate_type = ''measure'' then Inr circuit
       else Inl (ValueError (''Unsupported gate type for '' @ provider_label @ '': '' @ gate_type))))))))"

definition build_braket_circuit :: "sdk \<Rightarrow> pyval \<Rightarrow> py_exc + native_circuit" where
  "build_braket_circuit w circuit_data =
     ebind (py_getitem circuit_data ''qubits'') (\<lambda>num_qubits.
     ebind (py_getitem circuit_data ''gates'') (\<lambda>gs. ebind (py_iter gs) (\<lambda>gates.
       for_each (braket_gate ''IonQ (Braket)'' w) [] gates)))"

definition build_braket_circuit_rigetti :: "sdk \<Rightarrow> pyval \<Rightarrow> py_exc + native_circuit" where
  "build_braket_circuit_rigetti w circuit_data =
     ebind (py_getitem circuit_data ''qubits'') (\<lambda>num_qubits.
     ebind (py_getitem circuit_data ''gates'') (\<lambda>gs. ebind (py_iter gs) (\<lambda>gates.
       for_each (braket_gate ''Rigetti (Braket)'' w) [] gates)))"


subsection \<open>The gate loop of \<^verbatim>\<open>pennylane_backend._build_pennylane_circuit\<close>\<close>

definition pennylane_gate :: "sdk \<Rightarrow> native_circuit \<Rightarrow> pyval \<Rightarrow> py_exc + native_circuit" where
  "pennylane_gate w circuit gate_info =
     ebind (py_getitem gate_info ''gate'') (\<lambda>k. ebind (py_lower k) (\<lambda>gate_type.
     ebind (py_getitem gate_info ''target'') (\<lambda>target_qubit.
     ebind (py_get gate_info ''control'' VNone) (\<lambda>control_qubit.
     ebind (py_get gate_info ''controls'' VNone) (\<lambda>controls.
     ebind (py_get gate_info ''params'' (VDict [])) (\<lambda>params.
       if gate_type = ''h'' then sdk_do w circuit (Call ''qml.Hadamard'' [target_qubit])
       else if gate_type = ''x'' then sdk_do w circuit (Call ''qml.PauliX'' [target_qubit])
       else if gate_type = ''y'' then sdk_do w circuit (Call ''qml.PauliY'' [target_qubit])
       else if gate_type = ''z'' then sdk_do w circuit (Call ''qml.PauliZ'' [target_qubit])
       else if gate_type = ''s'' then sdk_do w circuit (Call ''qml.S'' [target_qubit])
       else if gate_type = ''sdg'' then sdk_do w circuit (Call ''qml.Adjoint(qml.S)'' [target_qubit])
       else if gate_type = ''t'' then sdk_do w circuit (Call ''qml.T'' [target_qubit])
       else if gate_type = ''tdg'' then sdk_do w circuit (Call ''qml.Adjoint(qml.T)'' [target_qubit])
       else if gate_type = ''rx'' then
         ebind (py_get params ''theta'' (VInt 0))
           (\<lambda>theta. sdk_do w circuit (Call ''qml.RX'' [theta, target_qubit]))
       else if gate_type = ''ry'' then
         ebind (py_get params ''theta'' (VInt 0))
           (\<lambda>theta. sdk_do w circuit (Call ''qml.RY'' [theta, target_qubit]))
       else if gate_type = ''rz'' then
         ebind (py_get params ''theta'' (VInt 0))
           (\<lambda>theta. sdk_do w circuit (Call ''qml.RZ'' [theta, target_qubit]))
       else if gate_type = ''cx'' then
         sdk_do w circuit (Call ''qml.CNOT'' [control_qubit, target_qubit])
       else if gate_type = ''ccx'' then
         ebind (two_controls controls) (\<lambda>ok.
           if ok then
             ebind (py_index controls 0) (\<lambda>c0. ebind (py_index controls 1) (\<lambda>c1.
               sdk_do w circuit (Call ''qml.Toffoli'' [c0, c1, target_qubit])))
           else Inl (ValueError ''CCX gate requires exactly 2 control qubits.''))
       else if gate_type = ''swap'' then
         sdk_do w circuit (Call ''qml.SWAP'' [target_qubit, control_qubit])
       else if gate_type = ''measure'' then Inr circuit
       else Inl (ValueError (''Unsupported gate type for PennyLane: '' @ gate_type))))))))"

subsection \<open>\<^verbatim>\<open>quantinuum_backend._build_qiskit_circuit_quantinuum\<close>\<close>

text \<open>Here each branch reads the fields it uses, and no branch reads more.\<close>

definition quantinuum_gate :: "sdk \<Rightarrow> native_circuit \<Rightarrow> pyval \<Rightarrow> py_exc + native_circuit" where
  "quantinuum_gate w circuit gate_info =
     ebind (py_getitem gate_info ''gate'') (\<lambda>k. ebind (py_lower k) (\<lambda>gate_type.
       if gate_type = ''h'' then
         ebind (py_getitem gate_info ''target'') (\<lambda>t. sdk_do w circuit (Call ''h'' [t]))
       else if gate_type = ''x'' then
         ebind (py_getitem gate_info ''target'') (\<lambda>t. sdk_do w circuit (Call ''x'' [t]))
       else if gate_type = ''y'' then
         ebind (py_getitem gate_info ''target'') (\<lambda>t. sdk_do w circuit (Call ''y'' [t]))
       else if gate_type = ''z'' then
         ebind (py_getitem gate_info ''target'') (\<lambda>t. sdk_do w circuit (Call ''z'' [t]))
       else if gate_type = ''s'' then
         ebind (py_getitem gate_info ''target'') (\<lambda>t. sdk_do w circuit (Call ''s'' [t]))
       else if gate_type = ''sdg'' then
         ebind (py_getitem gate_info ''target'') (\<lambda>t. sdk_do w circuit (Call ''sdg'' [t]))
       else if gate_type = ''t'' then
         ebind (py_getitem gate_info ''target'') (\<lambda>t. sdk_do w circuit (Call ''t'' [t]))
       else if gate_type = ''tdg'' then
         ebind (py_getitem gate_info ''target'') (\<lambda>t. sdk_do w circuit (Call ''tdg'' [t]))
       else if gate_type = ''rx'' then
         ebind (py_getitem gate_info ''params'') (\<lambda>params. ebind (py_getitem params ''theta'')
           (\<lambda>theta. ebind (py_getitem gate_info ''target'')
             (\<lambda>t. sdk_do w circuit (Call ''rx'' [theta, t]))))
       else if gate_type = ''ry'' then
         ebind (py_getitem gate_info ''params'') (\<lambda>params. ebind (py_getitem params ''theta'')
           (\<lambda>theta. ebind (py_getitem gate_info ''target'')
             (\<lambda>t. sdk_do w circuit (Call ''ry'' [theta, t]))))
       else if gate_type = ''rz'' then
         ebind (py_getitem gate_info ''params'') (\<lambda>params. ebind (py_getitem params ''theta'')
           (\<lambda>theta. ebind (py_getitem gate_info ''target'')
             (\<lambda>t. sdk_do w circuit (Call ''rz'' [theta, t]))))
       else if gate_type = ''cx'' then
         ebind (py_getitem gate_info ''control'') (\<lambda>c. ebind (py_getitem gate_info ''target'')
           (\<lambda>t. sdk_do w circuit (Call ''cx'' [c, t])))
       else if gate_type = ''ccx'' then
         ebind (py_getitem gate_info ''controls'') (\<lambda>controls. ebind (py_len controls) (\<lambda>n.
           if n = 2 then
             ebind (py_index controls 0) (\<lambda>c0. ebind (py_index controls 1) (\<lambda>c1.
             ebind (py_getitem gate_info ''target'') (\<lambda>t.
               sdk_do w circuit (Call ''ccx'' [c0, c1, t]))))
           else Inl (ValueError (''CCX gate requires exactly 2 control qubits, got '' @ dec_nat n))))
       else if gate_type = ''swap'' then
         ebind (py_getitem gate_info ''target'') (\<lambda>t. ebind (py_getitem gate_info ''control'')
           (\<lambda>c. sdk_do w circuit (Call ''swap'' [t, c])))
       else if gate_type = ''measure'' then
         ebind (py_getitem gate_info ''target'') (\<lambda>t. ebind (py_getitem gate_info ''target'')
           (\<lambda>t'. sdk_do w circuit (Call ''measure'' [t, t'])))
       else Inl (ValueError (''Unsupported gate type for Quantinuum (Azure Quantum): '' @ gate_type))))"

definition build_qiskit_circuit_quantinuum :: "sdk \<Rightarrow> pyval \<Rightarrow> py_exc + native_circuit" where
  "build_qiskit_circuit_quantinuum w circuit_data =
     ebind (py_getitem circuit_data ''qubits'') (\<lambda>num_qubits.
     ebind (sdk_do w [] (Call ''QuantumCircuit'' [num_qubits, num_qubits])) (\<lambda>circuit.
     ebind (py_getitem circuit_data ''gates'') (\<lambda>gs. ebind (py_iter gs) (\<lambda>gates.
       for_each (quantinuum_gate w) circuit gates))))"


section \<open>The adapter runners\<close>

text \<open>
  A runner takes the circuit description and the credentials dictionary the handler prepared,
  and returns a result dictionary or raises. \<open>Inl\<close> is an exception leaving the runner.
  Every \<^verbatim>\<open>return\<close> of a runner gives a dictionary literal, so a result is a dictionary.
\<close>

definition dict_get :: "pydict \<Rightarrow> string \<Rightarrow> pyval \<Rightarrow> pyval" where
  "dict_get d k dflt = (case map_of d k of Some v \<Rightarrow> v | None \<Rightarrow> dflt)"

text \<open>\<^verbatim>\<open>a or b\<close>.\<close>

definition py_or :: "pyval \<Rightarrow> pyval \<Rightarrow> pyval" where
  "py_or a b = (if py_truthy a then a else b)"

definition error_result :: "py_exc \<Rightarrow> pyval \<Rightarrow> pydict" where
  "error_result e backend_used = [(''error'', VStr (exc_str e)), (''backend_used'', backend_used)]"

text \<open>\<^verbatim>\<open>try: ... except Exception as e: return handler(e)\<close> around a body that returns.\<close>

definition returning :: "py_exc + pydict \<Rightarrow> (py_exc \<Rightarrow> pydict) \<Rightarrow> py_exc + pydict" where
  "returning body handler = (case body of Inl e \<Rightarrow> Inr (handler e) | Inr r \<Rightarrow> Inr r)"

definition execution_result :: "pyval \<Rightarrow> pyval \<Rightarrow> pyval \<Rightarrow> pyval \<Rightarrow> pyval \<Rightarrow> pydict" where
  "execution_result backend_used num_qubits counts statevector probabilities =
     [(''backend_used'', backend_used), (''num_qubits'', num_qubits), (''counts'', counts),
      (''statevector'', statevector), (''probabilities'', probabilities)]"

subsection \<open>\<^verbatim>\<open>aer_backend.run_aer\<close>\<close>

definition run_aer :: "sdk \<Rightarrow> pyval \<Rightarrow> pydict \<Rightarrow> py_exc + pydict" where
  "run_aer w circuit_data credentials =
     returning
       (ebind (build_qiskit_circuit_aer w circuit_data) (\<lambda>built.
          let circuit = fst built; has_explicit_measurements = snd built;
              backend_name = dict_get credentials ''simulator_choice'' (VStr ''qasm_simulator'');
              shots = dict_get credentials ''shots'' (VInt 1024)
          in
          if backend_name = VStr ''aer_qasm_simulator'' then
            ebind (if \<not> has_explicit_measurements
                   then sdk_do w circuit (Call ''measure'' [VStr ''range(num_qubits)'', VStr ''range(num_qubits)''])
                   else Inr circuit) (\<lambda>circuit'.
            ebind (run_counts w (Call ''AerSimulator'' [VStr ''automatic'']) circuit' shots) (\<lambda>counts.
            ebind (py_getitem circuit_data ''qubits'') (\<lambda>num_qubits.
              Inr (execution_result (VStr ''Aer QASM Simulator'') num_qubits (VDict counts) VNone VNone))))
          else if backend_name = VStr ''aer_statevector_simulator'' then
            ebind (run_state w (Call ''AerSimulator'' [VStr ''statevector'']) circuit) (\<lambda>statevector.
            ebind (probabilities_of w ''format'' circuit_data statevector) (\<lambda>probabilities.
            ebind (py_getitem circuit_data ''qubits'') (\<lambda>num_qubits.
              Inr (execution_result (VStr ''Aer Statevector Simulator'') num_qubits VNone
                     (amplitudes statevector) (VDict probabilities)))))
          else Inl (ValueError (''Unsupported Aer simulator: '' @ py_str backend_name))))
       (\<lambda>e. error_result e (dict_get credentials ''backend_name'' (VStr ''N/A'')))"

subsection \<open>\<^verbatim>\<open>cirq_backend.run_cirq\<close>\<close>

text \<open>
  With measurements the counts are gathered into a dictionary that starts empty, by loops over
  the library's histogram: \<open>run_counts\<close> stands for the run and these loops. The test
  \<^verbatim>\<open>if not has_measurements\<close> inside that branch is kept as the source has it.
\<close>

definition run_cirq :: "sdk \<Rightarrow> pyval \<Rightarrow> pydict \<Rightarrow> py_exc + pydict" where
  "run_cirq w circuit_data credentials =
     (let shots = (if credentials \<noteq> [] then dict_get credentials ''shots'' (VInt 1024) else VInt 1024)
      in returning
       (ebind (build_cirq_circuit w circuit_data) (\<lambda>circuit.
        ebind (py_getitem circuit_data ''gates'') (\<lambda>gs. ebind (py_iter gs) (\<lambda>gates.
        ebind (any_measure gates) (\<lambda>has_measurements.
          if has_measurements then
            ebind (run_counts w (Call ''cirq.Simulator.run'' []) circuit shots) (\<lambda>counts.
            ebind (if \<not> has_measurements then
                     ebind (run_state w (Call ''cirq.Simulator.simulate'' []) circuit) (\<lambda>sv.
                     ebind (probabilities_of w ''format'' circuit_data sv) (\<lambda>pr.
                       Inr (amplitudes sv, VDict pr)))
                   else Inr (VNone, VNone)) (\<lambda>sp.
            ebind (py_getitem circuit_data ''qubits'') (\<lambda>num_qubits.
              Inr (execution_result (VStr ''Cirq Local Simulator'') num_qubits
                     (if has_measurements then VDict counts else VNone) (fst sp) (snd sp)))))
          else
            ebind (run_state w (Call ''cirq.Simulator.simulate'' []) circuit) (\<lambda>statevector.
            ebind (probabilities_of w ''format'' circuit_data statevector) (\<lambda>probabilities.
            ebind (py_getitem circuit_data ''qubits'') (\<lambda>num_qubits.
              Inr (execution_result (VStr ''Cirq Local Simulator (Statevector)'') num_qubits VNone
                     (amplitudes statevector) (VDict probabilities))))))))))
       (\<lambda>e. error_result e (VStr ''Cirq Local Simulator'')))"

subsection \<open>\<^verbatim>\<open>ionq_backend.run_ionq\<close>\<close>

text \<open>
  Braket's \<^verbatim>\<open>circuit.result_types\<close> lists the result types attached to the circuit by
  calls such as \<^verbatim>\<open>circuit.state_vector()\<close>; the test on it reads the calls made.
\<close>

definition has_statevector_result_type :: "native_circuit \<Rightarrow> bool" where
  "has_statevector_result_type circuit =
     list_ex (\<lambda>c. case c of Call name args \<Rightarrow> name = ''state_vector'') circuit"

definition aws_credentials_given :: "pydict \<Rightarrow> bool" where
  "aws_credentials_given credentials =
     (py_truthy (dict_get credentials ''AWS_ACCESS_KEY_ID'' VNone)
      \<and> py_truthy (dict_get credentials ''AWS_SECRET_ACCESS_KEY'' VNone)
      \<and> py_truthy (dict_get credentials ''AWS_REGION'' VNone))"

definition run_ionq :: "sdk \<Rightarrow> pyval \<Rightarrow> pydict \<Rightarrow> py_exc + pydict" where
  "run_ionq w circuit_data credentials =
     (let backend_name = dict_get credentials ''backend_name'' VNone;
          shots = dict_get credentials ''shots'' (VInt 1024)
      in
      if \<not> py_truthy backend_name then
        Inl (ValueError (''IonQ backend name (e.g., '' @ quoted ''ionq/qpu'' @ '' or '' @ quoted ''local''
                         @ '') not specified.''))
      else returning
       (ebind (build_braket_circuit w circuit_data) (\<lambda>circuit.
          if backend_name = VStr ''local'' then
            ebind (run_counts w (Call ''LocalSimulator'' []) circuit shots) (\<lambda>counts.
            ebind (py_getitem circuit_data ''qubits'') (\<lambda>num_qubits.
              Inr (execution_result (VStr ''AWS Braket Local Simulator'') num_qubits
                     (VDict counts) VNone VNone)))
          else if backend_name = VStr ''sv1'' then
            let device = Call ''AwsDevice'' [VStr ''arn:aws:braket:::device/quantum-simulator/amazon/sv1'']
            in
            ebind (sdk_connect w device) (\<lambda>u.
            ebind (run_counts w device circuit shots) (\<lambda>counts.
            ebind (if has_statevector_result_type circuit then
                     ebind (run_state w device circuit) (\<lambda>sv.
                     ebind (probabilities_of w ''zfill'' circuit_data sv) (\<lambda>pr.
                       Inr (amplitudes sv, VDict pr)))
                   else Inr (VNone, VNone)) (\<lambda>sp.
            ebind (py_getitem circuit_data ''qubits'') (\<lambda>num_qubits.
              Inr (execution_result (VStr ''AWS Braket SV1 Simulator'') num_qubits
                     (VDict counts) (fst sp) (snd sp))))))
          else if backend_name = VStr ''ionq/qpu'' then
            if \<not> aws_credentials_given credentials then
              Inl (ValueError ''AWS credentials (AWS_ACCESS_KEY_ID, AWS_SECRET_ACCESS_KEY, AWS_REGION) are required for IonQ QPU.'')
            else
              let device = Call ''AwsDevice'' [VStr ''arn:aws:braket:::device/qpu/ionq/ionQdevice'']
              in
              (case sdk_connect w device of
                 Inl e \<Rightarrow>
                   Inl (ValueError (''AWS Braket connection or IonQ QPU access failed. Please check your AWS credentials and region. Error: '' @ exc_str e))
               | Inr u \<Rightarrow>
                   (case ebind (run_counts w device circuit shots) (\<lambda>counts.
                         ebind (py_getitem circuit_data ''qubits'') (\<lambda>num_qubits.
                           Inr (execution_result (VStr ''IonQ QPU (via AWS Braket)'') num_qubits
                                  (VDict counts) VNone VNone)))
                    of Inl e \<Rightarrow> Inl (RuntimeError (''Failed to execute circuit on IonQ QPU: '' @ exc_str e))
                     | Inr r \<Rightarrow> Inr r))
          else Inl (ValueError (''Unsupported IonQ backend: '' @ py_str backend_name))))
       (\<lambda>e. error_result e (py_or backend_name (VStr ''N/A''))))"


subsection \<open>\<^verbatim>\<open>rigetti_backend.run_rigetti\<close>\<close>

definition run_rigetti :: "sdk \<Rightarrow> pyval \<Rightarrow> pydict \<Rightarrow> py_exc + pydict" where
  "run_rigetti w circuit_data credentials =
     (let aws_region = dict_get credentials ''AWS_REGION'' VNone;
          backend_name = dict_get credentials ''backend_name'' VNone;
          shots = dict_get credentials ''shots'' (VInt 1024)
      in
      if \<not> py_truthy backend_name then
        Inl (ValueError (''Rigetti backend name (e.g., '' @ quoted ''rigetti/qpu'' @ '' or ''
                         @ quoted ''local'' @ '') not specified.''))
      else returning
       (ebind (build_braket_circuit_rigetti w circuit_data) (\<lambda>circuit.
          if backend_name = VStr ''local'' then
            ebind (run_counts w (Call ''LocalSimulator'' []) circuit shots) (\<lambda>counts.
            ebind (py_getitem circuit_data ''qubits'') (\<lambda>num_qubits.
              Inr (execution_result (VStr ''AWS Braket Local Simulator (Rigetti context)'') num_qubits
                     (VDict counts) VNone VNone)))
          else if backend_name = VStr ''rigetti/qpu'' then
            if \<not> aws_credentials_given credentials then
              Inl (ValueError ''AWS credentials (AWS_ACCESS_KEY_ID, AWS_SECRET_ACCESS_KEY, AWS_REGION) are required for Rigetti QPU.'')
            else
              let rigetti_qpu_arn = ''arn:aws:braket:'' @ py_str aws_region @ ''::device/qpu/rigetti/Aspen-M-3'';
                  device = Call ''AwsDevice'' [VStr rigetti_qpu_arn]
              in
              (case sdk_connect w device of
                 Inl e \<Rightarrow>
                   Inl (ValueError (''AWS Braket connection or Rigetti QPU access failed. Please check your AWS credentials, region, and QPU ARN. Error: '' @ exc_str e))
               | Inr u \<Rightarrow>
                   (case ebind (run_counts w device circuit shots) (\<lambda>counts.
                         ebind (py_getitem circuit_data ''qubits'') (\<lambda>num_qubits.
                           Inr (execution_result
                                  (VStr (''Rigetti QPU (via AWS Braket): '' @ rigetti_qpu_arn))
                                  num_qubits (VDict counts) VNone VNone)))
                    of Inl e \<Rightarrow> Inl (RuntimeError (''Failed to execute circuit on Rigetti QPU: '' @ exc_str e))
                     | Inr r \<Rightarrow> Inr r))
          else Inl (ValueError (''Unsupported Rigetti backend: '' @ py_str backend_name))))
       (\<lambda>e. error_result e (py_or backend_name (VStr ''N/A''))))"

subsection \<open>\<^verbatim>\<open>ibm_backend.run_ibm\<close>\<close>

text \<open>The three \<^verbatim>\<open>except\<close> clauses around \<^verbatim>\<open>service.get_backend\<close>.\<close>

fun ibm_backend_failure :: "pyval \<Rightarrow> py_exc \<Rightarrow> py_exc" where
  "ibm_backend_failure backend_name (IBMProviderError m) =
     ValueError (''Could not find or connect to IBM backend '' @ quoted (py_str backend_name)
                 @ ''. Error: '' @ m @ ''. Please check backend name and your IBMQ_TOKEN.'')"
| "ibm_backend_failure backend_name (IBMRuntimeError m) =
     ValueError (''IBM Runtime service error: '' @ m
                 @ ''. Please check your IBMQ_TOKEN and network connectivity.'')"
| "ibm_backend_failure backend_name e =
     ValueError (''Failed to connect to IBM Quantum service: '' @ exc_str e)"

text \<open>
  \<open>run_counts\<close> on the sampler stands for the import of the primitive, the run, and the
  comprehension that turns the quasi-distribution into a dictionary of counts.
\<close>

definition run_ibm :: "sdk \<Rightarrow> pyval \<Rightarrow> pydict \<Rightarrow> py_exc + pydict" where
  "run_ibm w circuit_data credentials =
     (let token = dict_get credentials ''IBMQ_TOKEN'' VNone;
          backend_name = dict_get credentials ''backend_name'' (VStr ''ibm_qasm_simulator'');
          shots = dict_get credentials ''shots'' (VInt 1024)
      in returning
       (if \<not> py_truthy token then
          Inl (ValueError ''IBMQ_TOKEN is missing. Please provide your IBM Quantum Experience Token.'')
        else
          ebind (sdk_connect w (Call ''QiskitRuntimeService'' [token])) (\<lambda>service.
          ebind (case sdk_connect w (Call ''service.get_backend'' [backend_name]) of
                   Inl e \<Rightarrow> Inl (ibm_backend_failure backend_name e)
                 | Inr u \<Rightarrow> Inr u) (\<lambda>backend.
          ebind (py_getitem circuit_data ''qubits'') (\<lambda>num_qubits.
          ebind (sdk_do w [] (Call ''QuantumCircuit'' [num_qubits])) (\<lambda>circuit0.
          ebind (py_getitem circuit_data ''gates'') (\<lambda>gs. ebind (py_iter gs) (\<lambda>gates.
          ebind (for_each (ibm_gate w) circuit0 gates) (\<lambda>circuit.
          ebind (sdk_do w circuit (Call ''transpile'' [backend_name])) (\<lambda>transpiled_circuit.
          ebind (run_counts w (Call ''Sampler'' [backend_name]) transpiled_circuit shots) (\<lambda>counts.
          ebind (py_getitem circuit_data ''qubits'') (\<lambda>num_qubits'.
            Inr (execution_result backend_name num_qubits' (VDict counts) VNone VNone))))))))))))
       (\<lambda>e. error_result e backend_name))"

subsection \<open>\<^verbatim>\<open>pennylane_backend.run_pennylane\<close>\<close>

text \<open>
  The device is opened first. Calling the QNode runs the gate loop and then, on the same test
  for a measurement gate that the runner makes, samples every wire or returns the state. The
  runner turns samples into a dictionary of counts: \<open>run_counts\<close> stands for the sampling and
  that conversion. A run whose kind is not the one the runner expects fails in the conversion.
  \<^verbatim>\<open>qml.device\<close> returns a device object, so the test \<^verbatim>\<open>dev is None\<close> is false.
\<close>

definition pennylane_device :: "sdk \<Rightarrow> pyval \<Rightarrow> pydict \<Rightarrow> py_exc + unit" where
  "pennylane_device w circuit_data credentials =
     (let backend_name = dict_get credentials ''backend_name'' (VStr ''default.qubit'');
          shots = dict_get credentials ''shots'' (VInt 1024);
          pennylane_api_key = dict_get credentials ''PENNYLANE_API_KEY'' VNone
      in
      if backend_name = VStr ''default.qubit'' then
        ebind (py_getitem circuit_data ''qubits'') (\<lambda>wires.
          sdk_connect w (Call ''qml.device'' [VStr ''default.qubit'', wires, shots]))
      else if backend_name = VStr ''lightning.qubit'' then
        ebind (py_getitem circuit_data ''qubits'') (\<lambda>wires.
          sdk_connect w (Call ''qml.device'' [VStr ''lightning.qubit'', wires, shots]))
      else if py_truthy pennylane_api_key then
        (case ebind (py_getitem circuit_data ''qubits'') (\<lambda>wires.
              ebind (sdk_connect w (Call ''qml.device'' [backend_name, wires, shots, pennylane_api_key]))
                (\<lambda>dev. sdk_connect w (Call ''dev.capabilities'' [backend_name])))
         of Inl e \<Rightarrow>
              Inl (ValueError (''Failed to initialize PennyLane device '' @ quoted (py_str backend_name)
                               @ '' with provided API key. Error: '' @ exc_str e))
          | Inr u \<Rightarrow> Inr u)
      else
        Inl (ValueError (''Unsupported PennyLane backend '' @ quoted (py_str backend_name)
                         @ '' or missing PENNYLANE_API_KEY for a remote backend.'')))"

definition run_pennylane :: "sdk \<Rightarrow> pyval \<Rightarrow> pydict \<Rightarrow> py_exc + pydict" where
  "run_pennylane w circuit_data credentials =
     (let backend_name = dict_get credentials ''backend_name'' (VStr ''default.qubit'');
          shots = dict_get credentials ''shots'' (VInt 1024)
      in
      case
        ebind (pennylane_device w circuit_data credentials) (\<lambda>dev.
        ebind (py_getitem circuit_data ''qubits'') (\<lambda>num_qubits.
        ebind (py_getitem circuit_data ''gates'') (\<lambda>gs. ebind (py_iter gs) (\<lambda>gates.
        ebind (any_measure gates) (\<lambda>has_measurements.
        ebind (for_each (pennylane_gate w) [] gates) (\<lambda>circuit.
        ebind (any_measure gates) (\<lambda>samples_returned.
          if has_measurements then
            ebind (if samples_returned
                   then run_counts w (Call ''qml.sample'' [backend_name]) circuit shots
                   else Inl (TypeError ''Unexpected sample format from PennyLane.'')) (\<lambda>counts.
              Inr (execution_result (VStr (''PennyLane '' @ py_str backend_name @ '' Simulator''))
                     num_qubits (VDict counts) VNone VNone))
          else
            ebind (if samples_returned
                   then Inl (AttributeError (quoted ''list'' @ '' object has no attribute '' @ quoted ''tolist''))
                   else run_state w (Call ''qml.state'' [backend_name]) circuit) (\<lambda>statevector_list.
            ebind (probabilities_of w ''format'' circuit_data statevector_list) (\<lambda>probabilities.
              Inr (execution_result
                     (VStr (''PennyLane '' @ py_str backend_name @ '' Simulator (Statevector)''))
                     num_qubits VNone (amplitudes statevector_list) (VDict probabilities)))))))))))
      of Inl e \<Rightarrow>
           if is_ImportError e then
             Inr [(''error'', VStr (''PennyLane backend '' @ quoted (py_str backend_name)
                    @ '' requires its corresponding plugin (e.g., pennylane-lightning for lightning.qubit). Please install it.'')),
                  (''backend_used'', backend_name)]
           else Inr (error_result e backend_name)
       | Inr r \<Rightarrow> Inr r)"

subsection \<open>\<^verbatim>\<open>quantinuum_backend.run_quantinuum\<close>\<close>

definition azure_credentials_given :: "pydict \<Rightarrow> bool" where
  "azure_credentials_given credentials =
     (py_truthy (dict_get credentials ''AZURE_QUANTUM_SUBSCRIPTION_ID'' VNone)
      \<and> py_truthy (dict_get credentials ''AZURE_QUANTUM_RESOURCE_GROUP'' VNone)
      \<and> py_truthy (dict_get credentials ''AZURE_QUANTUM_WORKSPACE_NAME'' VNone)
      \<and> py_truthy (dict_get credentials ''AZURE_QUANTUM_LOCATION'' VNone))"

text \<open>\<^verbatim>\<open>backend_name.startswith(p)\<close>; only a string has the method.\<close>

fun py_startswith :: "pyval \<Rightarrow> string \<Rightarrow> py_exc + bool" where
  "py_startswith (VStr s) p = Inr (prefix p s)"
| "py_startswith v p = Inl (AttributeError (no_attribute v ''startswith''))"

definition quantinuum_run :: "sdk \<Rightarrow> string \<Rightarrow> string \<Rightarrow> pyval \<Rightarrow> native_circuit \<Rightarrow> pyval \<Rightarrow> pydict
    \<Rightarrow> py_exc + pydict" where
  "quantinuum_run w required label circuit_data circuit backend_name credentials =
     (if \<not> azure_credentials_given credentials then Inl (ValueError required)
      else
        case sdk_connect w (Call ''AzureQuantumProvider.get_backend''
               [dict_get credentials ''AZURE_QUANTUM_SUBSCRIPTION_ID'' VNone,
                dict_get credentials ''AZURE_QUANTUM_RESOURCE_GROUP'' VNone,
                dict_get credentials ''AZURE_QUANTUM_WORKSPACE_NAME'' VNone,
                dict_get credentials ''AZURE_QUANTUM_LOCATION'' VNone, backend_name])
        of Inl e \<Rightarrow>
             Inl (ValueError (''Failed to connect to Azure Quantum workspace or backend ''
                    @ quoted (py_str backend_name) @ '': '' @ exc_str e
                    @ ''. Check Azure credentials and backend name.''))
         | Inr u \<Rightarrow>
             ebind (run_counts w (Call ''backend.run'' [backend_name]) circuit
                      (dict_get credentials ''shots'' (VInt 1024))) (\<lambda>counts.
             ebind (py_getitem circuit_data ''qubits'') (\<lambda>num_qubits.
               Inr (execution_result (VStr (label @ py_str backend_name)) num_qubits
                      (VDict counts) VNone VNone))))"

definition run_quantinuum :: "sdk \<Rightarrow> pyval \<Rightarrow> pydict \<Rightarrow> py_exc + pydict" where
  "run_quantinuum w circuit_data credentials =
     (let backend_name = dict_get credentials ''backend_name'' VNone
      in
      if \<not> py_truthy backend_name then
        Inl (ValueError (''Quantinuum backend name (e.g., '' @ quoted ''quantinuum.sim.h1-1sc''
                         @ '' or '' @ quoted ''quantinuum.qpu.h1'' @ '') not specified.''))
      else returning
       (ebind (build_qiskit_circuit_quantinuum w circuit_data) (\<lambda>circuit.
        ebind (py_startswith backend_name ''quantinuum.sim'') (\<lambda>is_sim.
          if is_sim then
            quantinuum_run w
              ''Azure Quantum workspace credentials are required for Quantinuum simulators on Azure.''
              ''Quantinuum Simulator (Azure Quantum): '' circuit_data circuit backend_name credentials
          else
            ebind (py_startswith backend_name ''quantinuum.qpu'') (\<lambda>is_qpu.
              if is_qpu then
                quantinuum_run w
                  ''Azure Quantum workspace credentials are required for Quantinuum QPU.''
                  ''Quantinuum QPU (Azure Quantum): '' circuit_data circuit backend_name credentials
              else Inl (ValueError (''Unsupported Quantinuum backend: '' @ py_str backend_name))))))
       (\<lambda>e. error_result e (py_or backend_name (VStr ''N/A''))))"


section \<open>The request handlers of \<^verbatim>\<open>app.py\<close>\<close>

subsection \<open>The backend registry\<close>

datatype runner_id = Run_ibm | Run_ionq | Run_rigetti | Run_cirq | Run_pennylane | Run_aer

record backend_info =
  provider :: string
  runner :: runner_id
  backend_name :: string
  provider_type :: string

definition BACKEND_MAP :: "(string \<times> backend_info) list" where
  "BACKEND_MAP =
     [(''ibm_qasm_simulator'', \<lparr>provider = ''ibm'', runner = Run_ibm,
          backend_name = ''ibm_qasm_simulator'', provider_type = ''simulator''\<rparr>),
      (''ibm_brisbane'', \<lparr>provider = ''ibm'', runner = Run_ibm,
          backend_name = ''ibm_brisbane'', provider_type = ''qpu''\<rparr>),
      (''ibm_osprey'', \<lparr>provider = ''ibm'', runner = Run_ibm,
          backend_name = ''ibm_osprey'', provider_type = ''qpu''\<rparr>),
      (''aws_ionq'', \<lparr>provider = ''ionq'', runner = Run_ionq,
          backend_name = ''ionq/qpu'', provider_type = ''qpu''\<rparr>),
      (''aws_sv1'', \<lparr>provider = ''ionq'', runner = Run_ionq,
          backend_name = ''sv1'', provider_type = ''simulator''\<rparr>),
      (''aws_local'', \<lparr>provider = ''ionq'', runner = Run_ionq,
          backend_name = ''local'', provider_type = ''simulator''\<rparr>),
      (''aws_rigetti'', \<lparr>provider = ''rigetti'', runner = Run_rigetti,
          backend_name = ''rigetti/qpu'', provider_type = ''qpu''\<rparr>),
      (''google_cirq'', \<lparr>provider = ''cirq'', runner = Run_cirq,
          backend_name = ''cirq_simulator'', provider_type = ''simulator''\<rparr>),
      (''pennylane_default'', \<lparr>provider = ''pennylane'', runner = Run_pennylane,
          backend_name = ''default.qubit'', provider_type = ''simulator''\<rparr>),
      (''pennylane_lightning'', \<lparr>provider = ''pennylane'', runner = Run_pennylane,
          backend_name = ''lightning.qubit'', provider_type = ''simulator''\<rparr>),
      (''aer_qasm_simulator'', \<lparr>provider = ''aer'', runner = Run_aer,
          backend_name = ''aer_qasm_simulator'', provider_type = ''simulator''\<rparr>),
      (''aer_statevector_simulator'', \<lparr>provider = ''aer'', runner = Run_aer,
          backend_name = ''aer_statevector_simulator'', provider_type = ''simulator''\<rparr>)]"

fun call_runner :: "sdk \<Rightarrow> runner_id \<Rightarrow> pyval \<Rightarrow> pydict \<Rightarrow> py_exc + pydict" where
  "call_runner w Run_ibm = run_ibm w"
| "call_runner w Run_ionq = run_ionq w"
| "call_runner w Run_rigetti = run_rigetti w"
| "call_runner w Run_cirq = run_cirq w"
| "call_runner w Run_pennylane = run_pennylane w"
| "call_runner w Run_aer = run_aer w"

text \<open>\<^verbatim>\<open>BACKEND_MAP.get(key)\<close>: a list or a dictionary is not hashable, and no other value
  than a string equals a key of the registry.\<close>

fun backend_map_get :: "pyval \<Rightarrow> py_exc + backend_info option" where
  "backend_map_get (VStr k) = Inr (map_of BACKEND_MAP k)"
| "backend_map_get (VList xs) = Inl (TypeError (''unhashable type: '' @ quoted ''list''))"
| "backend_map_get (VDict kvs) = Inl (TypeError (''unhashable type: '' @ quoted ''dict''))"
| "backend_map_get v = Inr None"

subsection \<open>The process state\<close>

text \<open>
  The credential store holds references to the objects that were saved, and a credentials
  dictionary is an object the handler writes to: objects live in a heap, at references given
  out in increasing order. \<open>store\<close> is \<^verbatim>\<open>_in_memory_credentials_store\<close> at its string keys,
  the only keys a resolution asks for.
\<close>

record app_state =
  heap :: "nat \<Rightarrow> pyval"
  next_ref :: nat
  store :: "(string \<times> nat) list"

definition initial_state :: app_state where
  "initial_state = \<lparr>heap = (\<lambda>r. VNone), next_ref = 0, store = []\<rparr>"

text \<open>One call of a runner, as the handler made it, and what came back.\<close>

record invocation =
  inv_runner :: runner_id
  inv_circuit :: pyval
  inv_credentials :: pydict
  inv_outcome :: "py_exc + pydict"

record ctx =
  app :: app_state
  invoked :: "invocation list"

text \<open>A step of a handler: it returns or raises, and leaves a new state.\<close>

type_synonym 'a act = "ctx \<Rightarrow> (py_exc + 'a) \<times> ctx"

definition mreturn :: "'a \<Rightarrow> 'a act" where
  "mreturn v c = (Inr v, c)"

definition mbind :: "'a act \<Rightarrow> ('a \<Rightarrow> 'b act) \<Rightarrow> 'b act" where
  "mbind f g c = (case f c of (Inl e, c') \<Rightarrow> (Inl e, c') | (Inr v, c') \<Rightarrow> g v c')"

definition lift :: "py_exc + 'a \<Rightarrow> 'a act" where
  "lift r c = (r, c)"

definition new_object :: "pyval \<Rightarrow> nat act" where
  "new_object v c =
     (Inr (next_ref (app c)),
      c\<lparr>app := (app c)\<lparr>heap := (heap (app c))(next_ref (app c) := v),
                        next_ref := Suc (next_ref (app c))\<rparr>\<rparr>)"

text \<open>\<^verbatim>\<open>obj[k] = v\<close> on the object at a reference.\<close>

definition set_item :: "nat \<Rightarrow> string \<Rightarrow> pyval \<Rightarrow> unit act" where
  "set_item r k v c =
     (case heap (app c) r of
        VDict d \<Rightarrow> (Inr (), c\<lparr>app := (app c)\<lparr>heap := (heap (app c))(r := VDict (AList.update k v d))\<rparr>\<rparr>)
      | VList xs \<Rightarrow> (Inl (TypeError ''list indices must be integers or slices, not str''), c)
      | x \<Rightarrow> (Inl (TypeError (quoted (type_name x) @ '' object does not support item assignment'')), c))"

subsection \<open>\<^verbatim>\<open>_get_credentials_for_provider\<close>\<close>

definition env_credentials :: "sdk \<Rightarrow> string \<Rightarrow> pydict" where
  "env_credentials w provider_key =
     (if provider_key = ''ibm'' then [(''IBMQ_TOKEN'', getenv w ''IBMQ_TOKEN'')]
      else if provider_key = ''ionq'' \<or> provider_key = ''rigetti'' then
        [(''AWS_ACCESS_KEY_ID'', getenv w ''AWS_ACCESS_KEY_ID''),
         (''AWS_SECRET_ACCESS_KEY'', getenv w ''AWS_SECRET_ACCESS_KEY''),
         (''AWS_REGION'', getenv w ''AWS_REGION'')]
      else if provider_key = ''quantinuum'' then
        [(''AZURE_QUANTUM_SUBSCRIPTION_ID'', getenv w ''AZURE_QUANTUM_SUBSCRIPTION_ID''),
         (''AZURE_QUANTUM_WORKSPACE_NAME'', getenv w ''AZURE_QUANTUM_WORKSPACE_NAME''),
         (''AZURE_QUANTUM_RESOURCE_GROUP'', getenv w ''AZURE_QUANTUM_RESOURCE_GROUP''),
         (''AZURE_QUANTUM_LOCATION'', getenv w ''AZURE_QUANTUM_LOCATION'')]
      else if provider_key = ''pennylane'' then [(''PENNYLANE_API_KEY'', getenv w ''PENNYLANE_API_KEY'')]
      else [])"

text \<open>
  The result is a reference to a new object: the copy of the stored object
  (\<^verbatim>\<open>.copy()\<close>, a method of dictionaries and lists), or the dictionary built from the
  environment.
\<close>

definition get_credentials_for_provider :: "sdk \<Rightarrow> string \<Rightarrow> nat act" where
  "get_credentials_for_provider w provider_key c =
     (case map_of (store (app c)) provider_key of
        Some r \<Rightarrow>
          (case heap (app c) r of
             VDict d \<Rightarrow> new_object (VDict d) c
           | VList xs \<Rightarrow> new_object (VList xs) c
           | v \<Rightarrow> (Inl (AttributeError (no_attribute v ''copy'')), c))
      | None \<Rightarrow> new_object (VDict (env_credentials w provider_key)) c)"


subsection \<open>\<^verbatim>\<open>run_circuit\<close>, the handler of \<^verbatim>\<open>/run\<close>\<close>

text \<open>
  \<^verbatim>\<open>jsonify\<close> turns the body of a reply into JSON text. The application sets no JSON provider
  of its own, and Flask's default one raises \<^verbatim>\<open>TypeError\<close> on an object it has no encoding
  for: of the values here, a complex number, wherever it stands in the body. A body that is
  encoded is taken for its text.
\<close>

primrec json_ok :: "pyval \<Rightarrow> bool" where
  "json_ok VNone = True"
| "json_ok (VBool b) = True"
| "json_ok (VInt i) = True"
| "json_ok (VFloat s) = True"
| "json_ok (VComplex s) = False"
| "json_ok (VStr s) = True"
| "json_ok (VList xs) = list_all (\<lambda>b. b) (map json_ok xs)"
| "json_ok (VDict kvs) = list_all (\<lambda>b. b) (map snd (map (map_prod id json_ok) kvs))"

definition jsonify :: "pydict \<Rightarrow> py_exc + pydict" where
  "jsonify body =
     (if json_ok (VDict body) then Inr body
      else Inl (TypeError ''Object of type complex is not JSON serializable''))"

text \<open>
  A reply is the encoded body and the status code: \<^verbatim>\<open>return jsonify(body), status\<close>.
  An exception that leaves the handler is \<open>Inl\<close>. Log lines are not modelled.
\<close>

type_synonym reply = "pydict \<times> nat"

definition respond :: "pydict \<Rightarrow> nat \<Rightarrow> reply act" where
  "respond body status = mbind (lift (jsonify body)) (\<lambda>json. mreturn (json, status))"

text \<open>
  The loop that gives every gate a list under \<^verbatim>\<open>"qubits"\<close>. A gate that is no dictionary
  makes the test or the assignment raise.
\<close>

fun normalize_gate :: "pyval \<Rightarrow> py_exc + pyval" where
  "normalize_gate (VDict kvs) =
     Inr (VDict (case map_of kvs ''qubits'' of
                   Some v \<Rightarrow> if is_list v then kvs else AList.update ''qubits'' (VList []) kvs
                 | None \<Rightarrow> AList.update ''qubits'' (VList []) kvs))"
| "normalize_gate (VStr s) =
     Inl (TypeError (if contains ''qubits'' s
                     then ''string indices must be integers, not '' @ quoted ''str''
                     else quoted ''str'' @ '' object does not support item assignment''))"
| "normalize_gate (VList xs) = Inl (TypeError ''list indices must be integers or slices, not str'')"
| "normalize_gate v = Inl (TypeError (''argument of type '' @ quoted (type_name v) @ '' is not iterable''))"

definition normalize_circuit :: "pyval \<Rightarrow> py_exc + pyval" where
  "normalize_circuit circuit_data =
     ebind (py_get circuit_data ''gates'' (VList [])) (\<lambda>gs. ebind (py_iter gs) (\<lambda>gates.
     ebind (for_each (\<lambda>done g. ebind (normalize_gate g) (\<lambda>g'. Inr (done @ [g']))) [] gates)
       (\<lambda>gates'.
          Inr (case (circuit_data, gs) of
                 (VDict kvs, VList xs) \<Rightarrow>
                   if map_of kvs ''gates'' = None then circuit_data
                   else VDict (AList.update ''gates'' (VList gates') kvs)
               | other \<Rightarrow> circuit_data))))"

text \<open>Lines 133 to 136, and again 162 to 165 and 209 to 212 for the fallback.\<close>

definition prepare_credentials :: "sdk \<Rightarrow> backend_info \<Rightarrow> pyval \<Rightarrow> pyval \<Rightarrow> nat act" where
  "prepare_credentials w info shots simulator_choice_key =
     mbind (get_credentials_for_provider w (provider info)) (\<lambda>credentials.
     mbind (set_item credentials ''backend_name'' (VStr (backend_name info))) (\<lambda>u.
     mbind (set_item credentials ''shots'' shots) (\<lambda>u.
     mbind (set_item credentials ''simulator_choice'' simulator_choice_key) (\<lambda>u.
       mreturn credentials))))"

text \<open>
  \<^verbatim>\<open>runner_function(circuit_data, credentials)\<close>. The object at the reference is a
  dictionary whenever the three assignments before the call went through; the last case is
  not reached.
\<close>

definition invoke :: "sdk \<Rightarrow> runner_id \<Rightarrow> pyval \<Rightarrow> nat \<Rightarrow> pydict act" where
  "invoke w r circuit_data credentials c =
     (case heap (app c) credentials of
        VDict d \<Rightarrow>
          (call_runner w r circuit_data d,
           c\<lparr>invoked := invoked c @ [\<lparr>inv_runner = r, inv_circuit = circuit_data,
                                       inv_credentials = d,
                                       inv_outcome = call_runner w r circuit_data d\<rparr>]\<rparr>)
      | v \<Rightarrow> (Inl (AttributeError (no_attribute v ''get'')), c))"

text \<open>\<^verbatim>\<open>result and "error" in result\<close>.\<close>

definition has_error :: "pydict \<Rightarrow> bool" where
  "has_error result = (result \<noteq> [] \<and> map_of result ''error'' \<noteq> None)"

definition run_fallback :: "sdk \<Rightarrow> backend_info \<Rightarrow> pyval \<Rightarrow> pyval \<Rightarrow> pyval \<Rightarrow> pydict act" where
  "run_fallback w fallback_backend_info circuit_data shots simulator_choice_key =
     mbind (prepare_credentials w fallback_backend_info shots simulator_choice_key)
       (\<lambda>fallback_credentials.
          invoke w (runner fallback_backend_info) circuit_data fallback_credentials)"

text \<open>The three assignments that mark a fallback result, lines 179 to 181 and 225 to 227.\<close>

definition mark_fallback :: "pydict \<Rightarrow> pyval \<Rightarrow> pyval \<Rightarrow> py_exc + pydict" where
  "mark_fallback fallback_result provider_key reason =
     ebind (py_getitem (VDict fallback_result) ''backend_used'') (\<lambda>used.
       Inr (AList.update ''fallback_reason'' reason
             (AList.update ''original_backend_attempted'' provider_key
               (AList.update ''backend_used''
                  (VStr (''FALLBACK: '' @ py_str used @ '' (original target: '' @ py_str provider_key @ '')''))
                  fallback_result))))"

text \<open>The bodies of the failure replies of the \<^verbatim>\<open>try\<close> block, lines 152 to 156, 171 to
  176 and 185.\<close>

definition invalid_fallback_reply :: "pyval \<Rightarrow> pyval \<Rightarrow> pyval \<Rightarrow> pydict \<Rightarrow> reply" where
  "invalid_fallback_reply provider_key result_error simulator_choice_key result =
     ([(''error'', VStr (''Original execution on '' @ quoted (py_str provider_key)
          @ '' failed: '' @ py_str result_error
          @ ''. Invalid fallback simulator choice: '' @ py_str simulator_choice_key
          @ ''. Cannot proceed.'')),
       (''backend_used'', dict_get result ''backend_used'' (VStr ''None''))], 500)"

definition fallback_failed_reply :: "pyval \<Rightarrow> pyval \<Rightarrow> string \<Rightarrow> pyval \<Rightarrow> pydict \<Rightarrow> reply" where
  "fallback_failed_reply provider_key result_error fallback_backend_name fallback_error
       fallback_result =
     ([(''error'', VStr (''Original execution on '' @ quoted (py_str provider_key)
          @ '' failed: '' @ py_str result_error @ ''. Fallback to ''
          @ quoted fallback_backend_name @ '' also failed: '' @ py_str fallback_error)),
       (''backend_used'', dict_get fallback_result ''backend_used'' (VStr ''None'')),
       (''original_backend_attempted'', provider_key)], 500)"

definition primary_failed_reply :: "pyval \<Rightarrow> pydict \<Rightarrow> reply" where
  "primary_failed_reply result_error result =
     ([(''error'', result_error),
       (''backend_used'', dict_get result ''backend_used'' (VStr ''None''))], 500)"

definition send :: "reply \<Rightarrow> reply act" where
  "send r = respond (fst r) (snd r)"

text \<open>The body of the \<^verbatim>\<open>try\<close>, lines 141 to 188.\<close>

definition try_body ::
    "sdk \<Rightarrow> backend_info \<Rightarrow> pyval \<Rightarrow> pyval \<Rightarrow> pyval \<Rightarrow> pyval \<Rightarrow> pyval \<Rightarrow> nat \<Rightarrow> reply act" where
  "try_body w info provider_key circuit_data use_simulator_if_qpu_fails simulator_choice_key shots
       credentials =
     mbind (invoke w (runner info) circuit_data credentials) (\<lambda>result.
       if has_error result then
         mbind (lift (py_getitem (VDict result) ''error'')) (\<lambda>result_error.
         if provider_type info = ''qpu'' \<and> py_truthy use_simulator_if_qpu_fails then
           mbind (lift (backend_map_get simulator_choice_key)) (\<lambda>fallback_backend_info.
             if fallback_backend_info = None
                \<or> provider_type (the fallback_backend_info) = ''qpu'' then
               send (invalid_fallback_reply provider_key result_error simulator_choice_key result)
             else
               mbind (run_fallback w (the fallback_backend_info) circuit_data shots
                        simulator_choice_key) (\<lambda>fallback_result.
                 if has_error fallback_result then
                   mbind (lift (py_getitem (VDict fallback_result) ''error'')) (\<lambda>fallback_error.
                     send (fallback_failed_reply provider_key result_error
                              (backend_name (the fallback_backend_info)) fallback_error
                              fallback_result))
                 else
                   mbind (lift (mark_fallback fallback_result provider_key result_error))
                     (\<lambda>marked. respond marked 200)))
         else send (primary_failed_reply result_error result))
       else respond result 200)"

text \<open>The test on the message of a \<^verbatim>\<open>ValueError\<close>, line 193.\<close>

definition credential_message :: "string \<Rightarrow> bool" where
  "credential_message error_message =
     (let m = str_lower error_message
      in contains ''credentials'' m \<or> contains ''token'' m \<or> contains ''access key'' m
         \<or> contains ''connection'' m \<or> contains ''authentication'' m)"

text \<open>The clause \<^verbatim>\<open>except ValueError as e\<close>, lines 190 to 234.\<close>

definition except_value_error ::
    "sdk \<Rightarrow> backend_info \<Rightarrow> pyval \<Rightarrow> pyval \<Rightarrow> pyval \<Rightarrow> pyval \<Rightarrow> pyval \<Rightarrow> py_exc \<Rightarrow> reply act" where
  "except_value_error w info provider_key circuit_data use_simulator_if_qpu_fails
       simulator_choice_key shots e =
     (let error_message = exc_str e in
      if credential_message error_message then
        if provider_type info = ''qpu'' \<and> py_truthy use_simulator_if_qpu_fails then
          mbind (lift (backend_map_get simulator_choice_key)) (\<lambda>fallback_backend_info.
            if fallback_backend_info = None
               \<or> provider_type (the fallback_backend_info) = ''qpu'' then
              respond
                [(''error'', VStr (''Original execution on '' @ quoted (py_str provider_key)
                    @ '' failed due to credentials: '' @ error_message
                    @ ''. Invalid fallback simulator choice: '' @ py_str simulator_choice_key
                    @ ''. Cannot proceed.'')),
                 (''backend_used'', provider_key)] 500
            else
              mbind (run_fallback w (the fallback_backend_info) circuit_data shots
                       simulator_choice_key) (\<lambda>fallback_result.
                if has_error fallback_result then
                  mbind (lift (py_getitem (VDict fallback_result) ''error'')) (\<lambda>fallback_error.
                  respond
                    [(''error'', VStr (''Original execution on '' @ quoted (py_str provider_key)
                        @ '' failed due to credentials: '' @ error_message @ ''. Fallback to ''
                        @ quoted (backend_name (the fallback_backend_info))
                        @ '' also failed: '' @ py_str fallback_error)),
                     (''backend_used'', dict_get fallback_result ''backend_used'' (VStr ''None'')),
                     (''original_backend_attempted'', provider_key),
                     (''fallback_reason'', VStr error_message)] 500)
                else
                  mbind (lift (mark_fallback fallback_result provider_key (VStr error_message)))
                    (\<lambda>marked. respond marked 200)))
        else
          respond [(''error'', VStr (''Credential error for '' @ py_str provider_key @ '': ''
                                     @ error_message)),
                   (''backend_used'', provider_key)] 401
      else
        respond [(''error'', VStr (''Circuit validation error: '' @ error_message)),
                 (''backend_used'', provider_key)] 400)"

text \<open>The clause \<^verbatim>\<open>except Exception as e\<close>, lines 235 to 238.\<close>

definition unexpected_reply :: "pyval \<Rightarrow> py_exc \<Rightarrow> reply" where
  "unexpected_reply provider_key e =
     ([(''error'', VStr (''An unexpected error occurred: '' @ exc_str e)),
       (''backend_used'', provider_key)], 500)"

definition except_exception :: "pyval \<Rightarrow> py_exc \<Rightarrow> reply act" where
  "except_exception provider_key e = send (unexpected_reply provider_key e)"

text \<open>The \<^verbatim>\<open>try\<close> statement: an exception raised inside a handler leaves the function.\<close>

definition run_try ::
    "sdk \<Rightarrow> backend_info \<Rightarrow> pyval \<Rightarrow> pyval \<Rightarrow> pyval \<Rightarrow> pyval \<Rightarrow> pyval \<Rightarrow> nat \<Rightarrow> reply act" where
  "run_try w info provider_key circuit_data use_simulator_if_qpu_fails simulator_choice_key shots
       credentials c =
     (case try_body w info provider_key circuit_data use_simulator_if_qpu_fails
             simulator_choice_key shots credentials c of
        (Inl e, c') \<Rightarrow>
          if is_ValueError e then
            except_value_error w info provider_key circuit_data use_simulator_if_qpu_fails
              simulator_choice_key shots e c'
          else except_exception provider_key e c'
      | (Inr r, c') \<Rightarrow> (Inr r, c'))"

definition run_circuit :: "sdk \<Rightarrow> pyval \<Rightarrow> reply act" where
  "run_circuit w data =
     (if \<not> py_truthy data then respond [(''error'', VStr ''Invalid JSON payload'')] 400
      else
        mbind (lift (py_get data ''provider'' VNone)) (\<lambda>provider_key.
        mbind (lift (py_get data ''circuit'' VNone)) (\<lambda>circuit_data0.
        mbind (lift (normalize_circuit circuit_data0)) (\<lambda>circuit_data.
        mbind (lift (py_get data ''use_simulator_if_qpu_fails'' (VBool False)))
          (\<lambda>use_simulator_if_qpu_fails.
        mbind (lift (py_get data ''simulator_choice'' (VStr ''aer_qasm_simulator'')))
          (\<lambda>simulator_choice_key.
        mbind (lift (py_get data ''shots'' (VInt 1024))) (\<lambda>shots.
          if \<not> py_truthy provider_key \<or> \<not> py_truthy circuit_data then
            respond [(''error'', VStr (''Missing '' @ quoted ''provider'' @ '' or ''
                                       @ quoted ''circuit'' @ '' in payload''))] 400
          else
            mbind (lift (backend_map_get provider_key)) (\<lambda>selected_backend_info.
              case selected_backend_info of
                None \<Rightarrow>
                  respond [(''error'', VStr (''Unsupported provider: '' @ py_str provider_key))] 400
              | Some info \<Rightarrow>
                  mbind (prepare_credentials w info shots simulator_choice_key) (\<lambda>credentials.
                    run_try w info provider_key circuit_data use_simulator_if_qpu_fails
                      simulator_choice_key shots credentials)))))))))"

subsection \<open>\<^verbatim>\<open>save_credentials\<close>, the handler of \<^verbatim>\<open>/save_credentials\<close>\<close>

text \<open>
  The object of the request is stored by reference. A provider that is hashable and no string
  is stored under a key that no resolution asks for.
\<close>

definition store_put :: "string \<Rightarrow> nat \<Rightarrow> unit act" where
  "store_put p r c = (Inr (), c\<lparr>app := (app c)\<lparr>store := AList.update p r (store (app c))\<rparr>\<rparr>)"

definition saved_message :: "pyval \<Rightarrow> pydict" where
  "saved_message p =
     [(''message'', VStr (''Credentials for '' @ py_str p @ '' saved successfully (in memory).''))]"

definition save_credentials :: "pyval \<Rightarrow> reply act" where
  "save_credentials data =
     (if \<not> py_truthy data then respond [(''error'', VStr ''Invalid JSON payload'')] 400
      else
        mbind (lift (py_get data ''provider'' VNone)) (\<lambda>p.
        mbind (lift (py_get data ''credentials'' VNone)) (\<lambda>credentials.
          if \<not> py_truthy p \<or> \<not> py_truthy credentials then
            respond [(''error'', VStr (''Missing '' @ quoted ''provider'' @ '' or ''
                                       @ quoted ''credentials'' @ '' in payload''))] 400
          else
            (case p of
               VStr name \<Rightarrow>
                 mbind (new_object credentials) (\<lambda>r. mbind (store_put name r) (\<lambda>u.
                   respond (saved_message p) 200))
             | VList xs \<Rightarrow>
                 respond [(''error'', VStr (''Failed to save credentials to memory: unhashable type: ''
                                            @ quoted ''list''))] 500
             | VDict kvs \<Rightarrow>
                 respond [(''error'', VStr (''Failed to save credentials to memory: unhashable type: ''
                                            @ quoted ''dict''))] 500
             | other \<Rightarrow> respond (saved_message p) 200))))"


section \<open>Notions the properties are stated with\<close>

text \<open>A field of a result is present when the dictionary has the key with a value other than
  \<^verbatim>\<open>None\<close>.\<close>

definition present :: "pydict \<Rightarrow> string \<Rightarrow> bool" where
  "present result k = (case map_of result k of None \<Rightarrow> False | Some v \<Rightarrow> v \<noteq> VNone)"

definition one_output :: "pydict \<Rightarrow> bool" where
  "one_output result =
     ((present result ''counts'' \<and> \<not> present result ''statevector'' \<and> \<not> present result ''error'')
      \<or> (\<not> present result ''counts'' \<and> present result ''statevector'' \<and> \<not> present result ''error'')
      \<or> (\<not> present result ''counts'' \<and> \<not> present result ''statevector'' \<and> present result ''error''))"

text \<open>The runners of the repository that return result dictionaries.\<close>

definition adapter_runners :: "(sdk \<Rightarrow> pyval \<Rightarrow> pydict \<Rightarrow> py_exc + pydict) list" where
  "adapter_runners =
     [run_ibm, run_ionq, run_rigetti, run_cirq, run_pennylane, run_aer, run_quantinuum]"

text \<open>A property of what a computation returns, when it returns.\<close>

definition holds :: "('a \<Rightarrow> bool) \<Rightarrow> 'e + 'a \<Rightarrow> bool" where
  "holds P r = (case r of Inl e \<Rightarrow> True | Inr v \<Rightarrow> P v)"

text \<open>
  A provider library that accepts every call and answers every run with the same outcome,
  in a process with no credential in its environment; and the Bell circuit of the
  specification. They serve to evaluate the model on concrete requests.
\<close>

definition quiet_sdk :: sdk where
  "quiet_sdk =
     \<lparr>raises = (\<lambda>circuit c. None),
      connect = (\<lambda>c. None),
      run_counts = (\<lambda>device circuit shots. Inr [(''00'', VInt 512), (''11'', VInt 512)]),
      run_state = (\<lambda>device circuit.
         Inr [''(0.7071067811865475+0j)'', ''0j'', ''0j'', ''(0.7071067811865475+0j)'']),
      probabilities_of = (\<lambda>spelling circuit_data statevector.
         Inr [(''00'', VFloat ''0.4999999999999999''), (''01'', VFloat ''0.0''),
              (''10'', VFloat ''0.0''), (''11'', VFloat ''0.4999999999999999'')]),
      getenv = (\<lambda>name. VNone)\<rparr>"

definition bell :: pyval where
  "bell =
     VDict [(''qubits'', VInt 2),
            (''gates'', VList [VDict [(''gate'', VStr ''h''), (''target'', VInt 0)],
                               VDict [(''gate'', VStr ''cx''), (''control'', VInt 0),
                                      (''target'', VInt 1)]])]"

definition fresh :: "app_state \<Rightarrow> ctx" where
  "fresh s = \<lparr>app = s, invoked = []\<rparr>"

definition request :: "string \<Rightarrow> pyval \<Rightarrow> (string \<times> pyval) list \<Rightarrow> pyval" where
  "request provider_key circuit options =
     VDict ([(''provider'', VStr provider_key), (''circuit'', circuit)] @ options)"

text \<open>A circuit with a gate of a kind no adapter knows, and gates of a rotation without its
  angle.\<close>

definition unknown_gate :: pyval where
  "unknown_gate = VDict [(''gate'', VStr ''foo''), (''target'', VInt 0)]"

definition h_gate :: pyval where
  "h_gate = VDict [(''gate'', VStr ''h''), (''target'', VInt 0)]"

definition foo_circuit :: pyval where
  "foo_circuit =
     VDict [(''qubits'', VInt 1),
            (''gates'', VList [VDict [(''gate'', VStr ''foo''), (''target'', VInt 0)]])]"

definition rx_no_params :: pyval where
  "rx_no_params = VDict [(''gate'', VStr ''rx''), (''target'', VInt 0)]"

definition rx_no_theta :: pyval where
  "rx_no_theta = VDict [(''gate'', VStr ''rx''), (''target'', VInt 0), (''params'', VDict [])]"

definition missing_aws_credentials :: string where
  "missing_aws_credentials =
     ''AWS credentials (AWS_ACCESS_KEY_ID, AWS_SECRET_ACCESS_KEY, AWS_REGION) are required for IonQ QPU.''"

subsection \<open>Qubit indices\<close>


definition gate_kind :: "pyval \<Rightarrow> string option" where
  "gate_kind g = (case py_getitem g ''gate'' of Inr (VStr k) \<Rightarrow> Some (str_lower k) | _ \<Rightarrow> None)"

definition gate_field :: "pyval \<Rightarrow> string \<Rightarrow> pyval" where
  "gate_field g k = (case py_getitem g k of Inr v \<Rightarrow> v | Inl e \<Rightarrow> VNone)"


subsection \<open>What a handler leaves behind\<close>

text \<open>
  \<open>post Q E f c\<close>: started in \<open>c\<close>, the step \<open>f\<close> ends with \<open>Q\<close> when it returns and with
  \<open>E\<close> when it raises. \<open>unchanged_below s s'\<close>: from \<open>s\<close> to \<open>s'\<close> the store is the same
  and every object that existed in \<open>s\<close> is the same; only new objects were made.
\<close>

definition post :: "('a \<Rightarrow> ctx \<Rightarrow> bool) \<Rightarrow> (py_exc \<Rightarrow> ctx \<Rightarrow> bool) \<Rightarrow> 'a act \<Rightarrow> ctx \<Rightarrow> bool" where
  "post Q E f c = (case f c of (Inl e, c') \<Rightarrow> E e c' | (Inr v, c') \<Rightarrow> Q v c')"

definition unchanged_below :: "app_state \<Rightarrow> app_state \<Rightarrow> bool" where
  "unchanged_below s s' =
     (store s' = store s \<and> next_ref s \<le> next_ref s' \<and> (\<forall>a<next_ref s. heap s' a = heap s a))"

text \<open>
  The bundle a resolution reads for a provider family, the dictionary the handler makes of it,
  and whether the bundle is a dictionary, as the handler needs it. In a well-formed state every
  reference of the store is to an object that exists, and every stored bundle is a dictionary
  (the credentials of a save request are a mapping).
\<close>

definition resolved_bundle :: "sdk \<Rightarrow> app_state \<Rightarrow> string \<Rightarrow> pyval" where
  "resolved_bundle w s p =
     (case map_of (store s) p of Some r \<Rightarrow> heap s r | None \<Rightarrow> VDict (env_credentials w p))"

definition prepared :: "pydict \<Rightarrow> backend_info \<Rightarrow> pyval \<Rightarrow> pyval \<Rightarrow> pydict" where
  "prepared d info shots simulator_choice_key =
     AList.update ''simulator_choice'' simulator_choice_key
       (AList.update ''shots'' shots
         (AList.update ''backend_name'' (VStr (backend_name info)) d))"

fun is_dict :: "pyval \<Rightarrow> bool" where
  "is_dict (VDict d) = True"
| "is_dict v = False"

definition usable_bundle :: "sdk \<Rightarrow> app_state \<Rightarrow> backend_info \<Rightarrow> bool" where
  "usable_bundle w s fb = is_dict (resolved_bundle w s (provider fb))"

definition stored_below :: "app_state \<Rightarrow> bool" where
  "stored_below s = list_all (\<lambda>pr. snd pr < next_ref s) (store s)"

definition bundles_are_dicts :: "app_state \<Rightarrow> bool" where
  "bundles_are_dicts s = list_all (\<lambda>pr. is_dict (heap s (snd pr))) (store s)"

text \<open>
  The credentials the handler hands to a runner name the backend, by a string that is not
  empty. A result as the runners then build them: it names the backend by a string, its
  error, when it has one, is a string, and it carries no mark of a fallback. An invocation
  that returned. What the handler answers with a body: the reply, or the exception of
  \<^verbatim>\<open>jsonify\<close>.
\<close>

fun is_str :: "pyval \<Rightarrow> bool" where
  "is_str (VStr s) = True"
| "is_str v = False"

definition names_backend :: "pydict \<Rightarrow> bool" where
  "names_backend d =
     (is_str (dict_get d ''backend_name'' VNone) \<and> py_truthy (dict_get d ''backend_name'' VNone))"

definition plain_result :: "pydict \<Rightarrow> bool" where
  "plain_result result =
     (is_str (dict_get result ''backend_used'' VNone) \<and> is_str (dict_get result ''error'' (VStr []))
      \<and> map_of result ''fallback_reason'' = None
      \<and> map_of result ''original_backend_attempted'' = None)"

definition replied :: "reply \<Rightarrow> py_exc + reply" where
  "replied r = ebind (jsonify (fst r)) (\<lambda>json. Inr (json, snd r))"

definition made :: "runner_id \<Rightarrow> pyval \<Rightarrow> pydict \<Rightarrow> pydict \<Rightarrow> invocation" where
  "made r circuit_data d result =
     \<lparr>inv_runner = r, inv_circuit = circuit_data, inv_credentials = d, inv_outcome = Inr result\<rparr>"

text \<open>
  The paths through the \<^verbatim>\<open>try\<close> block, each given by the runner invocations made and the
  outcome, which is the reply or an exception, that of \<^verbatim>\<open>jsonify\<close> included: the
  primary result returned; the primary failure returned as it is; the registry
  lookup of the fallback key raising; the fallback key rejected; the fallback bundle unusable;
  both attempts failed; the fallback result returned. \<open>finish\<close> is what the handler replies
  for the outcome, and \<open>run_path\<close> adds the requests answered before any runner is called.
\<close>

definition try_path ::
    "backend_info \<Rightarrow> pyval \<Rightarrow> pyval \<Rightarrow> pyval \<Rightarrow> (backend_info \<Rightarrow> bool) \<Rightarrow> py_exc + reply
      \<Rightarrow> invocation list \<Rightarrow> bool" where
  "try_path info provider_key flag choice usable out tr =
     (\<exists>i1 result. inv_runner i1 = runner info \<and> inv_outcome i1 = Inr result \<and> plain_result result \<and>
        (if \<not> has_error result then tr = [i1] \<and> out = replied (result, 200)
         else if \<not> (provider_type info = ''qpu'' \<and> py_truthy flag) then
           tr = [i1] \<and> out = replied (primary_failed_reply (dict_get result ''error'' VNone) result)
         else
           (case backend_map_get choice of
              Inl e \<Rightarrow> tr = [i1] \<and> out = Inl e
            | Inr None \<Rightarrow>
                tr = [i1]
                \<and> out = replied (invalid_fallback_reply provider_key (dict_get result ''error'' VNone)
                               choice result)
            | Inr (Some fb) \<Rightarrow>
                if provider_type fb = ''qpu'' then
                  tr = [i1]
                  \<and> out = replied (invalid_fallback_reply provider_key (dict_get result ''error'' VNone)
                                 choice result)
                else if \<not> usable fb then tr = [i1] \<and> (\<exists>e. out = Inl e \<and> \<not> is_ValueError e)
                else
                  (\<exists>i2 fr. tr = [i1, i2] \<and> inv_runner i2 = runner fb \<and> inv_outcome i2 = Inr fr
                     \<and> plain_result fr \<and>
                     (if has_error fr then
                        out = replied (fallback_failed_reply provider_key
                                     (dict_get result ''error'' VNone) (backend_name fb)
                                     (dict_get fr ''error'' VNone) fr)
                      else
                        (\<exists>m. mark_fallback fr provider_key (dict_get result ''error'' VNone) = Inr m
                           \<and> out = replied (m, 200)))))))"

definition finish :: "pyval \<Rightarrow> py_exc + reply \<Rightarrow> reply" where
  "finish provider_key out = (case out of Inl e \<Rightarrow> unexpected_reply provider_key e | Inr r \<Rightarrow> r)"

definition run_path :: "sdk \<Rightarrow> app_state \<Rightarrow> pyval \<Rightarrow> py_exc + reply \<Rightarrow> invocation list \<Rightarrow> bool" where
  "run_path w s data out tr =
     (tr = [] \<or>
      (\<exists>provider_key info flag choice tried s1.
         py_get data ''provider'' VNone = Inr provider_key
         \<and> py_get data ''use_simulator_if_qpu_fails'' (VBool False) = Inr flag
         \<and> py_get data ''simulator_choice'' (VStr ''aer_qasm_simulator'') = Inr choice
         \<and> backend_map_get provider_key = Inr (Some info)
         \<and> unchanged_below s s1
         \<and> try_path info provider_key flag choice (usable_bundle w s1) tried tr
         \<and> out = Inr (finish provider_key tried)))"

definition handled :: "sdk \<Rightarrow> pyval \<Rightarrow> ctx \<Rightarrow> (py_exc + reply) \<times> ctx \<Rightarrow> bool" where
  "handled w data c oc =
     (unchanged_below (app c) (app (snd oc))
      \<and> (\<exists>tr. invoked (snd oc) = invoked c @ tr \<and> run_path w (app c) data (fst oc) tr))"

definition resolves_to_simulator :: "pyval \<Rightarrow> bool" where
  "resolves_to_simulator choice =
     (case backend_map_get choice of
        Inr (Some fb) \<Rightarrow> provider_type fb = ''simulator''
      | other \<Rightarrow> False)"

subsection \<open>Gate lists\<close>

text \<open>
  The kinds the Aer builder has a branch for; a value the builder accepts as target or
  control (no value, or an integer); a circuit description made of a qubit count and a gate
  list; and a Hadamard gate on a given index.
\<close>

definition aer_kinds :: "string list" where
  "aer_kinds =
     [''h'', ''x'', ''y'', ''z'', ''s'', ''sdg'', ''t'', ''tdg'', ''rx'', ''ry'', ''rz'', ''p'', ''u'',
      ''cx'', ''cy'', ''cz'', ''swap'', ''crx'', ''cry'', ''crz'', ''cu'', ''ccx'', ''measure'']"

definition index_or_none :: "pyval \<Rightarrow> bool" where
  "index_or_none v = (v = VNone \<or> is_int v)"

definition with_gates :: "pyval \<Rightarrow> pyval list \<Rightarrow> pyval" where
  "with_gates num_qubits gates = VDict [(''qubits'', num_qubits), (''gates'', VList gates)]"


subsection \<open>Requests and states the properties are evaluated on\<close>

text \<open>
  The option that asks for a fallback; requests run with the library \<open>quiet_sdk\<close> in a
  process that has saved nothing: a Bell circuit on the IonQ device with the fallback left to
  its default, with a device named as fallback, and with a key the registry does not have and
  no fallback asked for; the Bell circuit on the Aer simulator; a circuit with a gate of an
  unknown kind on the IonQ device with the Cirq simulator as fallback; the Bell circuit,
  which has no measurement, on the Cirq simulator, and on the IonQ device with the Cirq
  simulator as fallback. Then the results these runs meet, a bundle to save, the state after
  saving it, and a run in that state.
\<close>

definition fallback_requested :: "(string \<times> pyval) list" where
  "fallback_requested = [(''use_simulator_if_qpu_fails'', VBool True)]"

definition ionq_bell_with_fallback :: "(py_exc + reply) \<times> ctx" where
  "ionq_bell_with_fallback =
     run_circuit quiet_sdk (request ''aws_ionq'' bell fallback_requested) (fresh initial_state)"

definition ionq_bell_with_qpu_fallback :: "(py_exc + reply) \<times> ctx" where
  "ionq_bell_with_qpu_fallback =
     run_circuit quiet_sdk
       (request ''aws_ionq'' bell (fallback_requested @ [(''simulator_choice'', VStr ''aws_rigetti'')]))
       (fresh initial_state)"

definition ionq_bell_unknown_choice :: "(py_exc + reply) \<times> ctx" where
  "ionq_bell_unknown_choice =
     run_circuit quiet_sdk
       (request ''aws_ionq'' bell [(''simulator_choice'', VStr ''no_such_backend'')])
       (fresh initial_state)"

definition aer_bell :: "(py_exc + reply) \<times> ctx" where
  "aer_bell = run_circuit quiet_sdk (request ''aer_qasm_simulator'' bell []) (fresh initial_state)"

definition ionq_foo_with_cirq_fallback :: "(py_exc + reply) \<times> ctx" where
  "ionq_foo_with_cirq_fallback =
     run_circuit quiet_sdk
       (request ''aws_ionq'' foo_circuit
          (fallback_requested @ [(''simulator_choice'', VStr ''google_cirq'')]))
       (fresh initial_state)"

definition cirq_bell :: "(py_exc + reply) \<times> ctx" where
  "cirq_bell = run_circuit quiet_sdk (request ''google_cirq'' bell []) (fresh initial_state)"

definition ionq_bell_with_cirq_fallback :: "(py_exc + reply) \<times> ctx" where
  "ionq_bell_with_cirq_fallback =
     run_circuit quiet_sdk
       (request ''aws_ionq'' bell (fallback_requested @ [(''simulator_choice'', VStr ''google_cirq'')]))
       (fresh initial_state)"

definition bell_counts :: pydict where
  "bell_counts =
     [(''backend_used'', VStr ''Aer QASM Simulator''), (''num_qubits'', VInt 2),
      (''counts'', VDict [(''00'', VInt 512), (''11'', VInt 512)]),
      (''statevector'', VNone), (''probabilities'', VNone)]"

definition bell_state :: pydict where
  "bell_state =
     [(''backend_used'', VStr ''Cirq Local Simulator (Statevector)''), (''num_qubits'', VInt 2),
      (''counts'', VNone),
      (''statevector'',
       VList [VComplex ''(0.7071067811865475+0j)'', VComplex ''0j'', VComplex ''0j'',
              VComplex ''(0.7071067811865475+0j)'']),
      (''probabilities'',
       VDict [(''00'', VFloat ''0.4999999999999999''), (''01'', VFloat ''0.0''),
              (''10'', VFloat ''0.0''), (''11'', VFloat ''0.4999999999999999'')])]"

definition marked_bell_counts :: pydict where
  "marked_bell_counts =
     [(''backend_used'', VStr ''FALLBACK: Aer QASM Simulator (original target: aws_ionq)''),
      (''num_qubits'', VInt 2),
      (''counts'', VDict [(''00'', VInt 512), (''11'', VInt 512)]),
      (''statevector'', VNone), (''probabilities'', VNone),
      (''original_backend_attempted'', VStr ''aws_ionq''),
      (''fallback_reason'', VStr missing_aws_credentials)]"

definition ionq_unsupported :: pydict where
  "ionq_unsupported =
     [(''error'', VStr ''Unsupported gate type for IonQ (Braket): foo''),
      (''backend_used'', VStr ''ionq/qpu'')]"

definition cirq_unsupported :: pydict where
  "cirq_unsupported =
     [(''error'', VStr ''Unsupported gate type for Cirq: foo''),
      (''backend_used'', VStr ''Cirq Local Simulator'')]"

definition ionq_no_credentials :: pydict where
  "ionq_no_credentials =
     [(''error'', VStr missing_aws_credentials), (''backend_used'', VStr ''ionq/qpu'')]"

definition saved_bundle :: pydict where
  "saved_bundle = [(''AWS_REGION'', VStr ''us-east-1'')]"

definition after_save :: app_state where
  "after_save =
     app (snd (save_credentials
                 (VDict [(''provider'', VStr ''ionq''), (''credentials'', VDict saved_bundle)])
                 (fresh initial_state)))"

definition local_bell_after_save :: "(py_exc + reply) \<times> ctx" where
  "local_bell_after_save = run_circuit quiet_sdk (request ''aws_local'' bell []) (fresh after_save)"

section \<open>Basic facts\<close>

lemma ebind_Inl [simp]: "ebind (Inl e) f = Inl e"
  by (simp add: ebind_def)

lemma ebind_Inr [simp]: "ebind (Inr v) f = f v"
  by (simp add: ebind_def)

lemma ebind_eq_Inr: "(ebind m f = Inr r) = (\<exists>v. m = Inr v \<and> f v = Inr r)"
  by (cases m) simp_all

lemma ebind_eq_Inl: "(ebind m f = Inl e) = (m = Inl e \<or> (\<exists>v. m = Inr v \<and> f v = Inl e))"
  by (cases m) simp_all

lemma holds_Inl [simp]: "holds P (Inl e)"
  by (simp add: holds_def)

lemma holds_Inr [simp]: "holds P (Inr v) = P v"
  by (simp add: holds_def)

lemma holds_ebind: "holds P (ebind m f) = (\<forall>v. m = Inr v \<longrightarrow> holds P (f v))"
  by (cases m) simp_all

lemma holds_sdk_do:
  "holds P (sdk_do w circuit c) = (raises w circuit c = None \<longrightarrow> P (circuit @ [c]))"
  by (simp add: sdk_do_def split: option.splits)

lemma holds_returning:
  "holds P (returning body h) = ((\<forall>e. body = Inl e \<longrightarrow> P (h e)) \<and> holds P body)"
  by (cases body) (simp_all add: returning_def)

lemma for_each_holds:
  assumes "P s" and "\<And>s g. P s \<Longrightarrow> holds P (body s g)"
  shows "holds P (for_each body s gs)"
  using assms(1)
proof (induction gs arbitrary: s)
  case Nil
  then show ?case by simp
next
  case (Cons g gs)
  have step: "holds P (body s g)"
    by (rule assms(2) [OF Cons.prems])
  show ?case
  proof (cases "body s g")
    case (Inl e)
    then show ?thesis by simp
  next
    case (Inr s')
    with step have "P s'" by simp
    then have "holds P (for_each body s' gs)" by (rule Cons.IH)
    with Inr show ?thesis by simp
  qed
qed

section \<open>The shape of a runner's result\<close>

lemma one_output_error: "one_output (error_result e b)"
  by (simp add: one_output_def present_def error_result_def)

lemma one_output_counts: "one_output (execution_result b n (VDict counts) VNone VNone)"
  by (simp add: one_output_def present_def execution_result_def)

lemma one_output_state: "one_output (execution_result b n VNone (amplitudes sv) p)"
  by (simp add: one_output_def present_def execution_result_def amplitudes_def)

lemma one_output_error_literal: "one_output [(''error'', VStr m), (''backend_used'', b)]"
  by (simp add: one_output_def present_def)

lemmas one_output_intros =
  one_output_error one_output_counts one_output_state one_output_error_literal

text \<open>The Braket builder attaches no result type, so the branch of \<^verbatim>\<open>run_ionq\<close> that
  would add a state vector to the counts of SV1 is never taken.\<close>

lemma braket_gate_no_result_type:
  "\<not> has_statevector_result_type circuit \<Longrightarrow>
   holds (\<lambda>c. \<not> has_statevector_result_type c) (braket_gate label w circuit g)"
  unfolding braket_gate_def
  by (simp add: holds_ebind holds_sdk_do has_statevector_result_type_def)

lemma build_braket_holds:
  "holds (\<lambda>c. \<not> has_statevector_result_type c) (build_braket_circuit w cd)"
  unfolding build_braket_circuit_def
  by (simp add: holds_ebind for_each_holds braket_gate_no_result_type
        has_statevector_result_type_def [of "[]"])

lemma build_braket_no_result_type [simp]:
  "build_braket_circuit w cd = Inr circuit \<Longrightarrow> has_statevector_result_type circuit = False"
  using build_braket_holds [of w cd] by simp

lemma run_aer_shape: "holds one_output (run_aer w cd cr)"
  unfolding run_aer_def Let_def
  by (auto simp: holds_returning holds_ebind ebind_eq_Inr one_output_intros)

lemma run_cirq_shape: "holds one_output (run_cirq w cd cr)"
  unfolding run_cirq_def Let_def
  by (auto simp: holds_returning holds_ebind ebind_eq_Inr one_output_intros)

lemma run_ibm_shape: "holds one_output (run_ibm w cd cr)"
  unfolding run_ibm_def Let_def
  by (auto simp: holds_returning holds_ebind ebind_eq_Inr one_output_intros)

lemma run_ionq_shape: "holds one_output (run_ionq w cd cr)"
  unfolding run_ionq_def Let_def
  by (auto simp: holds_returning holds_ebind ebind_eq_Inr one_output_intros split: sum.splits)

lemma run_rigetti_shape: "holds one_output (run_rigetti w cd cr)"
  unfolding run_rigetti_def Let_def
  by (auto simp: holds_returning holds_ebind ebind_eq_Inr one_output_intros split: sum.splits)

lemma run_pennylane_shape: "holds one_output (run_pennylane w cd cr)"
  unfolding run_pennylane_def Let_def
  by (auto simp: holds_ebind ebind_eq_Inr one_output_intros split: sum.splits)

lemma quantinuum_run_shape: "holds one_output (quantinuum_run w req label cd circuit b cr)"
  unfolding quantinuum_run_def
  by (auto simp: holds_ebind ebind_eq_Inr one_output_intros split: sum.splits)

lemma run_quantinuum_shape: "holds one_output (run_quantinuum w cd cr)"
  unfolding run_quantinuum_def Let_def
  by (auto simp: holds_returning holds_ebind ebind_eq_Inr one_output_intros quantinuum_run_shape)

lemmas runner_shapes =
  run_ibm_shape run_ionq_shape run_rigetti_shape run_cirq_shape run_pennylane_shape
  run_aer_shape run_quantinuum_shape

text \<open>
  C3. Whatever the provider libraries do, a result dictionary returned by an adapter runner
  has exactly one of the fields \<open>counts\<close>, \<open>statevector\<close> and \<open>error\<close> present: counts and
  state vector never come together, and both are missing only from an error result.
\<close>

theorem runner_result_one_output:
  assumes "run \<in> set adapter_runners" and "run w circuit_data credentials = Inr result"
  shows "one_output result"
proof -
  have "holds one_output (run w circuit_data credentials)"
    using assms(1) by (auto simp: adapter_runners_def runner_shapes)
  with assms(2) show ?thesis by simp
qed

theorem runner_result_one_output_witness:
  "run_aer \<in> set adapter_runners
   \<and> run_aer quiet_sdk bell [(''backend_name'', VStr ''aer_qasm_simulator''), (''shots'', VInt 1024),
                               (''simulator_choice'', VStr ''aer_qasm_simulator'')]
     = Inr [(''backend_used'', VStr ''Aer QASM Simulator''), (''num_qubits'', VInt 2),
            (''counts'', VDict [(''00'', VInt 512), (''11'', VInt 512)]),
            (''statevector'', VNone), (''probabilities'', VNone)]
   \<and> one_output [(''backend_used'', VStr ''Aer QASM Simulator''), (''num_qubits'', VInt 2),
            (''counts'', VDict [(''00'', VInt 512), (''11'', VInt 512)]),
            (''statevector'', VNone), (''probabilities'', VNone)]"
proof -
  have member: "run_aer \<in> set adapter_runners"
    by (simp add: adapter_runners_def)
  have run: "run_aer quiet_sdk bell [(''backend_name'', VStr ''aer_qasm_simulator''),
               (''shots'', VInt 1024), (''simulator_choice'', VStr ''aer_qasm_simulator'')]
     = Inr [(''backend_used'', VStr ''Aer QASM Simulator''), (''num_qubits'', VInt 2),
            (''counts'', VDict [(''00'', VInt 512), (''11'', VInt 512)]),
            (''statevector'', VNone), (''probabilities'', VNone)]"
    by code_simp
  from member run runner_result_one_output [OF member run] show ?thesis by simp
qed

section \<open>Indices the Cirq builder refuses\<close>










lemma negative_index_wraps:
  assumes "- q \<le> t" and "t < 0"
  shows "cirq_gate w [0..<nat q] circuit (VDict [(''gate'', VStr ''h''), (''target'', VInt t)])
         = sdk_do w circuit (Call ''cirq.H'' [VInt (q + t)])"
proof -
  from assms have "list_index [0..<nat q] (VInt t) = Inr (nat (q + t))"
    by (auto simp: list_index_int_def)
  moreover from assms have "line_qubit (nat (q + t)) = VInt (q + t)"
    by (simp add: line_qubit_def)
  ultimately show ?thesis
    by (simp add: cirq_gate_def str_lower_def lower_char_def)
qed

section \<open>Steps of the handler\<close>

lemma post_mreturn [simp]: "post Q E (mreturn v) c = Q v c"
  by (simp add: post_def mreturn_def)

lemma respond_run: "respond body status c = (replied (body, status), c)"
  by (cases "jsonify body") (simp_all add: respond_def replied_def mbind_def lift_def mreturn_def)

lemma send_run: "send r c = (replied r, c)"
  by (simp add: send_def respond_run)

lemma post_respond [simp]:
  "post Q E (respond body status) c
   = (case replied (body, status) of Inl e \<Rightarrow> E e c | Inr r \<Rightarrow> Q r c)"
  by (simp add: post_def respond_run split: sum.splits)

lemma post_send [simp]:
  "post Q E (send r) c = (case replied r of Inl e \<Rightarrow> E e c | Inr r' \<Rightarrow> Q r' c)"
  by (simp add: post_def send_run split: sum.splits)

lemma replied_not_ValueError: "replied r = Inl e \<Longrightarrow> \<not> is_ValueError e"
  by (auto simp: replied_def jsonify_def split: if_splits)

lemma replied_cases:
  "replied r = (if json_ok (VDict (fst r)) then Inr r
                else Inl (TypeError ''Object of type complex is not JSON serializable''))"
  by (simp add: replied_def jsonify_def)

lemma is_str_json: "is_str v \<Longrightarrow> json_ok v"
  by (cases v) simp_all

lemma is_str_default: "is_str (dict_get d k VNone) \<Longrightarrow> is_str (dict_get d k dflt)"
  by (simp add: dict_get_def split: option.splits)

lemma json_error_field: "is_str (dict_get d k (VStr [])) \<Longrightarrow> json_ok (dict_get d k VNone)"
  by (auto simp: dict_get_def is_str_json split: option.splits)

lemma post_lift [simp]: "post Q E (lift r) c = (case r of Inl e \<Rightarrow> E e c | Inr v \<Rightarrow> Q v c)"
  by (simp add: post_def lift_def split: sum.splits)

lemma post_mbind: "post Q E (mbind f g) c = post (\<lambda>v c'. post Q E (g v) c') E f c"
  by (simp add: post_def mbind_def split: prod.splits sum.splits)

lemma post_weaken:
  assumes "post Q E f c" and "\<And>v c'. Q v c' \<Longrightarrow> Q' v c'" and "\<And>e c'. E e c' \<Longrightarrow> E' e c'"
  shows "post Q' E' f c"
  using assms by (auto simp: post_def split: prod.splits sum.splits)

lemma unchanged_below_refl [simp]: "unchanged_below s s"
  by (simp add: unchanged_below_def)

lemma unchanged_below_trans:
  "unchanged_below s s' \<Longrightarrow> unchanged_below s' s'' \<Longrightarrow> unchanged_below s s''"
  by (auto simp: unchanged_below_def)

lemma prepare_credentials_dict:
  assumes "resolved_bundle w (app c) (provider info) = VDict d"
  shows "prepare_credentials w info shots sk c =
           (Inr (next_ref (app c)),
            c\<lparr>app := (app c)\<lparr>heap := (heap (app c))(next_ref (app c) := VDict (prepared d info shots sk)),
                              next_ref := Suc (next_ref (app c))\<rparr>\<rparr>)"
  using assms
  by (auto simp: prepare_credentials_def get_credentials_for_provider_def resolved_bundle_def
        mbind_def new_object_def set_item_def mreturn_def prepared_def
        split: option.splits pyval.splits)

lemma prepare_credentials_other:
  assumes "\<forall>d. resolved_bundle w (app c) (provider info) \<noteq> VDict d"
  shows "\<exists>e c'. prepare_credentials w info shots sk c = (Inl e, c') \<and> \<not> is_ValueError e
           \<and> invoked c' = invoked c \<and> unchanged_below (app c) (app c')"
  using assms
  by (auto simp: prepare_credentials_def get_credentials_for_provider_def resolved_bundle_def
        mbind_def new_object_def set_item_def mreturn_def unchanged_below_def
        split: option.splits pyval.splits)

lemma prepared_backend_name:
  "dict_get (prepared d info shots sk) ''backend_name'' VNone = VStr (backend_name info)"
  by (simp add: prepared_def dict_get_def update_conv')

lemma prepare_credentials_post:
  "post (\<lambda>r c'. invoked c' = invoked c \<and> unchanged_below (app c) (app c')
            \<and> (\<exists>d. heap (app c') r = VDict d
                   \<and> dict_get d ''backend_name'' VNone = VStr (backend_name info)))
        (\<lambda>e c'. invoked c' = invoked c \<and> unchanged_below (app c) (app c'))
        (prepare_credentials w info shots sk) c"
proof (cases "\<exists>d. resolved_bundle w (app c) (provider info) = VDict d")
  case True
  then obtain d where d: "resolved_bundle w (app c) (provider info) = VDict d" by blast
  show ?thesis
    by (simp add: post_def prepare_credentials_dict [OF d] prepared_backend_name
          unchanged_below_def)
next
  case False
  then have "\<forall>d. resolved_bundle w (app c) (provider info) \<noteq> VDict d" by blast
  from prepare_credentials_other [OF this, of shots sk] show ?thesis
    by (auto simp: post_def)
qed

section \<open>The registry and the runners it names\<close>

lemma registry_backend_name: "map_of BACKEND_MAP k = Some info \<Longrightarrow> backend_name info \<noteq> []"
  by (auto simp: BACKEND_MAP_def split: if_splits)

lemma registry_provider_type:
  "map_of BACKEND_MAP k = Some info \<Longrightarrow>
   provider_type info = ''qpu'' \<or> provider_type info = ''simulator''"
  by (auto simp: BACKEND_MAP_def split: if_splits)

lemma backend_map_get_Some:
  "backend_map_get v = Inr (Some fb) \<Longrightarrow> \<exists>k. map_of BACKEND_MAP k = Some fb"
  by (cases v) auto

lemma backend_map_get_not_ValueError: "backend_map_get v = Inl e \<Longrightarrow> \<not> is_ValueError e"
  by (cases v) auto

lemma resolves_to_simulator_iff:
  "resolves_to_simulator sk
   = (\<exists>fb. backend_map_get sk = Inr (Some fb) \<and> provider_type fb \<noteq> ''qpu'')"
proof (cases "backend_map_get sk")
  case (Inl e)
  then show ?thesis by (simp add: resolves_to_simulator_def)
next
  case (Inr fbo)
  show ?thesis
  proof (cases fbo)
    case None
    with Inr show ?thesis by (simp add: resolves_to_simulator_def)
  next
    case (Some fb)
    with Inr have "backend_map_get sk = Inr (Some fb)" by simp
    then obtain k where "map_of BACKEND_MAP k = Some fb" by (auto dest: backend_map_get_Some)
    from registry_provider_type [OF this] Inr Some show ?thesis
      by (auto simp: resolves_to_simulator_def)
  qed
qed

lemma returning_total: "\<exists>r. returning body h = Inr r"
  by (cases body) (simp_all add: returning_def)

lemma run_pennylane_total: "\<exists>r. run_pennylane w cd d = Inr r"
  unfolding run_pennylane_def Let_def by (simp split: sum.splits)

lemma call_runner_total:
  assumes "names_backend d"
  shows "\<exists>res. call_runner w rid cd d = Inr res"
  using assms
  by (cases rid)
     (simp_all add: run_ibm_def run_ionq_def run_rigetti_def run_cirq_def run_aer_def
        run_pennylane_total returning_total Let_def names_backend_def)

lemma plain_error: "is_str b \<Longrightarrow> plain_result (error_result e b)"
  by (simp add: plain_result_def error_result_def dict_get_def)

lemma plain_execution: "is_str b \<Longrightarrow> plain_result (execution_result b n counts sv pr)"
  by (simp add: plain_result_def execution_result_def dict_get_def)

lemma plain_error_literal:
  "is_str b \<Longrightarrow> plain_result [(''error'', VStr m), (''backend_used'', b)]"
  by (simp add: plain_result_def dict_get_def)

lemma is_str_py_or: "is_str a \<Longrightarrow> is_str (py_or a (VStr b))"
  by (simp add: py_or_def)

lemmas plain_intros = plain_error plain_execution plain_error_literal is_str_default is_str_py_or

lemma run_aer_plain:
  "is_str (dict_get cr ''backend_name'' VNone) \<Longrightarrow> holds plain_result (run_aer w cd cr)"
  unfolding run_aer_def Let_def
  by (auto simp: holds_returning holds_ebind ebind_eq_Inr plain_intros)

lemma run_cirq_plain: "holds plain_result (run_cirq w cd cr)"
  unfolding run_cirq_def Let_def
  by (auto simp: holds_returning holds_ebind ebind_eq_Inr plain_intros)

lemma run_ibm_plain:
  "is_str (dict_get cr ''backend_name'' VNone) \<Longrightarrow> holds plain_result (run_ibm w cd cr)"
  unfolding run_ibm_def Let_def
  by (auto simp: holds_returning holds_ebind ebind_eq_Inr plain_intros)

lemma run_ionq_plain:
  "is_str (dict_get cr ''backend_name'' VNone) \<Longrightarrow> holds plain_result (run_ionq w cd cr)"
  unfolding run_ionq_def Let_def
  by (auto simp: holds_returning holds_ebind ebind_eq_Inr plain_intros split: sum.splits)

lemma run_rigetti_plain:
  "is_str (dict_get cr ''backend_name'' VNone) \<Longrightarrow> holds plain_result (run_rigetti w cd cr)"
  unfolding run_rigetti_def Let_def
  by (auto simp: holds_returning holds_ebind ebind_eq_Inr plain_intros split: sum.splits)

lemma run_pennylane_plain:
  "is_str (dict_get cr ''backend_name'' VNone) \<Longrightarrow> holds plain_result (run_pennylane w cd cr)"
  unfolding run_pennylane_def Let_def
  by (auto simp: holds_ebind ebind_eq_Inr plain_intros split: sum.splits)

lemma call_runner_plain:
  "is_str (dict_get d ''backend_name'' VNone) \<Longrightarrow> holds plain_result (call_runner w rid cd d)"
  by (cases rid)
     (simp_all add: run_ibm_plain run_ionq_plain run_rigetti_plain run_cirq_plain
        run_pennylane_plain run_aer_plain)

lemma invoke_post:
  assumes "heap (app c) r = VDict d" and "names_backend d"
  shows "post (\<lambda>res c'. c' = c\<lparr>invoked := invoked c @ [made rid cd d res]\<rparr> \<and> plain_result res)
              (\<lambda>e c'. False) (invoke w rid cd r) c"
proof -
  from call_runner_total [OF assms(2)] obtain res where res: "call_runner w rid cd d = Inr res"
    by blast
  with call_runner_plain [of d w rid cd] assms(2) have "plain_result res"
    by (simp add: names_backend_def)
  with res assms(1) show ?thesis
    by (simp add: post_def invoke_def made_def)
qed

lemma run_fallback_post:
  assumes "backend_name fb \<noteq> []"
  shows "post (\<lambda>fr c'. \<exists>d. invoked c' = invoked c @ [made (runner fb) cd d fr] \<and> plain_result fr
                  \<and> unchanged_below (app c) (app c')
                  \<and> (\<exists>d. resolved_bundle w (app c) (provider fb) = VDict d))
              (\<lambda>e c'. invoked c' = invoked c \<and> \<not> is_ValueError e \<and> unchanged_below (app c) (app c')
                  \<and> (\<forall>d. resolved_bundle w (app c) (provider fb) \<noteq> VDict d))
              (run_fallback w fb cd shots sk) c"
proof (cases "\<exists>d. resolved_bundle w (app c) (provider fb) = VDict d")
  case True
  then obtain d where d: "resolved_bundle w (app c) (provider fb) = VDict d" by blast
  let ?c1 = "c\<lparr>app := (app c)\<lparr>heap := (heap (app c))(next_ref (app c) := VDict (prepared d fb shots sk)),
                              next_ref := Suc (next_ref (app c))\<rparr>\<rparr>"
  have ready: "heap (app ?c1) (next_ref (app c)) = VDict (prepared d fb shots sk)"
    by simp
  have truthy: "names_backend (prepared d fb shots sk)"
    using assms by (simp add: prepared_backend_name names_backend_def)
  have "post (\<lambda>res c'. c' = ?c1\<lparr>invoked := invoked ?c1 @ [made (runner fb) cd (prepared d fb shots sk) res]\<rparr>
                 \<and> plain_result res)
             (\<lambda>e c'. False) (invoke w (runner fb) cd (next_ref (app c))) ?c1"
    by (rule invoke_post [OF ready truthy])
  then show ?thesis
    unfolding run_fallback_def
    by (auto simp: post_def mbind_def prepare_credentials_dict [OF d] unchanged_below_def d
          split: prod.splits sum.splits)
next
  case False
  then have "\<forall>d. resolved_bundle w (app c) (provider fb) \<noteq> VDict d" by blast
  from prepare_credentials_other [OF this, of shots sk] False show ?thesis
    unfolding run_fallback_def by (auto simp: post_def mbind_def)
qed

section \<open>The paths of \<^verbatim>\<open>run_circuit\<close>\<close>

lemma is_dict_iff: "is_dict v = (\<exists>d. v = VDict d)"
  by (cases v) simp_all

lemma has_error_getitem:
  "has_error result \<Longrightarrow> py_getitem (VDict result) ''error'' = Inr (dict_get result ''error'' VNone)"
  by (auto simp: has_error_def dict_get_def)

lemma plain_backend_used:
  "plain_result fr \<Longrightarrow> \<exists>used. map_of fr ''backend_used'' = Some (VStr used)"
  by (cases "map_of fr ''backend_used''"; cases "dict_get fr ''backend_used'' VNone")
     (auto simp: plain_result_def dict_get_def)

lemma mark_fallback_plain:
  "plain_result fr \<Longrightarrow> \<exists>m. mark_fallback fr pk err = Inr m"
  by (auto simp: mark_fallback_def dest!: plain_backend_used)

lemma try_path_success:
  "\<lbrakk>inv_runner i1 = runner info; inv_outcome i1 = Inr res; plain_result res; \<not> has_error res\<rbrakk>
   \<Longrightarrow> try_path info pk flag sk u (replied (res, 200)) [i1]"
  unfolding try_path_def by (rule exI [of _ i1], rule exI [of _ res]) simp

lemma try_path_plain_failure:
  "\<lbrakk>inv_runner i1 = runner info; inv_outcome i1 = Inr res; plain_result res; has_error res;
    \<not> (provider_type info = ''qpu'' \<and> py_truthy flag)\<rbrakk>
   \<Longrightarrow> try_path info pk flag sk u
         (replied (primary_failed_reply (dict_get res ''error'' VNone) res)) [i1]"
  unfolding try_path_def by (rule exI [of _ i1], rule exI [of _ res]) simp

lemma try_path_unhashable:
  "\<lbrakk>inv_runner i1 = runner info; inv_outcome i1 = Inr res; plain_result res; has_error res;
    provider_type info = ''qpu'' \<and> py_truthy flag; backend_map_get sk = Inl e\<rbrakk>
   \<Longrightarrow> try_path info pk flag sk u (Inl e) [i1]"
  unfolding try_path_def by (rule exI [of _ i1], rule exI [of _ res]) simp

lemma try_path_invalid:
  "\<lbrakk>inv_runner i1 = runner info; inv_outcome i1 = Inr res; plain_result res; has_error res;
    provider_type info = ''qpu'' \<and> py_truthy flag; backend_map_get sk = Inr fbo;
    fbo = None \<or> provider_type (the fbo) = ''qpu''\<rbrakk>
   \<Longrightarrow> try_path info pk flag sk u
         (replied (invalid_fallback_reply pk (dict_get res ''error'' VNone) sk res)) [i1]"
  unfolding try_path_def
  by (rule exI [of _ i1], rule exI [of _ res]) (auto split: option.splits)

lemma try_path_unusable:
  "\<lbrakk>inv_runner i1 = runner info; inv_outcome i1 = Inr res; plain_result res; has_error res;
    provider_type info = ''qpu'' \<and> py_truthy flag; backend_map_get sk = Inr (Some fb);
    provider_type fb \<noteq> ''qpu''; \<not> u fb; \<not> is_ValueError e\<rbrakk>
   \<Longrightarrow> try_path info pk flag sk u (Inl e) [i1]"
  unfolding try_path_def by (rule exI [of _ i1], rule exI [of _ res]) simp

lemma try_path_both_failed:
  "\<lbrakk>inv_runner i1 = runner info; inv_outcome i1 = Inr res; plain_result res; has_error res;
    provider_type info = ''qpu'' \<and> py_truthy flag; backend_map_get sk = Inr (Some fb);
    provider_type fb \<noteq> ''qpu''; u fb;
    inv_runner i2 = runner fb; inv_outcome i2 = Inr fr; plain_result fr; has_error fr\<rbrakk>
   \<Longrightarrow> try_path info pk flag sk u
         (replied (fallback_failed_reply pk (dict_get res ''error'' VNone) (backend_name fb)
                 (dict_get fr ''error'' VNone) fr)) [i1, i2]"
  unfolding try_path_def
  by (rule exI [of _ i1], rule exI [of _ res]) auto

lemma try_path_fallback:
  "\<lbrakk>inv_runner i1 = runner info; inv_outcome i1 = Inr res; plain_result res; has_error res;
    provider_type info = ''qpu'' \<and> py_truthy flag; backend_map_get sk = Inr (Some fb);
    provider_type fb \<noteq> ''qpu''; u fb;
    inv_runner i2 = runner fb; inv_outcome i2 = Inr fr; plain_result fr; \<not> has_error fr;
    mark_fallback fr pk (dict_get res ''error'' VNone) = Inr m\<rbrakk>
   \<Longrightarrow> try_path info pk flag sk u (replied (m, 200)) [i1, i2]"
  unfolding try_path_def
  by (rule exI [of _ i1], rule exI [of _ res]) auto

lemma try_body_post:
  assumes ready: "heap (app c) r = VDict d" "names_backend d"
  shows "post (\<lambda>rep c'. \<exists>tr. invoked c' = invoked c @ tr \<and> unchanged_below (app c) (app c')
                  \<and> try_path info pk flag sk (usable_bundle w (app c)) (Inr rep) tr)
              (\<lambda>e c'. \<exists>tr. invoked c' = invoked c @ tr \<and> unchanged_below (app c) (app c')
                  \<and> try_path info pk flag sk (usable_bundle w (app c)) (Inl e) tr
                  \<and> \<not> is_ValueError e)
              (try_body w info pk cd flag sk shots r) c"
    (is "post ?Q ?E _ c")
proof -
  have "post (\<lambda>res c'. c' = c\<lparr>invoked := invoked c @ [made (runner info) cd d res]\<rparr> \<and> plain_result res)
             (\<lambda>e c'. False) (invoke w (runner info) cd r) c"
    by (rule invoke_post [OF ready])
  then obtain res where
    inv: "invoke w (runner info) cd r c = (Inr res, c\<lparr>invoked := invoked c @ [made (runner info) cd d res]\<rparr>)"
    and plain: "plain_result res"
    by (auto simp: post_def split: prod.splits sum.splits)
  let ?i1 = "made (runner info) cd d res"
  let ?c1 = "c\<lparr>invoked := invoked c @ [?i1]\<rparr>"
  have i1: "inv_runner ?i1 = runner info" "inv_outcome ?i1 = Inr res"
    by (simp_all add: made_def)
  have step: "post ?Q ?E (try_body w info pk cd flag sk shots r) c
              = post ?Q ?E
                  (if has_error res then
                     mbind (lift (py_getitem (VDict res) ''error'')) (\<lambda>result_error.
                     if provider_type info = ''qpu'' \<and> py_truthy flag then
                       mbind (lift (backend_map_get sk)) (\<lambda>fallback_backend_info.
                         if fallback_backend_info = None
                            \<or> provider_type (the fallback_backend_info) = ''qpu'' then
                           send (invalid_fallback_reply pk result_error sk res)
                         else
                           mbind (run_fallback w (the fallback_backend_info) cd shots sk) (\<lambda>fallback_result.
                             if has_error fallback_result then
                               mbind (lift (py_getitem (VDict fallback_result) ''error'')) (\<lambda>fallback_error.
                                 send (fallback_failed_reply pk result_error
                                          (backend_name (the fallback_backend_info)) fallback_error
                                          fallback_result))
                             else
                               mbind (lift (mark_fallback fallback_result pk result_error))
                                 (\<lambda>marked. respond marked 200)))
                     else send (primary_failed_reply result_error res))
                   else respond res 200) ?c1"
    unfolding try_body_def by (simp add: post_def mbind_def inv)
  have c1: "invoked ?c1 = invoked c @ [?i1]" "unchanged_below (app c) (app ?c1)"
    by simp_all
  let ?R = "\<lambda>out c'. case out of Inl e \<Rightarrow> ?E e c' | Inr rep \<Rightarrow> ?Q rep c'"
  have close: "?R (replied X) c'"
    if "invoked c' = invoked c @ tr" "unchanged_below (app c) (app c')"
      "try_path info pk flag sk (usable_bundle w (app c)) (replied X) tr" for X tr c'
    using that by (cases "replied X") (auto dest: replied_not_ValueError)
  show ?thesis
  proof (cases "has_error res")
    case False
    then have "post ?Q ?E (try_body w info pk cd flag sk shots r) c = ?R (replied (res, 200)) ?c1"
      unfolding step by simp
    moreover have "?R (replied (res, 200)) ?c1"
      using c1 try_path_success [OF i1 plain False] by (rule close)
    ultimately show ?thesis by simp
  next
    case err: True
    note ge = has_error_getitem [OF err]
    show ?thesis
    proof (cases "provider_type info = ''qpu'' \<and> py_truthy flag")
      case False
      then have cond: "(provider_type info = ''qpu'' \<and> py_truthy flag) = False" by simp
      have "post ?Q ?E (try_body w info pk cd flag sk shots r) c
          = ?R (replied (primary_failed_reply (dict_get res ''error'' VNone) res)) ?c1"
        unfolding step by (simp add: post_mbind ge err cond del: py_getitem.simps)
      moreover have "?R (replied (primary_failed_reply (dict_get res ''error'' VNone) res)) ?c1"
        using c1 try_path_plain_failure [OF i1 plain err False] by (rule close)
      ultimately show ?thesis by simp
    next
      case qpu: True
      then have cond: "(provider_type info = ''qpu'' \<and> py_truthy flag) = True" by simp
      show ?thesis
      proof (cases "backend_map_get sk")
        case (Inl e)
        have "post ?Q ?E (try_body w info pk cd flag sk shots r) c = ?E e ?c1"
          unfolding step by (simp add: post_mbind ge err cond Inl del: py_getitem.simps)
        moreover have "?E e ?c1"
          using c1 try_path_unhashable [OF i1 plain err qpu Inl]
            backend_map_get_not_ValueError [OF Inl] by blast
        ultimately show ?thesis by simp
      next
        case (Inr fbo)
        show ?thesis
        proof (cases "fbo = None \<or> provider_type (the fbo) = ''qpu''")
          case True
          then have none: "(fbo = None \<or> provider_type (the fbo) = ''qpu'') = True" by simp
          have "post ?Q ?E (try_body w info pk cd flag sk shots r) c
              = ?R (replied (invalid_fallback_reply pk (dict_get res ''error'' VNone) sk res)) ?c1"
            unfolding step by (simp add: post_mbind ge err cond Inr none del: py_getitem.simps)
          moreover have "?R (replied (invalid_fallback_reply pk (dict_get res ''error'' VNone) sk res)) ?c1"
            using c1 try_path_invalid [OF i1 plain err qpu Inr True] by (rule close)
          ultimately show ?thesis by simp
        next
          case False
          then obtain fb where fb: "fbo = Some fb" "provider_type fb \<noteq> ''qpu''" by auto
          from Inr fb have get: "backend_map_get sk = Inr (Some fb)" by simp
          then have name: "backend_name fb \<noteq> []"
            by (auto dest!: backend_map_get_Some registry_backend_name)
          note fbp = run_fallback_post [OF name, of ?c1 cd w shots sk]
          have reduce: "post ?Q ?E (try_body w info pk cd flag sk shots r) c
              = post ?Q ?E
                  (mbind (run_fallback w fb cd shots sk) (\<lambda>fallback_result.
                     if has_error fallback_result then
                       mbind (lift (py_getitem (VDict fallback_result) ''error'')) (\<lambda>fallback_error.
                         send (fallback_failed_reply pk (dict_get res ''error'' VNone)
                                  (backend_name fb) fallback_error fallback_result))
                     else
                       mbind (lift (mark_fallback fallback_result pk (dict_get res ''error'' VNone)))
                         (\<lambda>marked. respond marked 200))) ?c1"
            unfolding step
            by (simp add: post_mbind ge err cond get fb(2) del: py_getitem.simps cong: if_cong)
          show ?thesis
          proof (cases "run_fallback w fb cd shots sk ?c1")
            case (Pair o2 c2)
            show ?thesis
            proof (cases o2)
              case (Inl e)
              with Pair fbp have facts: "invoked c2 = invoked ?c1" "\<not> is_ValueError e"
                "unchanged_below (app c) (app c2)"
                "\<forall>d. resolved_bundle w (app c) (provider fb) \<noteq> VDict d"
                by (simp_all add: post_def)
              from facts(4) have unusable: "\<not> usable_bundle w (app c) fb"
                by (simp add: usable_bundle_def is_dict_iff)
              have "post ?Q ?E (try_body w info pk cd flag sk shots r) c = ?E e c2"
                unfolding reduce using Pair Inl by (simp add: post_def mbind_def)
              moreover have "?E e c2"
                using facts(1-3) try_path_unusable [where u = "usable_bundle w (app c)", OF i1 plain err qpu get fb(2) unusable facts(2)]
                by auto
              ultimately show ?thesis by simp
            next
              case (Inr fr)
              with Pair fbp obtain d2 where facts:
                "invoked c2 = invoked ?c1 @ [made (runner fb) cd d2 fr]" "plain_result fr"
                "unchanged_below (app c) (app c2)"
                "\<exists>d. resolved_bundle w (app c) (provider fb) = VDict d"
                by (auto simp: post_def)
              from facts(4) have usable: "usable_bundle w (app c) fb"
                by (simp add: usable_bundle_def is_dict_iff)
              let ?i2 = "made (runner fb) cd d2 fr"
              have i2: "inv_runner ?i2 = runner fb" "inv_outcome ?i2 = Inr fr"
                by (simp_all add: made_def)
              have tr: "invoked c2 = invoked c @ [?i1, ?i2]"
                using facts(1) by simp
              show ?thesis
              proof (cases "has_error fr")
                case True
                have "post ?Q ?E (try_body w info pk cd flag sk shots r) c
                    = ?R (replied (fallback_failed_reply pk (dict_get res ''error'' VNone)
                            (backend_name fb) (dict_get fr ''error'' VNone) fr)) c2"
                  unfolding reduce using Pair Inr True
                  by (simp add: post_def mbind_def lift_def has_error_getitem send_run
                        del: py_getitem.simps split: sum.splits)
                moreover have "?R (replied (fallback_failed_reply pk (dict_get res ''error'' VNone)
                            (backend_name fb) (dict_get fr ''error'' VNone) fr)) c2"
                  using tr facts(3)
                    try_path_both_failed [where u = "usable_bundle w (app c)", OF i1 plain err qpu get fb(2) usable i2 facts(2) True]
                  by (rule close)
                ultimately show ?thesis by simp
              next
                case False
                from mark_fallback_plain [OF facts(2)] obtain m where
                  m: "mark_fallback fr pk (dict_get res ''error'' VNone) = Inr m" by blast
                have "post ?Q ?E (try_body w info pk cd flag sk shots r) c = ?R (replied (m, 200)) c2"
                  unfolding reduce using Pair Inr False m
                  by (simp add: post_def mbind_def lift_def respond_run split: sum.splits)
                moreover have "?R (replied (m, 200)) c2"
                  using tr facts(3)
                    try_path_fallback [where u = "usable_bundle w (app c)", OF i1 plain err qpu get fb(2) usable i2 facts(2) False m]
                  by (rule close)
                ultimately show ?thesis by simp
              qed
            qed
          qed
        qed
      qed
    qed
  qed
qed

lemma handled_same [simp]: "handled w data c (out, c)"
  by (simp add: handled_def run_path_def)

lemma post_handled:
  "post (\<lambda>rep c'. H (Inr rep, c')) (\<lambda>e c'. H (Inl e, c')) f c = H (f c)"
  by (simp add: post_def split: prod.splits sum.splits)

lemma replied_unexpected:
  "is_str pk \<Longrightarrow> replied (unexpected_reply pk e) = Inr (unexpected_reply pk e)"
  by (simp add: replied_cases unexpected_reply_def is_str_json)

lemma run_try_post:
  assumes ready: "heap (app c) r = VDict d" "names_backend d" and key: "is_str pk"
  shows "post (\<lambda>rep c'. \<exists>tr tried. invoked c' = invoked c @ tr \<and> unchanged_below (app c) (app c')
                  \<and> try_path info pk flag sk (usable_bundle w (app c)) tried tr
                  \<and> rep = finish pk tried)
              (\<lambda>e c'. False)
              (run_try w info pk cd flag sk shots r) c"
proof (cases "try_body w info pk cd flag sk shots r c")
  case (Pair o1 c1)
  note body = try_body_post [OF ready, of info pk flag sk w cd shots]
  show ?thesis
  proof (cases o1)
    case (Inl e)
    with Pair body obtain tr where
      "invoked c1 = invoked c @ tr" "unchanged_below (app c) (app c1)"
      "try_path info pk flag sk (usable_bundle w (app c)) (Inl e) tr" "\<not> is_ValueError e"
      by (auto simp: post_def)
    then show ?thesis
      using Pair Inl
      by (auto simp: post_def run_try_def except_exception_def send_run replied_unexpected [OF key]
            finish_def
            intro!: exI [of _ tr] exI [of _ "Inl e :: py_exc + reply"])
  next
    case (Inr rep)
    with Pair body obtain tr where
      "invoked c1 = invoked c @ tr" "unchanged_below (app c) (app c1)"
      "try_path info pk flag sk (usable_bundle w (app c)) (Inr rep) tr"
      by (auto simp: post_def)
    then show ?thesis
      using Pair Inr
      by (auto simp: post_def run_try_def finish_def
            intro!: exI [of _ tr] exI [of _ "Inr rep :: py_exc + reply"])
  qed
qed

lemma run_selected:
  assumes provider: "py_get data ''provider'' VNone = Inr pk"
    and flag: "py_get data ''use_simulator_if_qpu_fails'' (VBool False) = Inr flag"
    and choice: "py_get data ''simulator_choice'' (VStr ''aer_qasm_simulator'') = Inr sk"
    and info: "backend_map_get pk = Inr (Some info)"
  shows "handled w data c
           (mbind (prepare_credentials w info shots sk)
              (\<lambda>credentials. run_try w info pk cd flag sk shots credentials) c)"
proof (cases "prepare_credentials w info shots sk c")
  case (Pair o1 c1)
  note prep = prepare_credentials_post [of c info w shots sk]
  show ?thesis
  proof (cases o1)
    case (Inl e)
    with Pair prep show ?thesis
      by (simp add: post_def mbind_def handled_def run_path_def)
  next
    case (Inr r)
    with Pair prep obtain d where facts: "invoked c1 = invoked c" "unchanged_below (app c) (app c1)"
      "heap (app c1) r = VDict d" "dict_get d ''backend_name'' VNone = VStr (backend_name info)"
      by (auto simp: post_def)
    from info have "backend_name info \<noteq> []"
      by (auto dest!: backend_map_get_Some registry_backend_name)
    with facts(4) have truthy: "names_backend d" by (simp add: names_backend_def)
    from info have key: "is_str pk" by (cases pk) simp_all
    note tried_post = run_try_post [OF facts(3) truthy key, of info flag sk w cd shots]
    obtain o2 c2 where run: "run_try w info pk cd flag sk shots r c1 = (o2, c2)"
      by (cases "run_try w info pk cd flag sk shots r c1")
    with tried_post obtain rep tr tried where out: "o2 = Inr rep" "invoked c2 = invoked c1 @ tr"
      "unchanged_below (app c1) (app c2)"
      "try_path info pk flag sk (usable_bundle w (app c1)) tried tr" "rep = finish pk tried"
      by (cases o2) (auto simp: post_def)
    have "run_path w (app c) data (Inr rep) tr"
      unfolding run_path_def
      using provider flag choice info facts(2) out(4,5) by blast
    moreover have "unchanged_below (app c) (app c2)"
      using facts(2) out(3) by (rule unchanged_below_trans)
    ultimately show ?thesis
      using Pair Inr run out(1,2) facts(1) by (simp add: mbind_def handled_def)
  qed
qed

lemma run_selected_post:
  assumes "py_get data ''provider'' VNone = Inr pk"
    and "py_get data ''use_simulator_if_qpu_fails'' (VBool False) = Inr flag"
    and "py_get data ''simulator_choice'' (VStr ''aer_qasm_simulator'') = Inr sk"
    and "backend_map_get pk = Inr (Some info)"
  shows "post (\<lambda>v. post (\<lambda>rep c'. handled w data c (Inr rep, c'))
                        (\<lambda>e c'. handled w data c (Inl e, c'))
                        (run_try w info pk cd flag sk shots v))
              (\<lambda>e c'. handled w data c (Inl e, c'))
              (prepare_credentials w info shots sk) c"
  unfolding post_mbind [symmetric] post_handled using assms by (rule run_selected)

lemma run_circuit_handled: "handled w data c (run_circuit w data c)"
proof -
  have "post (\<lambda>rep c'. handled w data c (Inr rep, c')) (\<lambda>e c'. handled w data c (Inl e, c'))
          (run_circuit w data) c"
    unfolding run_circuit_def
    by (auto simp: post_mbind run_selected_post split: sum.splits option.splits)
  then show ?thesis by (simp only: post_handled)
qed

lemma resolved_unchanged:
  assumes "stored_below s" and "unchanged_below s s1"
  shows "resolved_bundle w s1 p = resolved_bundle w s p"
proof (cases "map_of (store s) p")
  case None
  with assms(2) show ?thesis by (simp add: resolved_bundle_def unchanged_below_def)
next
  case (Some r)
  then have "(p, r) \<in> set (store s)" by (rule map_of_SomeD)
  with assms(1) have "r < next_ref s" by (auto simp: stored_below_def list_all_iff)
  with assms(2) Some show ?thesis by (simp add: resolved_bundle_def unchanged_below_def)
qed

lemma usable_wellformed:
  assumes "bundles_are_dicts s"
  shows "usable_bundle w s fb"
proof (cases "map_of (store s) (provider fb)")
  case None
  then show ?thesis by (simp add: usable_bundle_def resolved_bundle_def)
next
  case (Some r)
  then have "(provider fb, r) \<in> set (store s)" by (rule map_of_SomeD)
  with assms have "is_dict (heap s r)" by (auto simp: bundles_are_dicts_def list_all_iff)
  with Some show ?thesis by (simp add: usable_bundle_def resolved_bundle_def)
qed

lemma usable_after:
  assumes "stored_below s" and "bundles_are_dicts s" and "unchanged_below s s1"
  shows "usable_bundle w s1 fb"
  using usable_wellformed [OF assms(2), of w fb] resolved_unchanged [OF assms(1,3), of w "provider fb"]
  by (simp add: usable_bundle_def)

lemma try_path_length: "try_path info pk flag sk u tried tr \<Longrightarrow> length tr \<le> 2"
  by (auto simp: try_path_def split: if_splits sum.splits option.splits)

lemma run_circuit_fresh:
  assumes "run_circuit w data (fresh s) = (out, c')"
  shows "unchanged_below s (app c')" and "run_path w s data out (invoked c')"
  using run_circuit_handled [of w data "fresh s"] assms
  by (simp_all add: handled_def fresh_def)

lemma run_path_tried:
  assumes "run_path w s data out (i # rest)"
  obtains pk info flag sk tried s1 where
    "py_get data ''provider'' VNone = Inr pk"
    "py_get data ''use_simulator_if_qpu_fails'' (VBool False) = Inr flag"
    "py_get data ''simulator_choice'' (VStr ''aer_qasm_simulator'') = Inr sk"
    "backend_map_get pk = Inr (Some info)" "unchanged_below s s1"
    "try_path info pk flag sk (usable_bundle w s1) tried (i # rest)"
    "out = Inr (finish pk tried)"
  using assms unfolding run_path_def by auto

lemma try_path_two:
  assumes "try_path info pk flag sk u tried [i1, i2]"
    and "inv_outcome i1 = Inr res" and "inv_outcome i2 = Inr fr"
  obtains fb where "has_error res" "provider_type info = ''qpu''" "py_truthy flag"
    "backend_map_get sk = Inr (Some fb)" "provider_type fb \<noteq> ''qpu''" "plain_result fr"
    "inv_runner i2 = runner fb"
    "plain_result res"
    "if has_error fr
     then tried = replied (fallback_failed_reply pk (dict_get res ''error'' VNone) (backend_name fb)
                             (dict_get fr ''error'' VNone) fr)
     else (\<exists>m. mark_fallback fr pk (dict_get res ''error'' VNone) = Inr m
             \<and> tried = replied (m, 200))"
  using assms
  by (auto simp: try_path_def split: if_splits sum.splits option.splits)

lemma mark_fallback_fields:
  assumes "mark_fallback fr pk err = Inr m"
  shows "\<exists>used. map_of fr ''backend_used'' = Some used
           \<and> map_of m ''backend_used''
               = Some (VStr (''FALLBACK: '' @ py_str used @ '' (original target: '' @ py_str pk @ '')''))
           \<and> map_of m ''original_backend_attempted'' = Some pk
           \<and> map_of m ''fallback_reason'' = Some err
           \<and> (\<forall>k. k \<noteq> ''backend_used'' \<and> k \<noteq> ''original_backend_attempted''
                    \<and> k \<noteq> ''fallback_reason'' \<longrightarrow> map_of m k = map_of fr k)"
  using assms
  by (auto simp: mark_fallback_def ebind_eq_Inr update_conv' split: option.splits)

section \<open>Gates of an unknown kind\<close>

lemma for_each_append:
  "for_each body s (xs @ ys) = ebind (for_each body s xs) (\<lambda>s'. for_each body s' ys)"
proof (induction xs arbitrary: s)
  case Nil
  show ?case by simp
next
  case (Cons x xs)
  show ?case by (cases "body s x") (simp_all add: Cons.IH)
qed

lemma gate_kind_dict:
  assumes "gate_kind g = Some kind"
  obtains kvs k where "g = VDict kvs" "map_of kvs ''gate'' = Some (VStr k)" "str_lower k = kind"
  using assms
  by (cases g) (auto simp: gate_kind_def split: sum.splits pyval.splits option.splits if_splits)

lemma aer_gate_skips:
  assumes kind: "gate_kind g = Some k" and other: "k \<notin> set aer_kinds"
    and target: "index_or_none (gate_field g ''target'')"
    and control: "index_or_none (gate_field g ''control'')"
  shows "aer_gate w s g = Inr s"
proof -
  from kind obtain kvs k0 where g: "g = VDict kvs" and k0: "map_of kvs ''gate'' = Some (VStr k0)"
    and low: "str_lower k0 = k" by (rule gate_kind_dict)
  from target g have t: "py_get g ''target'' VNone = Inr (gate_field g ''target'')"
    by (simp add: gate_field_def split: option.splits)
  from control g have c: "py_get g ''control'' VNone = Inr (gate_field g ''control'')"
    by (simp add: gate_field_def split: option.splits)
  from g have p: "\<exists>v. py_get g ''params'' (VDict []) = Inr v" by (simp split: option.splits)
  then obtain v where v: "py_get g ''params'' (VDict []) = Inr v" ..
  from g k0 have gk: "py_getitem g ''gate'' = Inr (VStr k0)" by simp
  from target have t': "\<not> (gate_field g ''target'' \<noteq> VNone \<and> \<not> is_int (gate_field g ''target''))"
    by (auto simp: index_or_none_def)
  from control have c': "\<not> (gate_field g ''control'' \<noteq> VNone \<and> \<not> is_int (gate_field g ''control''))"
    by (auto simp: index_or_none_def)
  from other have "k \<noteq> ''h''" "k \<noteq> ''x''" "k \<noteq> ''y''" "k \<noteq> ''z''" "k \<noteq> ''s''" "k \<noteq> ''sdg''"
    "k \<noteq> ''t''" "k \<noteq> ''tdg''" "k \<noteq> ''rx''" "k \<noteq> ''ry''" "k \<noteq> ''rz''" "k \<noteq> ''p''" "k \<noteq> ''u''"
    "k \<noteq> ''cx''" "k \<noteq> ''cy''" "k \<noteq> ''cz''" "k \<noteq> ''swap''" "k \<noteq> ''crx''" "k \<noteq> ''cry''"
    "k \<noteq> ''crz''" "k \<noteq> ''cu''" "k \<noteq> ''ccx''" "k \<noteq> ''measure''"
    by (auto simp: aer_kinds_def)
  then show ?thesis
    unfolding aer_gate_def gk t c v
    using t' c' by (simp add: low del: py_get.simps py_getitem.simps)
qed

text \<open>
  C5. The specification has every adapter report a gate of an unrecognised kind. The Aer
  builder does not: a gate whose kind is none of those it has a branch for, with a target and
  a control it accepts, leaves the circuit as it was, and the circuit built is the one built
  from the gate list without that gate. Nothing is reported; the remaining gates are
  translated and run.
\<close>

theorem aer_skips_unrecognised_gate:
  assumes kind: "gate_kind g = Some k" and other: "k \<notin> set aer_kinds"
    and target: "index_or_none (gate_field g ''target'')"
    and control: "index_or_none (gate_field g ''control'')"
  shows "build_qiskit_circuit_aer w (with_gates n (before @ g # after))
         = build_qiskit_circuit_aer w (with_gates n (before @ after))"
proof -
  have "for_each (aer_gate w) s (before @ g # after) = for_each (aer_gate w) s (before @ after)" for s
    by (simp add: for_each_append aer_gate_skips [OF assms])
  then show ?thesis
    by (simp add: build_qiskit_circuit_aer_def with_gates_def)
qed

text \<open>
  The gate \<^verbatim>\<open>foo\<close> before a Hadamard gate: the circuit built is the Hadamard gate alone.
\<close>

theorem aer_skips_unrecognised_gate_witness:
  "build_qiskit_circuit_aer quiet_sdk (with_gates (VInt 1) [unknown_gate, h_gate])
   = build_qiskit_circuit_aer quiet_sdk (with_gates (VInt 1) [h_gate])
   \<and> build_qiskit_circuit_aer quiet_sdk (with_gates (VInt 1) [unknown_gate, h_gate])
     = Inr ([Call ''QuantumCircuit'' [VInt 1, VInt 1], Call ''h'' [VInt 0]], False)"
proof -
  have "gate_kind unknown_gate = Some ''foo''" by code_simp
  moreover have "''foo'' \<notin> set aer_kinds" by code_simp
  moreover have "index_or_none (gate_field unknown_gate ''target'')" by code_simp
  moreover have "index_or_none (gate_field unknown_gate ''control'')" by code_simp
  ultimately have
    "build_qiskit_circuit_aer quiet_sdk (with_gates (VInt 1) ([] @ unknown_gate # [h_gate]))
     = build_qiskit_circuit_aer quiet_sdk (with_gates (VInt 1) ([] @ [h_gate]))"
    by (rule aer_skips_unrecognised_gate)
  moreover have "build_qiskit_circuit_aer quiet_sdk (with_gates (VInt 1) [h_gate])
     = Inr ([Call ''QuantumCircuit'' [VInt 1, VInt 1], Call ''h'' [VInt 0]], False)"
    by code_simp
  ultimately show ?thesis by simp
qed

text \<open>
  The Cirq builder, on the same gate, raises the error that names the kind, as the
  specification asks of every adapter.
\<close>

lemma cirq_names_unrecognised_gate:
  "cirq_gate w [0] circuit unknown_gate = Inl (ValueError ''Unsupported gate type for Cirq: foo'')"
  by (simp add: cirq_gate_def unknown_gate_def str_lower_def lower_char_def list_index_int_def)

text \<open>
  The gate loop of the IBM runner skips it as the Aer builder does.
\<close>

lemma ibm_skips_unrecognised_gate: "ibm_gate w circuit unknown_gate = Inr circuit"
  by (simp add: ibm_gate_def unknown_gate_def str_lower_def lower_char_def)

section \<open>Rotations without an angle\<close>

text \<open>
  C9. The specification has every adapter translate a rotation whose angle is absent with
  the angle 0. The Cirq builder does not: for \<^verbatim>\<open>rx\<close>, \<^verbatim>\<open>ry\<close> and \<^verbatim>\<open>rz\<close> on a valid
  target, when the gate has no \<^verbatim>\<open>params\<close> or its \<^verbatim>\<open>params\<close> has no \<^verbatim>\<open>theta\<close>, the
  translation raises \<^verbatim>\<open>KeyError\<close> on the missing key.
\<close>

theorem cirq_rotation_without_angle_fails:
  assumes kind: "gate_kind g = Some k" and rotation: "k = ''rx'' \<or> k = ''ry'' \<or> k = ''rz''"
    and target: "py_getitem g ''target'' = Inr t" and qubit: "list_index qubits t = Inr q"
    and params: "py_get g ''params'' (VDict []) = Inr (VDict params)"
    and absent: "map_of params ''theta'' = None"
  shows "\<exists>key. cirq_gate w qubits circuit g = Inl (KeyError (VStr key))
               \<and> (key = ''params'' \<or> key = ''theta'')"
proof -
  from kind obtain kvs k0 where g: "g = VDict kvs" and k0: "map_of kvs ''gate'' = Some (VStr k0)"
    and low: "str_lower k0 = k" by (rule gate_kind_dict)
  from g k0 have gk: "py_getitem g ''gate'' = Inr (VStr k0)" by simp
  have "py_getitem g ''params'' = Inl (KeyError (VStr ''params''))
        \<or> py_getitem g ''params'' = Inr (VDict params)"
    using params g by (auto split: option.splits)
  moreover have "py_getitem (VDict params) ''theta'' = Inl (KeyError (VStr ''theta''))"
    using absent by simp
  ultimately have
    "\<exists>key. ebind (py_getitem g ''params'') (\<lambda>ps. ebind (py_getitem ps ''theta'') f)
             = Inl (KeyError (VStr key)) \<and> (key = ''params'' \<or> key = ''theta'')" for f
    by (auto simp del: py_getitem.simps)
  note fails = this
  have "cirq_gate w qubits circuit g
        = ebind (py_getitem g ''params'') (\<lambda>ps. ebind (py_getitem ps ''theta'')
            (\<lambda>theta. sdk_do w circuit (Call (''cirq.'' @ k) [theta, line_qubit q])))"
    using rotation
    by (auto simp add: cirq_gate_def gk target qubit low simp del: py_getitem.simps)
  then show ?thesis by (simp only: fails)
qed

text \<open>
  An \<^verbatim>\<open>rx\<close> gate with no \<^verbatim>\<open>params\<close>, on one qubit.
\<close>

theorem cirq_rotation_without_angle_fails_witness:
  "cirq_gate quiet_sdk [0::nat] [] rx_no_params = Inl (KeyError (VStr ''params''))"
proof -
  have kind: "gate_kind rx_no_params = Some ''rx''" by code_simp
  have target: "py_getitem rx_no_params ''target'' = Inr (VInt 0)" by code_simp
  have qubit: "list_index [0::nat] (VInt 0) = Inr 0" by code_simp
  have params: "py_get rx_no_params ''params'' (VDict []) = Inr (VDict [])" by code_simp
  have "\<exists>key. cirq_gate quiet_sdk [0::nat] [] rx_no_params = Inl (KeyError (VStr key))
               \<and> (key = ''params'' \<or> key = ''theta'')"
    by (rule cirq_rotation_without_angle_fails [OF kind _ target qubit params]) simp_all
  moreover have "cirq_gate quiet_sdk [0::nat] [] rx_no_params \<noteq> Inl (KeyError (VStr ''theta''))"
    by code_simp
  ultimately show ?thesis by auto
qed

text \<open>
  The Aer builder, on the same gate, emits the rotation with the angle 0.
\<close>

lemma aer_rotation_without_angle:
  "aer_gate w s rx_no_params = emit w s (Call ''rx'' [VInt 0, VInt 0])"
  by (simp add: aer_gate_def rx_no_params_def str_lower_def lower_char_def)

text \<open>
  With \<^verbatim>\<open>params\<close> present and empty, the Cirq builder fails on \<^verbatim>\<open>theta\<close>.
\<close>

lemma cirq_rotation_without_theta:
  "cirq_gate w [0] circuit rx_no_theta = Inl (KeyError (VStr ''theta''))"
  by (simp add: cirq_gate_def rx_no_theta_def str_lower_def lower_char_def list_index_int_def)

section \<open>Qubit indices out of range\<close>




section \<open>Validation failures and the fallback\<close>

lemma invoke_dict:
  assumes "heap (app c) r = VDict d"
  shows "invoke w rn cd r c =
           (call_runner w rn cd d,
            c\<lparr>invoked := invoked c @ [\<lparr>inv_runner = rn, inv_circuit = cd, inv_credentials = d,
                                        inv_outcome = call_runner w rn cd d\<rparr>]\<rparr>)"
  using assms by (simp add: invoke_def)

lemma run_ionq_validation:
  assumes "build_braket_circuit w circuit = Inl e"
    and "dict_get d ''backend_name'' VNone = VStr ''ionq/qpu''"
  shows "run_ionq w circuit d = Inr [(''error'', VStr (exc_str e)), (''backend_used'', VStr ''ionq/qpu'')]"
  using assms by (simp add: run_ionq_def Let_def returning_def error_result_def py_or_def)

lemma run_fallback_aer:
  assumes "store (app c) = []"
  shows "\<exists>d c'. run_fallback w \<lparr>provider = ''aer'', runner = Run_aer,
              backend_name = ''aer_qasm_simulator'', provider_type = ''simulator''\<rparr> cd shots sk c
           = (run_aer w cd d, c') \<and> map inv_runner (invoked c') = map inv_runner (invoked c) @ [Run_aer]"
proof -
  let ?aer = "\<lparr>provider = ''aer'', runner = Run_aer,
              backend_name = ''aer_qasm_simulator'', provider_type = ''simulator''\<rparr>"
  have "resolved_bundle w (app c) (provider ?aer) = VDict (env_credentials w ''aer'')"
    using assms by (simp add: resolved_bundle_def)
  note prepare_credentials_dict [OF this]
  then show ?thesis
    by (simp add: run_fallback_def mbind_def invoke_def) (rule exI, rule refl)
qed

lemma state_after_reply [simp]:
  "snd (mbind (lift x) (\<lambda>v. send (f v)) c) = c"
  "snd (mbind (lift x) (\<lambda>v. respond (g v) status) c) = c"
  by (cases x; simp add: mbind_def lift_def send_run respond_run)+

lemma run_try_state:
  assumes ready: "heap (app c) r = VDict d" "names_backend d"
  shows "snd (run_try w info pk cd flag sk shots r c) = snd (try_body w info pk cd flag sk shots r c)"
  using try_body_post [OF ready, of info pk flag sk w cd shots]
  by (auto simp: post_def run_try_def except_exception_def send_run
        split: prod.splits sum.splits)

lemma try_body_falls_back:
  assumes first: "invoke w (runner info) cd r c = (Inr res, c2)"
    and failed: "has_error res"
    and eligible: "provider_type info = ''qpu''" "py_truthy flag"
    and choice: "backend_map_get sk = Inr (Some fb)" "provider_type fb \<noteq> ''qpu''"
    and second: "run_fallback w fb cd shots sk c2 = (Inr fr, c3)"
  shows "snd (try_body w info pk cd flag sk shots r c) = c3"
proof -
  from failed have err: "py_getitem (VDict res) ''error'' = Inr (dict_get res ''error'' VNone)"
    by (rule has_error_getitem)
  have "try_body w info pk cd flag sk shots r c
        = (if has_error fr then
             mbind (lift (py_getitem (VDict fr) ''error'')) (\<lambda>fallback_error.
               send (fallback_failed_reply pk (dict_get res ''error'' VNone) (backend_name fb)
                       fallback_error fr))
           else mbind (lift (mark_fallback fr pk (dict_get res ''error'' VNone)))
                  (\<lambda>marked. respond marked 200)) c3"
    unfolding try_body_def
    by (simp add: mbind_def [of "invoke w (runner info) cd r"] first failed eligible
          mbind_def [of "lift (Inr v)" for v] lift_def [of "Inr v" for v] err choice
          mbind_def [of "run_fallback w fb cd shots sk"] second
          del: backend_map_get.simps py_getitem.simps)
  then show ?thesis by simp
qed

text \<open>
  C2. The specification has no fallback after a validation failure. The handler makes one: when
  the circuit is one the IonQ builder rejects with a \<^verbatim>\<open>ValueError\<close> (an unsupported gate
  kind, for one), a request for the IonQ device that asks for a fallback gets, after the call
  of the IonQ runner, a call of the Aer runner. The runner catches its own exception and
  returns an error result, which the handler treats as any other failure of a device; the
  clause of the handler that answers a validation error with status 400 is not reached.
\<close>

theorem validation_failure_triggers_fallback:
  assumes norm: "normalize_circuit circuit0 = Inr circuit" and nonempty: "py_truthy circuit"
    and rejected: "build_braket_circuit w circuit = Inl (ValueError m)"
  shows "map inv_runner
           (invoked (snd (run_circuit w (request ''aws_ionq'' circuit0 fallback_requested)
                            (fresh initial_state))))
         = [Run_ionq, Run_aer]"
proof -
  let ?ionq = "\<lparr>provider = ''ionq'', runner = Run_ionq, backend_name = ''ionq/qpu'',
                provider_type = ''qpu''\<rparr>"
  let ?aer = "\<lparr>provider = ''aer'', runner = Run_aer,
              backend_name = ''aer_qasm_simulator'', provider_type = ''simulator''\<rparr>"
  let ?sk = "VStr ''aer_qasm_simulator''"
  let ?c0 = "fresh initial_state"
  let ?d = "prepared (env_credentials w ''ionq'') ?ionq (VInt 1024) ?sk"
  let ?c1 = "?c0\<lparr>app := (app ?c0)\<lparr>heap := (heap (app ?c0))(next_ref (app ?c0) := VDict ?d),
                                   next_ref := Suc (next_ref (app ?c0))\<rparr>\<rparr>"
  let ?r = "next_ref (app ?c0)"
  have resolved: "resolved_bundle w (app ?c0) (provider ?ionq) = VDict (env_credentials w ''ionq'')"
    by (simp add: resolved_bundle_def fresh_def initial_state_def)
  have prep: "prepare_credentials w ?ionq (VInt 1024) ?sk ?c0 = (Inr ?r, ?c1)"
    using prepare_credentials_dict [OF resolved] by simp
  have info: "backend_map_get (VStr ''aws_ionq'') = Inr (Some ?ionq)"
    by (simp add: BACKEND_MAP_def)
  have sim: "backend_map_get ?sk = Inr (Some ?aer)"
    by (simp add: BACKEND_MAP_def)
  have primary: "run_ionq w circuit ?d
      = Inr [(''error'', VStr m), (''backend_used'', VStr ''ionq/qpu'')]"
    using run_ionq_validation [OF rejected, of ?d] by (simp add: prepared_backend_name)
  have whole: "run_circuit w (request ''aws_ionq'' circuit0 fallback_requested) ?c0
        = run_try w ?ionq (VStr ''aws_ionq'') circuit (VBool True) ?sk (VInt 1024) ?r ?c1"
    by (simp add: run_circuit_def request_def fallback_requested_def mbind_def lift_def norm
          nonempty info prep del: backend_map_get.simps)
  have ready: "heap (app ?c1) ?r = VDict ?d" "names_backend ?d"
    by (simp_all add: prepared_backend_name names_backend_def)
  let ?res = "[(''error'', VStr m), (''backend_used'', VStr ''ionq/qpu'')]"
  let ?c2 = "?c1\<lparr>invoked := invoked ?c1 @ [\<lparr>inv_runner = Run_ionq, inv_circuit = circuit,
                 inv_credentials = ?d, inv_outcome = Inr ?res\<rparr>]\<rparr>"
  have first: "invoke w (runner ?ionq) circuit ?r ?c1 = (Inr ?res, ?c2)"
    using invoke_dict [OF ready(1), of w Run_ionq circuit] by (simp add: primary)
  have "store (app ?c2) = []" by (simp add: fresh_def initial_state_def)
  from run_fallback_aer [OF this, of w circuit "VInt 1024" ?sk] obtain d2 c3 where
    second: "run_fallback w ?aer circuit (VInt 1024) ?sk ?c2 = (run_aer w circuit d2, c3)"
    and trace: "map inv_runner (invoked c3) = map inv_runner (invoked ?c2) @ [Run_aer]"
    by blast
  obtain fr where fr: "run_aer w circuit d2 = Inr fr"
    using returning_total unfolding run_aer_def by blast
  have "snd (try_body w ?ionq (VStr ''aws_ionq'') circuit (VBool True) ?sk (VInt 1024) ?r ?c1) = c3"
  proof (rule try_body_falls_back [OF first _ _ _ sim])
    show "has_error ?res" by (simp add: has_error_def)
    show "provider_type ?ionq = ''qpu''" by simp
    show "py_truthy (VBool True)" by simp
    show "provider_type ?aer \<noteq> ''qpu''" by simp
    show "run_fallback w ?aer circuit (VInt 1024) ?sk ?c2 = (Inr fr, c3)"
      using second fr by simp
  qed
  with run_try_state [OF ready] whole trace show ?thesis
    by (simp add: fresh_def)
qed

text \<open>
  The circuit with the gate \<^verbatim>\<open>foo\<close>: the IonQ runner reports the unsupported gate, and
  the Aer runner, which skips such a gate, is called and returns counts.
\<close>

theorem validation_failure_triggers_fallback_witness:
  "map inv_runner
     (invoked (snd (run_circuit quiet_sdk (request ''aws_ionq'' foo_circuit fallback_requested)
                      (fresh initial_state))))
   = [Run_ionq, Run_aer]
   \<and> map inv_outcome
     (invoked (snd (run_circuit quiet_sdk (request ''aws_ionq'' foo_circuit fallback_requested)
                      (fresh initial_state))))
   = [Inr [(''error'', VStr ''Unsupported gate type for IonQ (Braket): foo''),
              (''backend_used'', VStr ''ionq/qpu'')],
         Inr [(''backend_used'', VStr ''Aer QASM Simulator''), (''num_qubits'', VInt 1),
              (''counts'', VDict [(''00'', VInt 512), (''11'', VInt 512)]),
              (''statevector'', VNone), (''probabilities'', VNone)]]"
proof -
  let ?normal = "VDict [(''qubits'', VInt 1),
                      (''gates'', VList [VDict [(''gate'', VStr ''foo''), (''target'', VInt 0),
                                                (''qubits'', VList [])]])]"
  let ?run = "run_circuit quiet_sdk (request ''aws_ionq'' foo_circuit fallback_requested)
                (fresh initial_state)"
  have "normalize_circuit foo_circuit = Inr ?normal" by code_simp
  moreover have "py_truthy ?normal" by code_simp
  moreover have "build_braket_circuit quiet_sdk ?normal
                 = Inl (ValueError ''Unsupported gate type for IonQ (Braket): foo'')"
    by code_simp
  ultimately have runners: "map inv_runner (invoked (snd ?run)) = [Run_ionq, Run_aer]"
    by (rule validation_failure_triggers_fallback)
  have outcomes: "map inv_outcome (invoked (snd ?run))
      = [Inr [(''error'', VStr ''Unsupported gate type for IonQ (Braket): foo''),
              (''backend_used'', VStr ''ionq/qpu'')],
         Inr [(''backend_used'', VStr ''Aer QASM Simulator''), (''num_qubits'', VInt 1),
              (''counts'', VDict [(''00'', VInt 512), (''11'', VInt 512)]),
              (''statevector'', VNone), (''probabilities'', VNone)]]"
    by code_simp
  from runners outcomes show ?thesis by (rule conjI)
qed

section \<open>The outcome of a request\<close>

text \<open>
  What \<^verbatim>\<open>jsonify\<close> refuses, and what the handler replies for an outcome of the \<^verbatim>\<open>try\<close>
  block: a result with a state vector is refused, for the complex numbers in it.
\<close>

lemma json_ok_dict: "json_ok (VDict kvs) = list_all (\<lambda>kv. json_ok (snd kv)) kvs"
  by (induction kvs) auto

lemma json_ok_list: "json_ok (VList xs) = list_all json_ok xs"
  by (induction xs) auto

lemma state_vector_not_json:
  "sv \<noteq> [] \<Longrightarrow> \<not> json_ok (VDict (execution_result b n VNone (amplitudes sv) p))"
  by (cases sv) (simp_all add: execution_result_def amplitudes_def)

lemma finish_replied:
  "finish pk (replied r)
   = (if json_ok (VDict (fst r)) then r
      else ([(''error'', VStr ''An unexpected error occurred: Object of type complex is not JSON serializable''),
             (''backend_used'', pk)], 500))"
  by (simp add: finish_def replied_cases unexpected_reply_def)

lemma plain_fields:
  assumes "plain_result res" and "has_error res"
  shows "\<exists>m used. map_of res ''error'' = Some (VStr m) \<and> map_of res ''backend_used'' = Some (VStr used)"
proof -
  from assms(1) obtain used where "map_of res ''backend_used'' = Some (VStr used)"
    by (auto dest: plain_backend_used)
  moreover from assms obtain v where v: "map_of res ''error'' = Some v" "is_str v"
    by (auto simp: plain_result_def has_error_def dict_get_def)
  then obtain m where "v = VStr m" by (cases v) simp_all
  ultimately show ?thesis using v by blast
qed

lemma json_ok_update:
  assumes "json_ok v" and "json_ok (dict_get d k VNone)"
  shows "json_ok (VDict (AList.update k v d)) = json_ok (VDict d)"
  using assms unfolding json_ok_dict
  by (induction d) (auto simp: dict_get_def)

lemma dict_get_update_other:
  "k \<noteq> k' \<Longrightarrow> dict_get (AList.update k' v d) k dflt = dict_get d k dflt"
  by (simp add: dict_get_def update_conv')

lemma marked_json:
  assumes "plain_result fr"
  shows "json_ok (VDict (AList.update ''fallback_reason'' (VStr failure)
                    (AList.update ''original_backend_attempted'' (VStr key)
                       (AList.update ''backend_used'' (VStr mark) fr))))
         = json_ok (VDict fr)"
proof -
  from assms have absent: "dict_get fr ''fallback_reason'' VNone = VNone"
    "dict_get fr ''original_backend_attempted'' VNone = VNone"
    and used: "json_ok (dict_get fr ''backend_used'' VNone)"
    by (simp_all add: plain_result_def dict_get_def is_str_json)
  have "json_ok (VDict (AList.update ''backend_used'' (VStr mark) fr)) = json_ok (VDict fr)"
    by (rule json_ok_update) (simp_all add: used)
  moreover have "json_ok (VDict (AList.update ''original_backend_attempted'' (VStr key)
                       (AList.update ''backend_used'' (VStr mark) fr)))
                 = json_ok (VDict (AList.update ''backend_used'' (VStr mark) fr))"
    by (rule json_ok_update) (simp_all add: dict_get_update_other absent)
  moreover have "json_ok (VDict (AList.update ''fallback_reason'' (VStr failure)
                    (AList.update ''original_backend_attempted'' (VStr key)
                       (AList.update ''backend_used'' (VStr mark) fr))))
                 = json_ok (VDict (AList.update ''original_backend_attempted'' (VStr key)
                       (AList.update ''backend_used'' (VStr mark) fr)))"
    by (rule json_ok_update) (simp_all add: dict_get_update_other absent)
  ultimately show ?thesis by simp
qed

lemma two_elements: "length xs = 2 \<Longrightarrow> xs = [hd xs, hd (tl xs)]"
  by (cases xs; cases "tl xs") auto

lemma first_and_rest: "length xs = Suc n \<Longrightarrow> xs = hd xs # tl xs"
  by (cases xs) simp_all

lemma invocations_bounded:
  "length (invoked (snd (run_circuit w data (fresh s)))) \<le> 2"
proof (cases "run_circuit w data (fresh s)")
  case (Pair out c')
  from run_circuit_fresh(2) [OF Pair] have "length (invoked c') \<le> 2"
    by (auto simp: run_path_def dest: try_path_length)
  with Pair show ?thesis by simp
qed

lemma initial_state_wellformed: "stored_below initial_state" "bundles_are_dicts initial_state"
  by (simp_all add: stored_below_def bundles_are_dicts_def initial_state_def)

text \<open>
  C8. The specification has the result of a primary attempt that succeeds returned. When the
  first runner called for a request returns a result without an error, no other runner is
  called and the result has neither a \<^verbatim>\<open>fallback_reason\<close> nor an
  \<^verbatim>\<open>original_backend_attempted\<close> field; the reply is that result with status 200 when
  \<^verbatim>\<open>jsonify\<close> encodes it. When the result holds a complex number, as the state vector of a
  state-vector run does, \<^verbatim>\<open>jsonify\<close> raises inside the \<^verbatim>\<open>try\<close> and the reply is the one of
  the clause for an unexpected error, with status 500: the result is not returned.
\<close>

theorem primary_success_reply:
  assumes run: "run_circuit w data (fresh s) = (out, c')"
    and trace: "invoked c' = primary # rest"
    and outcome: "inv_outcome primary = Inr result" and ok: "\<not> has_error result"
  shows "rest = []
         \<and> map_of result ''fallback_reason'' = None
         \<and> map_of result ''original_backend_attempted'' = None
         \<and> (\<exists>provider_key. py_get data ''provider'' VNone = Inr (VStr provider_key)
              \<and> out = Inr (if json_ok (VDict result) then (result, 200)
                           else ([(''error'', VStr ''An unexpected error occurred: Object of type complex is not JSON serializable''),
                                  (''backend_used'', VStr provider_key)], 500)))"
proof -
  from run_circuit_fresh(2) [OF run] trace have "run_path w s data out (primary # rest)" by simp
  then obtain pk info flag sk tried s1 where
    pk: "py_get data ''provider'' VNone = Inr pk" and info: "backend_map_get pk = Inr (Some info)"
    and path: "try_path info pk flag sk (usable_bundle w s1) tried (primary # rest)"
    and out: "out = Inr (finish pk tried)"
    by (rule run_path_tried)
  from info obtain key where key: "pk = VStr key" by (cases pk) simp_all
  from path outcome ok have "tried = replied (result, 200) \<and> rest = [] \<and> plain_result result"
    by (auto simp: try_path_def split: if_splits sum.splits option.splits)
  with out pk key show ?thesis by (simp add: finish_replied plain_result_def)
qed

text \<open>
  The Bell circuit on the Cirq simulator, which returns a state vector, is answered with
  status 500; on the Aer simulator, which returns counts, with the result.
\<close>

theorem primary_success_reply_witness:
  "fst cirq_bell
     = Inr ([(''error'', VStr ''An unexpected error occurred: Object of type complex is not JSON serializable''),
             (''backend_used'', VStr ''google_cirq'')], 500)
   \<and> tl (invoked (snd cirq_bell)) = []
   \<and> fst aer_bell = Inr (bell_counts, 200)"
proof -
  have run1: "run_circuit quiet_sdk (request ''google_cirq'' bell []) (fresh initial_state)
        = (fst cirq_bell, snd cirq_bell)"
    by (simp add: cirq_bell_def)
  have "length (invoked (snd cirq_bell)) = Suc 0" by code_simp
  then have trace1: "invoked (snd cirq_bell) = hd (invoked (snd cirq_bell)) # tl (invoked (snd cirq_bell))"
    by (rule first_and_rest)
  have outcome1: "inv_outcome (hd (invoked (snd cirq_bell))) = Inr bell_state" by code_simp
  have ok1: "\<not> has_error bell_state" by code_simp
  have provider1: "py_get (request ''google_cirq'' bell []) ''provider'' VNone = Inr (VStr ''google_cirq'')"
    by code_simp
  have json1: "json_ok (VDict bell_state) = False" by code_simp
  note first = primary_success_reply [OF run1 trace1 outcome1 ok1]
  note rest1 = first [THEN conjunct1]
  from first [THEN conjunct2, THEN conjunct2, THEN conjunct2]
  obtain key where key: "py_get (request ''google_cirq'' bell []) ''provider'' VNone = Inr (VStr key)
     \<and> fst cirq_bell
        = Inr (if json_ok (VDict bell_state) then (bell_state, 200)
               else ([(''error'', VStr ''An unexpected error occurred: Object of type complex is not JSON serializable''),
                      (''backend_used'', VStr key)], 500))" ..
  from key [THEN conjunct1] have k: "key = ''google_cirq''" unfolding provider1 by simp
  have reply1: "fst cirq_bell
     = Inr ([(''error'', VStr ''An unexpected error occurred: Object of type complex is not JSON serializable''),
             (''backend_used'', VStr ''google_cirq'')], 500)"
    using key [THEN conjunct2] unfolding json1 k by simp
  have run2: "run_circuit quiet_sdk (request ''aer_qasm_simulator'' bell []) (fresh initial_state)
        = (fst aer_bell, snd aer_bell)"
    by (simp add: aer_bell_def)
  have "length (invoked (snd aer_bell)) = Suc 0" by code_simp
  then have trace2: "invoked (snd aer_bell) = hd (invoked (snd aer_bell)) # tl (invoked (snd aer_bell))"
    by (rule first_and_rest)
  have outcome2: "inv_outcome (hd (invoked (snd aer_bell))) = Inr bell_counts" by code_simp
  have ok2: "\<not> has_error bell_counts" by code_simp
  have json2: "json_ok (VDict bell_counts) = True" by code_simp
  from primary_success_reply [OF run2 trace2 outcome2 ok2, THEN conjunct2, THEN conjunct2, THEN conjunct2]
  obtain key2 where key2: "py_get (request ''aer_qasm_simulator'' bell []) ''provider'' VNone = Inr (VStr key2)
     \<and> fst aer_bell
        = Inr (if json_ok (VDict bell_counts) then (bell_counts, 200)
               else ([(''error'', VStr ''An unexpected error occurred: Object of type complex is not JSON serializable''),
                      (''backend_used'', VStr key2)], 500))" ..
  have reply2: "fst aer_bell = Inr (bell_counts, 200)"
    using key2 [THEN conjunct2] unfolding json2 by simp
  show ?thesis by (rule conjI [OF reply1 conjI [OF rest1 reply2]])
qed

text \<open>
  C7. The specification has the marked result of a fallback that succeeds returned. When two
  runners were called for a request and the second returned a result without an error, the
  reply has status 200 and is that result with three fields set (\<^verbatim>\<open>backend_used\<close> to the
  text that marks a fallback and names the backend that ran and the key first asked for,
  \<^verbatim>\<open>original_backend_attempted\<close> to that key, \<^verbatim>\<open>fallback_reason\<close> to the error of the
  first result) when \<^verbatim>\<open>jsonify\<close> encodes the result. When the result holds a complex number,
  as a state vector does, the reply is the one for an unexpected error, with status 500 and
  none of the three fields.
\<close>

theorem fallback_success_reply:
  assumes run: "run_circuit w data (fresh s) = (out, c')"
    and trace: "invoked c' = [primary, fallback]"
    and first: "inv_outcome primary = Inr result"
    and second: "inv_outcome fallback = Inr fallback_result"
    and ok: "\<not> has_error fallback_result"
  shows "\<exists>provider_key used failure.
           py_get data ''provider'' VNone = Inr (VStr provider_key)
           \<and> map_of fallback_result ''backend_used'' = Some (VStr used)
           \<and> map_of result ''error'' = Some (VStr failure)
           \<and> out = Inr (if json_ok (VDict fallback_result) then
                          (AList.update ''fallback_reason'' (VStr failure)
                             (AList.update ''original_backend_attempted'' (VStr provider_key)
                                (AList.update ''backend_used''
                                   (VStr (''FALLBACK: '' @ used @ '' (original target: ''
                                          @ provider_key @ '')''))
                                   fallback_result)), 200)
                        else ([(''error'', VStr ''An unexpected error occurred: Object of type complex is not JSON serializable''),
                               (''backend_used'', VStr provider_key)], 500))"
proof -
  from run_circuit_fresh(2) [OF run] trace have "run_path w s data out [primary, fallback]" by simp
  then obtain pk info flag sk tried s1 where
    pk: "py_get data ''provider'' VNone = Inr pk" and info: "backend_map_get pk = Inr (Some info)"
    and path: "try_path info pk flag sk (usable_bundle w s1) tried [primary, fallback]"
    and out: "out = Inr (finish pk tried)"
    by (rule run_path_tried)
  from info obtain key where key: "pk = VStr key" by (cases pk) simp_all
  from path first second obtain fb :: backend_info where
    err: "has_error result" and plain2: "plain_result fallback_result" and plain1: "plain_result result"
    and tried: "if has_error fallback_result
       then tried = replied (fallback_failed_reply pk (dict_get result ''error'' VNone)
                               (backend_name fb) (dict_get fallback_result ''error'' VNone)
                               fallback_result)
       else (\<exists>m. mark_fallback fallback_result pk (dict_get result ''error'' VNone) = Inr m
               \<and> tried = replied (m, 200))"
    by (rule try_path_two)
  from tried ok obtain m where
    m: "mark_fallback fallback_result pk (dict_get result ''error'' VNone) = Inr m"
    and t: "tried = replied (m, 200)" by auto
  from plain_fields [OF plain1 err] obtain failure where
    failure: "map_of result ''error'' = Some (VStr failure)" by blast
  then have reason: "dict_get result ''error'' VNone = VStr failure" by (simp add: dict_get_def)
  from plain_backend_used [OF plain2] obtain used where
    used: "map_of fallback_result ''backend_used'' = Some (VStr used)" by blast
  let ?mark = "''FALLBACK: '' @ used @ '' (original target: '' @ key @ '')''"
  let ?marked = "AList.update ''fallback_reason'' (VStr failure)
                   (AList.update ''original_backend_attempted'' (VStr key)
                      (AList.update ''backend_used'' (VStr ?mark) fallback_result))"
  from m used have "m = ?marked"
    by (simp add: mark_fallback_def reason key py_str_def)
  with t out have "out = Inr (if json_ok (VDict ?marked) then (?marked, 200)
        else ([(''error'', VStr ''An unexpected error occurred: Object of type complex is not JSON serializable''),
               (''backend_used'', VStr key)], 500))"
    by (simp add: finish_replied key)
  then have "out = Inr (if json_ok (VDict fallback_result) then (?marked, 200)
        else ([(''error'', VStr ''An unexpected error occurred: Object of type complex is not JSON serializable''),
               (''backend_used'', VStr key)], 500))"
    unfolding marked_json [OF plain2] .
  with pk key used failure show ?thesis by blast
qed

text \<open>
  The Bell circuit on the IonQ device, for which the process has no credentials: with the
  Cirq simulator as fallback, which returns a state vector, the reply has status 500; with
  the Aer simulator, which returns counts, it is the marked result.
\<close>

theorem fallback_success_reply_witness:
  "fst ionq_bell_with_cirq_fallback
     = Inr ([(''error'', VStr ''An unexpected error occurred: Object of type complex is not JSON serializable''),
             (''backend_used'', VStr ''aws_ionq'')], 500)
   \<and> fst ionq_bell_with_fallback = Inr (marked_bell_counts, 200)"
proof -
  let ?c1 = "snd ionq_bell_with_cirq_fallback"
  have run1: "run_circuit quiet_sdk
       (request ''aws_ionq'' bell (fallback_requested @ [(''simulator_choice'', VStr ''google_cirq'')]))
       (fresh initial_state) = (fst ionq_bell_with_cirq_fallback, ?c1)"
    by (simp add: ionq_bell_with_cirq_fallback_def)
  have "length (invoked ?c1) = 2" by code_simp
  then have trace1: "invoked ?c1 = [hd (invoked ?c1), hd (tl (invoked ?c1))]" by (rule two_elements)
  have first1: "inv_outcome (hd (invoked ?c1)) = Inr ionq_no_credentials" by code_simp
  have second1: "inv_outcome (hd (tl (invoked ?c1))) = Inr bell_state" by code_simp
  have ok1: "\<not> has_error bell_state" by code_simp
  have json1: "json_ok (VDict bell_state) = False" by code_simp
  have provider1: "py_get (request ''aws_ionq'' bell
         (fallback_requested @ [(''simulator_choice'', VStr ''google_cirq'')])) ''provider'' VNone
       = Inr (VStr ''aws_ionq'')" by code_simp
  from fallback_success_reply [OF run1 trace1 first1 second1 ok1]
  obtain key used failure where one:
    "py_get (request ''aws_ionq'' bell
         (fallback_requested @ [(''simulator_choice'', VStr ''google_cirq'')])) ''provider'' VNone
       = Inr (VStr key)
     \<and> map_of bell_state ''backend_used'' = Some (VStr used)
     \<and> map_of ionq_no_credentials ''error'' = Some (VStr failure)
     \<and> fst ionq_bell_with_cirq_fallback
        = Inr (if json_ok (VDict bell_state) then
                 (AList.update ''fallback_reason'' (VStr failure)
                    (AList.update ''original_backend_attempted'' (VStr key)
                       (AList.update ''backend_used''
                          (VStr (''FALLBACK: '' @ used @ '' (original target: '' @ key @ '')''))
                          bell_state)), 200)
               else ([(''error'', VStr ''An unexpected error occurred: Object of type complex is not JSON serializable''),
                      (''backend_used'', VStr key)], 500))"
    by (elim exE) (rule that)
  from one [THEN conjunct1] have k1: "key = ''aws_ionq''" unfolding provider1 by simp
  have reply1: "fst ionq_bell_with_cirq_fallback
     = Inr ([(''error'', VStr ''An unexpected error occurred: Object of type complex is not JSON serializable''),
             (''backend_used'', VStr ''aws_ionq'')], 500)"
    using one [THEN conjunct2, THEN conjunct2, THEN conjunct2] unfolding json1 k1 by simp
  let ?c2 = "snd ionq_bell_with_fallback"
  have run2: "run_circuit quiet_sdk (request ''aws_ionq'' bell fallback_requested) (fresh initial_state)
        = (fst ionq_bell_with_fallback, ?c2)"
    by (simp add: ionq_bell_with_fallback_def)
  have "length (invoked ?c2) = 2" by code_simp
  then have trace2: "invoked ?c2 = [hd (invoked ?c2), hd (tl (invoked ?c2))]" by (rule two_elements)
  have first2: "inv_outcome (hd (invoked ?c2)) = Inr ionq_no_credentials" by code_simp
  have second2: "inv_outcome (hd (tl (invoked ?c2))) = Inr bell_counts" by code_simp
  have ok2: "\<not> has_error bell_counts" by code_simp
  have json2: "json_ok (VDict bell_counts) = True" by code_simp
  have provider2: "py_get (request ''aws_ionq'' bell fallback_requested) ''provider'' VNone
                  = Inr (VStr ''aws_ionq'')" by code_simp
  have used2: "map_of bell_counts ''backend_used'' = Some (VStr ''Aer QASM Simulator'')"
    by code_simp
  have failure2: "map_of ionq_no_credentials ''error'' = Some (VStr missing_aws_credentials)"
    by code_simp
  have marked: "AList.update ''fallback_reason'' (VStr missing_aws_credentials)
                    (AList.update ''original_backend_attempted'' (VStr ''aws_ionq'')
                       (AList.update ''backend_used''
                          (VStr (''FALLBACK: '' @ ''Aer QASM Simulator'' @ '' (original target: ''
                                 @ ''aws_ionq'' @ '')''))
                          bell_counts)) = marked_bell_counts"
    by code_simp
  from fallback_success_reply [OF run2 trace2 first2 second2 ok2]
  obtain key2 used failure where two:
    "py_get (request ''aws_ionq'' bell fallback_requested) ''provider'' VNone = Inr (VStr key2)
     \<and> map_of bell_counts ''backend_used'' = Some (VStr used)
     \<and> map_of ionq_no_credentials ''error'' = Some (VStr failure)
     \<and> fst ionq_bell_with_fallback
        = Inr (if json_ok (VDict bell_counts) then
                 (AList.update ''fallback_reason'' (VStr failure)
                    (AList.update ''original_backend_attempted'' (VStr key2)
                       (AList.update ''backend_used''
                          (VStr (''FALLBACK: '' @ used @ '' (original target: '' @ key2 @ '')''))
                          bell_counts)), 200)
               else ([(''error'', VStr ''An unexpected error occurred: Object of type complex is not JSON serializable''),
                      (''backend_used'', VStr key2)], 500))"
    by (elim exE) (rule that)
  from two [THEN conjunct1] have k2: "key2 = ''aws_ionq''" unfolding provider2 by simp
  from two [THEN conjunct2, THEN conjunct1] have u2: "used = ''Aer QASM Simulator''"
    unfolding used2 by simp
  from two [THEN conjunct2, THEN conjunct2, THEN conjunct1]
  have f2: "failure = missing_aws_credentials" unfolding failure2 by simp
  have reply2: "fst ionq_bell_with_fallback = Inr (marked_bell_counts, 200)"
    using two [THEN conjunct2, THEN conjunct2, THEN conjunct2]
    unfolding json2 k2 u2 f2 marked by simp
  show ?thesis by (rule conjI [OF reply1 reply2])
qed

text \<open>
  C6. A request makes at most two calls of a runner. When it made two and the second result
  has an error, the second runner is the one of the registry entry for the request's
  \<^verbatim>\<open>simulator_choice\<close>, and the reply, with status 500, is the combined failure: the text
  with both error messages and the name of the fallback backend, the \<^verbatim>\<open>backend_used\<close> of
  the second result, and the key first asked for.
\<close>

theorem fallback_failure_is_terminal:
  assumes run: "run_circuit w data (fresh s) = (out, c')"
  shows "length (invoked c') \<le> 2
         \<and> (\<forall>primary fallback result fallback_result.
               invoked c' = [primary, fallback] \<and> inv_outcome primary = Inr result
               \<and> inv_outcome fallback = Inr fallback_result \<and> has_error fallback_result
               \<longrightarrow> (\<exists>provider_key choice fb first_error second_error used.
                      py_get data ''provider'' VNone = Inr (VStr provider_key)
                      \<and> py_get data ''simulator_choice'' (VStr ''aer_qasm_simulator'') = Inr choice
                      \<and> backend_map_get choice = Inr (Some fb)
                      \<and> inv_runner fallback = runner fb
                      \<and> map_of result ''error'' = Some (VStr first_error)
                      \<and> map_of fallback_result ''error'' = Some (VStr second_error)
                      \<and> map_of fallback_result ''backend_used'' = Some (VStr used)
                      \<and> out = Inr ([(''error'',
                                      VStr (''Original execution on '' @ quoted provider_key
                                            @ '' failed: '' @ first_error @ ''. Fallback to ''
                                            @ quoted (backend_name fb) @ '' also failed: ''
                                            @ second_error)),
                                     (''backend_used'', VStr used),
                                     (''original_backend_attempted'', VStr provider_key)], 500)))"
proof (intro conjI allI impI)
  from invocations_bounded [of w data s] run show "length (invoked c') \<le> 2" by simp
next
  fix primary fallback result fallback_result
  assume a: "invoked c' = [primary, fallback] \<and> inv_outcome primary = Inr result
               \<and> inv_outcome fallback = Inr fallback_result \<and> has_error fallback_result"
  from run_circuit_fresh(2) [OF run] a have "run_path w s data out [primary, fallback]" by simp
  then obtain pk info flag sk tried s1 where
    pk: "py_get data ''provider'' VNone = Inr pk" and info: "backend_map_get pk = Inr (Some info)"
    and sk: "py_get data ''simulator_choice'' (VStr ''aer_qasm_simulator'') = Inr sk"
    and path: "try_path info pk flag sk (usable_bundle w s1) tried [primary, fallback]"
    and out: "out = Inr (finish pk tried)"
    by (rule run_path_tried)
  from info obtain key where key: "pk = VStr key" by (cases pk) simp_all
  from a have first: "inv_outcome primary = Inr result"
    and second: "inv_outcome fallback = Inr fallback_result"
    and failed: "has_error fallback_result" by simp_all
  from path first second obtain fb :: backend_info where
    err: "has_error result" and get: "backend_map_get sk = Inr (Some fb)"
    and plain2: "plain_result fallback_result" and fb: "inv_runner fallback = runner fb"
    and plain1: "plain_result result"
    and tried: "if has_error fallback_result
       then tried = replied (fallback_failed_reply pk (dict_get result ''error'' VNone)
                               (backend_name fb) (dict_get fallback_result ''error'' VNone)
                               fallback_result)
       else (\<exists>m. mark_fallback fallback_result pk (dict_get result ''error'' VNone) = Inr m
               \<and> tried = replied (m, 200))"
    by (rule try_path_two)
  from plain_fields [OF plain1 err] obtain m1 where m1: "map_of result ''error'' = Some (VStr m1)"
    by blast
  from plain_fields [OF plain2 failed] obtain m2 used where
    m2: "map_of fallback_result ''error'' = Some (VStr m2)"
    and used: "map_of fallback_result ''backend_used'' = Some (VStr used)" by blast
  from tried failed have "tried = replied (fallback_failed_reply pk (dict_get result ''error'' VNone)
                               (backend_name fb) (dict_get fallback_result ''error'' VNone)
                               fallback_result)" by simp
  with out have "out = Inr ([(''error'',
                              VStr (''Original execution on '' @ quoted key
                                    @ '' failed: '' @ m1 @ ''. Fallback to ''
                                    @ quoted (backend_name fb) @ '' also failed: '' @ m2)),
                             (''backend_used'', VStr used),
                             (''original_backend_attempted'', VStr key)], 500)"
    by (simp add: finish_replied fallback_failed_reply_def key m1 m2 used dict_get_def py_str_def)
  with pk key sk get fb m1 m2 used
  show "\<exists>provider_key choice fb first_error second_error used.
          py_get data ''provider'' VNone = Inr (VStr provider_key)
          \<and> py_get data ''simulator_choice'' (VStr ''aer_qasm_simulator'') = Inr choice
          \<and> backend_map_get choice = Inr (Some fb)
          \<and> inv_runner fallback = runner fb
          \<and> map_of result ''error'' = Some (VStr first_error)
          \<and> map_of fallback_result ''error'' = Some (VStr second_error)
          \<and> map_of fallback_result ''backend_used'' = Some (VStr used)
          \<and> out = Inr ([(''error'',
                          VStr (''Original execution on '' @ quoted provider_key
                                @ '' failed: '' @ first_error @ ''. Fallback to ''
                                @ quoted (backend_name fb) @ '' also failed: ''
                                @ second_error)),
                         (''backend_used'', VStr used),
                         (''original_backend_attempted'', VStr provider_key)], 500)"
    by blast
qed

text \<open>
  The circuit with the gate \<^verbatim>\<open>foo\<close> on the IonQ device with the Cirq simulator as
  fallback: both reject the gate.
\<close>

theorem fallback_failure_is_terminal_witness:
  "length (invoked (snd ionq_foo_with_cirq_fallback)) = 2
   \<and> fst ionq_foo_with_cirq_fallback
       = Inr ([(''error'',
                VStr (''Original execution on '' @ quoted ''aws_ionq''
                      @ '' failed: Unsupported gate type for IonQ (Braket): foo. Fallback to ''
                      @ quoted ''cirq_simulator''
                      @ '' also failed: Unsupported gate type for Cirq: foo'')),
               (''backend_used'', VStr ''Cirq Local Simulator''),
               (''original_backend_attempted'', VStr ''aws_ionq'')], 500)"
proof -
  let ?c = "snd ionq_foo_with_cirq_fallback"
  let ?data = "request ''aws_ionq'' foo_circuit
                 (fallback_requested @ [(''simulator_choice'', VStr ''google_cirq'')])"
  let ?cirq = "\<lparr>provider = ''cirq'', runner = Run_cirq, backend_name = ''cirq_simulator'',
                provider_type = ''simulator''\<rparr>"
  have run: "run_circuit quiet_sdk ?data (fresh initial_state) = (fst ionq_foo_with_cirq_fallback, ?c)"
    by (simp add: ionq_foo_with_cirq_fallback_def)
  have len: "length (invoked ?c) = 2" by code_simp
  then have trace: "invoked ?c = [hd (invoked ?c), hd (tl (invoked ?c))]" by (rule two_elements)
  have first: "inv_outcome (hd (invoked ?c)) = Inr ionq_unsupported" by code_simp
  have second: "inv_outcome (hd (tl (invoked ?c))) = Inr cirq_unsupported" by code_simp
  have failed: "has_error cirq_unsupported" by code_simp
  have provider: "py_get ?data ''provider'' VNone = Inr (VStr ''aws_ionq'')" by code_simp
  have choice: "py_get ?data ''simulator_choice'' (VStr ''aer_qasm_simulator'')
                = Inr (VStr ''google_cirq'')" by code_simp
  have cirq: "backend_map_get (VStr ''google_cirq'') = Inr (Some ?cirq)"
    by (simp add: BACKEND_MAP_def)
  have e1: "map_of ionq_unsupported ''error''
            = Some (VStr ''Unsupported gate type for IonQ (Braket): foo'')" by code_simp
  have e2: "map_of cirq_unsupported ''error''
            = Some (VStr ''Unsupported gate type for Cirq: foo'')" by code_simp
  have u: "map_of cirq_unsupported ''backend_used'' = Some (VStr ''Cirq Local Simulator'')"
    by code_simp
  note fallback_failure_is_terminal [OF run, THEN conjunct2, rule_format,
      OF conjI [OF trace conjI [OF first conjI [OF second failed]]]]
  then obtain key sk and fb :: backend_info and m1 m2 used where all:
    "py_get ?data ''provider'' VNone = Inr (VStr key)
     \<and> py_get ?data ''simulator_choice'' (VStr ''aer_qasm_simulator'') = Inr sk
     \<and> backend_map_get sk = Inr (Some fb)
     \<and> inv_runner (hd (tl (invoked ?c))) = runner fb
     \<and> map_of ionq_unsupported ''error'' = Some (VStr m1)
     \<and> map_of cirq_unsupported ''error'' = Some (VStr m2)
     \<and> map_of cirq_unsupported ''backend_used'' = Some (VStr used)
     \<and> fst ionq_foo_with_cirq_fallback
        = Inr ([(''error'',
                 VStr (''Original execution on '' @ quoted key @ '' failed: '' @ m1
                       @ ''. Fallback to '' @ quoted (backend_name fb) @ '' also failed: '' @ m2)),
                (''backend_used'', VStr used),
                (''original_backend_attempted'', VStr key)], 500)"
    by (elim exE) (rule that)
  note r1 = all [THEN conjunct2]
  note r2 = r1 [THEN conjunct2]
  note r3 = r2 [THEN conjunct2]
  note r4 = r3 [THEN conjunct2]
  note r5 = r4 [THEN conjunct2]
  note r6 = r5 [THEN conjunct2]
  from all [THEN conjunct1] have key: "key = ''aws_ionq''" unfolding provider by simp
  from r1 [THEN conjunct1] have sk: "sk = VStr ''google_cirq''" unfolding choice by simp
  from r2 [THEN conjunct1] have fb: "fb = ?cirq" unfolding sk cirq by simp
  from r4 [THEN conjunct1] have m1: "m1 = ''Unsupported gate type for IonQ (Braket): foo''"
    unfolding e1 by simp
  from r5 [THEN conjunct1] have m2: "m2 = ''Unsupported gate type for Cirq: foo''"
    unfolding e2 by simp
  from r6 [THEN conjunct1] have used: "used = ''Cirq Local Simulator''" unfolding u by simp
  have reply: "fst ionq_foo_with_cirq_fallback
       = Inr ([(''error'',
                VStr (''Original execution on '' @ quoted ''aws_ionq''
                      @ '' failed: Unsupported gate type for IonQ (Braket): foo. Fallback to ''
                      @ quoted ''cirq_simulator''
                      @ '' also failed: Unsupported gate type for Cirq: foo'')),
               (''backend_used'', VStr ''Cirq Local Simulator''),
               (''original_backend_attempted'', VStr ''aws_ionq'')], 500)"
    using r6 [THEN conjunct2] unfolding key fb m1 m2 used by simp
  show ?thesis by (rule conjI [OF len reply])
qed

section \<open>States the handlers reach\<close>

text \<open>
  Both handlers keep every reference of the store below the next free one, and a request
  keeps the saved bundles what they are. The process starts with an empty store.
\<close>

lemma update_entries:
  "e \<in> set (AList.update k v al) \<Longrightarrow> e = (k, v) \<or> e \<in> set al"
  by (induction al) (auto split: if_splits)

lemma stored_below_save:
  assumes "stored_below (app c)"
  shows "stored_below (app (snd (save_credentials data c)))"
proof -
  have put: "stored_below (app (snd (mbind (new_object v) (\<lambda>r. mbind (store_put name r) (\<lambda>u.
                respond body 200)) c)))" for v name body
    using assms
    by (auto simp: stored_below_def list_all_iff mbind_def new_object_def store_put_def
          respond_run dest!: update_entries)
  show ?thesis
    using assms put
    by (auto simp: save_credentials_def respond_run mbind_def lift_def
          split: sum.splits pyval.splits)
qed

lemma stored_below_run:
  assumes "stored_below s" and "run_circuit w data (fresh s) = (out, c')"
  shows "stored_below (app c')"
proof -
  from assms(2) have "unchanged_below s (app c')" by (rule run_circuit_fresh(1))
  with assms(1) show ?thesis
    by (auto simp: stored_below_def unchanged_below_def list_all_iff)
qed

lemma bundles_are_dicts_run:
  assumes "stored_below s" and "bundles_are_dicts s"
    and "run_circuit w data (fresh s) = (out, c')"
  shows "bundles_are_dicts (app c')"
proof -
  from assms(3) have "unchanged_below s (app c')" by (rule run_circuit_fresh(1))
  with assms(1,2) show ?thesis
    by (auto simp: stored_below_def bundles_are_dicts_def unchanged_below_def list_all_iff)
qed

section \<open>When a fallback is attempted\<close>

text \<open>
  C1, as the specification states it, does not hold. A request for a device that asks for a
  fallback and has no \<^verbatim>\<open>simulator_choice\<close> gets the fallback, on the Aer simulator, which is
  the default of that field. And a request that does not ask for a fallback and names an
  unknown key gets the failure of the device as it is, with no word of a rejected fallback.
\<close>

theorem fallback_follows_omitted_choice:
  "py_getitem (request ''aws_ionq'' bell fallback_requested) ''simulator_choice''
     = Inl (KeyError (VStr ''simulator_choice''))
   \<and> map inv_runner (invoked (snd ionq_bell_with_fallback)) = [Run_ionq, Run_aer]
   \<and> fst ionq_bell_unknown_choice = Inr (ionq_no_credentials, 500)"
  by code_simp

text \<open>
  C1, amended. In a process whose saved bundles are dictionaries, for every request whose
  primary runner returned a failure: a fallback runner is called if and only if the primary
  backend is a device (\<^verbatim>\<open>qpu\<close>), the request's \<^verbatim>\<open>use_simulator_if_qpu_fails\<close> is true, and
  \<^verbatim>\<open>simulator_choice\<close>, which is \<^verbatim>\<open>aer_qasm_simulator\<close> when the request has none, is the key
  of a simulator in the registry. When the backend is a device and the fallback is asked for
  but the key is not one of a simulator, no fallback runner is called and the reply, with
  status 500, is the original failure followed by \<^verbatim>\<open>Invalid fallback simulator choice\<close>,
  the key and \<^verbatim>\<open>Cannot proceed.\<close> (or, for a key that cannot be looked up, the reply to an
  unexpected error). When the backend is no device or no fallback is asked for, no fallback
  runner is called and the reply, with status 500, is the original failure as it is.
\<close>

theorem fallback_eligibility:
  assumes below: "stored_below s" and dicts: "bundles_are_dicts s"
    and run: "run_circuit w data (fresh s) = (out, c')"
    and trace: "invoked c' = primary # rest"
    and outcome: "inv_outcome primary = Inr result" and failed: "has_error result"
    and provider: "py_get data ''provider'' VNone = Inr provider_key"
    and info: "backend_map_get provider_key = Inr (Some info)"
    and flag: "py_get data ''use_simulator_if_qpu_fails'' (VBool False) = Inr flag"
    and choice: "py_get data ''simulator_choice'' (VStr ''aer_qasm_simulator'') = Inr choice"
  shows "\<exists>failure used.
           map_of result ''error'' = Some (VStr failure)
           \<and> map_of result ''backend_used'' = Some (VStr used)
           \<and> (if provider_type info = ''qpu'' \<and> py_truthy flag then
                 if resolves_to_simulator choice then rest \<noteq> []
                 else rest = []
                      \<and> out = Inr (case backend_map_get choice of
                                     Inl e \<Rightarrow>
                                       ([(''error'', VStr (''An unexpected error occurred: ''
                                                           @ exc_str e)),
                                         (''backend_used'', provider_key)], 500)
                                   | Inr fb \<Rightarrow>
                                       ([(''error'',
                                          VStr (''Original execution on ''
                                                @ quoted (py_str provider_key) @ '' failed: ''
                                                @ failure
                                                @ ''. Invalid fallback simulator choice: ''
                                                @ py_str choice @ ''. Cannot proceed.'')),
                                         (''backend_used'', VStr used)], 500))
               else rest = []
                    \<and> out = Inr ([(''error'', VStr failure), (''backend_used'', VStr used)], 500))"
proof -
  from run_circuit_fresh(2) [OF run] trace have "run_path w s data out (primary # rest)" by simp
  then obtain pk info' flag' sk tried s1 where
    got: "py_get data ''provider'' VNone = Inr pk"
      "py_get data ''use_simulator_if_qpu_fails'' (VBool False) = Inr flag'"
      "py_get data ''simulator_choice'' (VStr ''aer_qasm_simulator'') = Inr sk"
      "backend_map_get pk = Inr (Some info')"
    and s1: "unchanged_below s s1"
    and path: "try_path info' pk flag' sk (usable_bundle w s1) tried (primary # rest)"
    and out: "out = Inr (finish pk tried)"
    by (rule run_path_tried)
  from got provider info flag choice have same: "pk = provider_key" "info' = info" "flag' = flag"
    "sk = choice" by simp_all
  have usable: "usable_bundle w s1 fb" for fb
    using below dicts s1 by (rule usable_after)
  from path outcome have plain: "plain_result result"
    by (auto simp: try_path_def split: if_splits sum.splits option.splits)
  from plain_fields [OF plain failed] obtain failure used where
    failure: "map_of result ''error'' = Some (VStr failure)"
    and used: "map_of result ''backend_used'' = Some (VStr used)" by blast
  then have fields: "dict_get result ''error'' VNone = VStr failure"
    "dict_get result ''backend_used'' (VStr ''None'') = VStr used"
    by (simp_all add: dict_get_def)
  note sim = resolves_to_simulator_iff [of choice]
  let ?plain = "([(''error'', VStr failure), (''backend_used'', VStr used)], 500)"
  let ?rejected = "case backend_map_get choice of
                     Inl e \<Rightarrow>
                       ([(''error'', VStr (''An unexpected error occurred: '' @ exc_str e)),
                         (''backend_used'', provider_key)], 500)
                   | Inr fb \<Rightarrow>
                       ([(''error'',
                          VStr (''Original execution on '' @ quoted (py_str provider_key)
                                @ '' failed: '' @ failure
                                @ ''. Invalid fallback simulator choice: ''
                                @ py_str choice @ ''. Cannot proceed.'')),
                         (''backend_used'', VStr used)], 500)"
  have primary_reply: "finish pk (replied (primary_failed_reply (VStr failure) result)) = ?plain"
    by (simp add: finish_replied primary_failed_reply_def fields)
  have invalid_reply:
    "finish pk (replied (invalid_fallback_reply provider_key (VStr failure) choice result))
     = ([(''error'',
          VStr (''Original execution on '' @ quoted (py_str provider_key)
                @ '' failed: '' @ failure
                @ ''. Invalid fallback simulator choice: ''
                @ py_str choice @ ''. Cannot proceed.'')),
         (''backend_used'', VStr used)], 500)"
    by (simp add: finish_replied invalid_fallback_reply_def fields py_str_def)
  have branches:
    "if provider_type info = ''qpu'' \<and> py_truthy flag then
       if resolves_to_simulator choice then rest \<noteq> []
       else rest = [] \<and> out = Inr ?rejected
     else rest = [] \<and> out = Inr ?plain"
  proof (cases "provider_type info = ''qpu'' \<and> py_truthy flag")
    case False
    then have c: "(provider_type info = ''qpu'' \<and> py_truthy flag) = False" by simp
    from False path outcome failed have
      "rest = [] \<and> tried = replied (primary_failed_reply (dict_get result ''error'' VNone) result)"
      unfolding same
      by (auto simp: try_path_def split: if_splits sum.splits option.splits)
    with out have "rest = [] \<and> out = Inr ?plain"
      by (simp add: fields primary_reply)
    then show ?thesis unfolding c by simp
  next
    case True
    then have c: "(provider_type info = ''qpu'' \<and> py_truthy flag) = True" by simp
    show ?thesis
    proof (cases "resolves_to_simulator choice")
      case yes: True
      then have r: "resolves_to_simulator choice = True" by simp
      from yes path outcome failed True have "rest \<noteq> []"
        unfolding same sim
        by (auto simp: try_path_def usable split: if_splits sum.splits option.splits)
      then show ?thesis unfolding c r by simp
    next
      case no: False
      then have r: "resolves_to_simulator choice = False" by simp
      from no path outcome failed True have
        "rest = []
         \<and> finish provider_key tried
             = (case backend_map_get choice of
                  Inl e \<Rightarrow> unexpected_reply provider_key e
                | Inr fb \<Rightarrow>
                    finish provider_key
                      (replied (invalid_fallback_reply provider_key (VStr failure) choice result)))"
        unfolding same sim
        by (auto simp: try_path_def finish_def fields split: if_splits sum.splits option.splits)
      with out same have "rest = [] \<and> out = Inr ?rejected"
        using invalid_reply
        by (simp add: unexpected_reply_def split: sum.splits)
      then show ?thesis unfolding c r by simp
    qed
  qed
  from failure used branches show ?thesis by blast
qed

text \<open>
  The Bell circuit on the IonQ device with the fallback asked for: with the default choice
  the Aer runner is called; with the Rigetti device as choice no runner is, and the reply
  names the rejected key.
\<close>

theorem fallback_eligibility_witness:
  "tl (invoked (snd ionq_bell_with_fallback)) \<noteq> []
   \<and> tl (invoked (snd ionq_bell_with_qpu_fallback)) = []
   \<and> fst ionq_bell_with_qpu_fallback
       = Inr ([(''error'',
                VStr (''Original execution on '' @ quoted ''aws_ionq'' @ '' failed: ''
                      @ missing_aws_credentials
                      @ ''. Invalid fallback simulator choice: aws_rigetti. Cannot proceed.'')),
               (''backend_used'', VStr ''ionq/qpu'')], 500)"
proof -
  let ?ionq = "\<lparr>provider = ''ionq'', runner = Run_ionq, backend_name = ''ionq/qpu'',
                provider_type = ''qpu''\<rparr>"
  let ?rigetti = "\<lparr>provider = ''rigetti'', runner = Run_rigetti, backend_name = ''rigetti/qpu'',
                   provider_type = ''qpu''\<rparr>"
  have info: "backend_map_get (VStr ''aws_ionq'') = Inr (Some ?ionq)"
    by (simp add: BACKEND_MAP_def)
  have rigetti: "backend_map_get (VStr ''aws_rigetti'') = Inr (Some ?rigetti)"
    by (simp add: BACKEND_MAP_def)
  have eligible: "(provider_type ?ionq = ''qpu'' \<and> py_truthy (VBool True)) = True" by simp
  have failed: "has_error ionq_no_credentials" by code_simp
  have message: "map_of ionq_no_credentials ''error'' = Some (VStr missing_aws_credentials)"
    by code_simp
  have backend: "map_of ionq_no_credentials ''backend_used'' = Some (VStr ''ionq/qpu'')"
    by code_simp
  let ?data1 = "request ''aws_ionq'' bell fallback_requested"
  let ?c1 = "snd ionq_bell_with_fallback"
  have run1: "run_circuit quiet_sdk ?data1 (fresh initial_state) = (fst ionq_bell_with_fallback, ?c1)"
    by (simp add: ionq_bell_with_fallback_def)
  have "length (invoked ?c1) = Suc 1" by code_simp
  then have trace1: "invoked ?c1 = hd (invoked ?c1) # tl (invoked ?c1)" by (rule first_and_rest)
  have outcome1: "inv_outcome (hd (invoked ?c1)) = Inr ionq_no_credentials" by code_simp
  have provider1: "py_get ?data1 ''provider'' VNone = Inr (VStr ''aws_ionq'')" by code_simp
  have flag1: "py_get ?data1 ''use_simulator_if_qpu_fails'' (VBool False) = Inr (VBool True)"
    by code_simp
  have choice1: "py_get ?data1 ''simulator_choice'' (VStr ''aer_qasm_simulator'')
                 = Inr (VStr ''aer_qasm_simulator'')" by code_simp
  have resolves1: "resolves_to_simulator (VStr ''aer_qasm_simulator'') = True" by code_simp
  from fallback_eligibility [OF initial_state_wellformed run1 trace1 outcome1 failed provider1 info
      flag1 choice1]
  obtain failure1 used1 where one:
    "map_of ionq_no_credentials ''error'' = Some (VStr failure1)
     \<and> map_of ionq_no_credentials ''backend_used'' = Some (VStr used1)
     \<and> tl (invoked ?c1) \<noteq> []"
    unfolding eligible resolves1 if_True by (elim exE) (rule that)
  note accepted = one [THEN conjunct2, THEN conjunct2]
  let ?data2 = "request ''aws_ionq'' bell
                  (fallback_requested @ [(''simulator_choice'', VStr ''aws_rigetti'')])"
  let ?c2 = "snd ionq_bell_with_qpu_fallback"
  have run2: "run_circuit quiet_sdk ?data2 (fresh initial_state)
              = (fst ionq_bell_with_qpu_fallback, ?c2)"
    by (simp add: ionq_bell_with_qpu_fallback_def)
  have "length (invoked ?c2) = Suc 0" by code_simp
  then have trace2: "invoked ?c2 = hd (invoked ?c2) # tl (invoked ?c2)" by (rule first_and_rest)
  have outcome2: "inv_outcome (hd (invoked ?c2)) = Inr ionq_no_credentials" by code_simp
  have provider2: "py_get ?data2 ''provider'' VNone = Inr (VStr ''aws_ionq'')" by code_simp
  have flag2: "py_get ?data2 ''use_simulator_if_qpu_fails'' (VBool False) = Inr (VBool True)"
    by code_simp
  have choice2: "py_get ?data2 ''simulator_choice'' (VStr ''aer_qasm_simulator'')
                 = Inr (VStr ''aws_rigetti'')" by code_simp
  have resolves2: "resolves_to_simulator (VStr ''aws_rigetti'') = False" by code_simp
  from fallback_eligibility [OF initial_state_wellformed run2 trace2 outcome2 failed provider2 info
      flag2 choice2]
  obtain failure2 used2 where two:
    "map_of ionq_no_credentials ''error'' = Some (VStr failure2)
     \<and> map_of ionq_no_credentials ''backend_used'' = Some (VStr used2)
     \<and> tl (invoked ?c2) = []
     \<and> fst ionq_bell_with_qpu_fallback
        = Inr ([(''error'',
                 VStr (''Original execution on '' @ quoted (py_str (VStr ''aws_ionq''))
                       @ '' failed: '' @ failure2
                       @ ''. Invalid fallback simulator choice: ''
                       @ py_str (VStr ''aws_rigetti'') @ ''. Cannot proceed.'')),
                (''backend_used'', VStr used2)], 500)"
    unfolding eligible resolves2 rigetti if_True if_False sum.case by (elim exE) (rule that)
  from two [THEN conjunct1] have f2: "failure2 = missing_aws_credentials" unfolding message by simp
  from two [THEN conjunct2, THEN conjunct1] have u2: "used2 = ''ionq/qpu''"
    unfolding backend by simp
  note none = two [THEN conjunct2, THEN conjunct2, THEN conjunct1]
  have reply: "fst ionq_bell_with_qpu_fallback
       = Inr ([(''error'',
                VStr (''Original execution on '' @ quoted ''aws_ionq'' @ '' failed: ''
                      @ missing_aws_credentials
                      @ ''. Invalid fallback simulator choice: aws_rigetti. Cannot proceed.'')),
               (''backend_used'', VStr ''ionq/qpu'')], 500)"
    using two [THEN conjunct2, THEN conjunct2, THEN conjunct2] unfolding f2 u2
    by (simp add: py_str_def)
  show ?thesis by (rule conjI [OF accepted conjI [OF none reply]])
qed

section \<open>Saved credentials\<close>

text \<open>
  C10. In a process where every reference of the store is to an existing object, a request
  leaves the store as it was and the object saved for a provider family as it was, and the
  bundle a resolution reads for that family is still the saved one. When the saved object is
  a dictionary, resolving the family after the request gives a new object, other than the
  saved one, with the contents that were saved.
\<close>

theorem run_keeps_saved_credentials:
  assumes below: "stored_below s"
    and saved: "map_of (store s) p = Some r"
    and run: "run_circuit w data (fresh s) = (out, c')"
  shows "store (app c') = store s \<and> heap (app c') r = heap s r
         \<and> resolved_bundle w (app c') p = heap s r
         \<and> (\<forall>d. heap s r = VDict d \<longrightarrow>
               (\<exists>copy c''. get_credentials_for_provider w p c' = (Inr copy, c'')
                  \<and> copy \<noteq> r \<and> heap (app c'') copy = VDict d \<and> heap (app c'') r = VDict d
                  \<and> store (app c'') = store s))"
proof -
  from run have same: "unchanged_below s (app c')" by (rule run_circuit_fresh(1))
  from saved have "(p, r) \<in> set (store s)" by (rule map_of_SomeD)
  with below have r: "r < next_ref s" by (auto simp: stored_below_def list_all_iff)
  from same have st: "store (app c') = store s" by (simp add: unchanged_below_def)
  from same r have hp: "heap (app c') r = heap s r" by (simp add: unchanged_below_def)
  from same r have fresh_ref: "next_ref (app c') \<noteq> r" by (simp add: unchanged_below_def)
  from st hp saved have res: "resolved_bundle w (app c') p = heap s r"
    by (simp add: resolved_bundle_def)
  have "\<exists>copy c''. get_credentials_for_provider w p c' = (Inr copy, c'')
          \<and> copy \<noteq> r \<and> heap (app c'') copy = VDict d \<and> heap (app c'') r = VDict d
          \<and> store (app c'') = store s" if "heap s r = VDict d" for d
    using that st hp saved fresh_ref
    by (simp add: get_credentials_for_provider_def new_object_def)
  with st hp res show ?thesis by blast
qed

text \<open>
  A bundle saved for \<^verbatim>\<open>ionq\<close>, then the Bell circuit on the local Braket simulator: the
  runner was given the bundle with the three fields the handler adds, and the saved bundle is
  unchanged.
\<close>

theorem run_keeps_saved_credentials_witness:
  "store (app (snd local_bell_after_save)) = [(''ionq'', 0)]
   \<and> heap (app (snd local_bell_after_save)) 0 = VDict saved_bundle
   \<and> map inv_credentials (invoked (snd local_bell_after_save))
       = [saved_bundle @ [(''backend_name'', VStr ''local''), (''shots'', VInt 1024),
                          (''simulator_choice'', VStr ''aer_qasm_simulator'')]]
   \<and> (\<exists>copy c''. get_credentials_for_provider quiet_sdk ''ionq'' (snd local_bell_after_save)
                     = (Inr copy, c'')
          \<and> copy \<noteq> 0 \<and> heap (app c'') copy = VDict saved_bundle
          \<and> heap (app c'') 0 = VDict saved_bundle
          \<and> store (app c'') = [(''ionq'', 0)])"
proof -
  let ?c = "snd local_bell_after_save"
  have below: "stored_below after_save" by code_simp
  have saved: "map_of (store after_save) ''ionq'' = Some 0" by code_simp
  have run: "run_circuit quiet_sdk (request ''aws_local'' bell []) (fresh after_save)
             = (fst local_bell_after_save, ?c)"
    by (simp add: local_bell_after_save_def)
  have st: "store after_save = [(''ionq'', 0)]" by code_simp
  have hp: "heap after_save 0 = VDict saved_bundle" by code_simp
  have used: "map inv_credentials (invoked ?c)
       = [saved_bundle @ [(''backend_name'', VStr ''local''), (''shots'', VInt 1024),
                          (''simulator_choice'', VStr ''aer_qasm_simulator'')]]"
    by code_simp
  note kept = run_keeps_saved_credentials [OF below saved run]
  note store_kept = kept [THEN conjunct1]
  note heap_kept = kept [THEN conjunct2, THEN conjunct1]
  note again = kept [THEN conjunct2, THEN conjunct2, THEN conjunct2, rule_format, OF hp]
  show ?thesis
    using store_kept heap_kept used again unfolding st hp
    by (intro conjI)
qed

end
